theory Spec2Isabelle
  imports Main
begin

chapter \<open>tebexsync-bot: the ticket handler and the transcript generator\<close>

text \<open>
  A shallow embedding of \<^verbatim>\<open>handlers/ticket_handler.ts\<close> (class \<^verbatim>\<open>Ticket\<close>) and
  \<^verbatim>\<open>utils/transcript_generator.ts\<close>.

  Strings are lists of code units; the model keeps to the code units below 256
  (\<^typ>\<open>char\<close>), among which the line terminators of ECMAScript are LF and CR and the
  white space of \<^verbatim>\<open>trim\<close> is TAB, LF, VT, FF, CR, SP and NBSP. The file of the handler
  holds each pictograph of its string literals as four characters, one per byte of the
  pictograph's UTF-8 encoding; the model writes these four characters as the four bytes.
\<close>

section \<open>Strings and the regular expressions of the source\<close>

text \<open>\<^verbatim>\<open>s.startsWith(p)\<close>.\<close>

fun startsWith :: "string \<Rightarrow> string \<Rightarrow> bool" where
  "startsWith s [] = True"
| "startsWith [] (p # ps) = False"
| "startsWith (c # cs) (p # ps) = (c = p \<and> startsWith cs ps)"

text \<open>\<^verbatim>\<open>s.includes(sub)\<close>.\<close>

fun str_includes :: "string \<Rightarrow> string \<Rightarrow> bool" where
  "str_includes [] sub = (sub = [])"
| "str_includes (c # cs) sub = (startsWith (c # cs) sub \<or> str_includes cs sub)"

text \<open>\<^verbatim>\<open>xs.join(sep)\<close>.\<close>

fun join :: "string \<Rightarrow> string list \<Rightarrow> string" where
  "join sep [] = []"
| "join sep [x] = x"
| "join sep (x # y # ys) = x @ sep @ join sep (y # ys)"

definition isLineTerminator :: "char \<Rightarrow> bool" where
  "isLineTerminator c = (c = CHR 0x0A \<or> c = CHR 0x0D)"

text \<open>What \<^verbatim>\<open>.\<close> matches: every code unit under the flag \<^verbatim>\<open>s\<close>, every code unit but
  a line terminator without it.\<close>

definition dotChar :: "bool \<Rightarrow> char \<Rightarrow> bool" where
  "dotChar dotAll c = (dotAll \<or> \<not> isLineTerminator c)"

definition isDigit :: "char \<Rightarrow> bool" where
  "isDigit c = (48 \<le> (of_char c :: nat) \<and> (of_char c :: nat) \<le> 57)"

definition isWhiteSpace :: "char \<Rightarrow> bool" where
  "isWhiteSpace c = (c \<in> {CHR 0x09, CHR 0x0A, CHR 0x0B, CHR 0x0C, CHR 0x0D, CHR 0x20, CHR 0xA0})"

text \<open>\<^verbatim>\<open>s.trim()\<close>.\<close>

definition trim :: "string \<Rightarrow> string" where
  "trim s = rev (dropWhile isWhiteSpace (rev (dropWhile isWhiteSpace s)))"

text \<open>
  The lazy group \<^verbatim>\<open>(.*?)\<close> followed by the literal \<^verbatim>\<open>cl\<close>, matched against the text
  after the opening literal: the length of the shortest run of \<^verbatim>\<open>.\<close> characters after
  which \<^verbatim>\<open>cl\<close> stands, if there is one.
\<close>

fun lazyBody :: "bool \<Rightarrow> string \<Rightarrow> string \<Rightarrow> nat option" where
  "lazyBody dotAll cl [] = (if cl = [] then Some 0 else None)"
| "lazyBody dotAll cl (c # cs) =
     (if startsWith (c # cs) cl then Some 0
      else if dotChar dotAll c then map_option Suc (lazyBody dotAll cl cs)
      else None)"

text \<open>
  \<^verbatim>\<open>s.replace(/op(.*?)cl/g, ...)\<close> for literals \<^verbatim>\<open>op\<close> and \<^verbatim>\<open>cl\<close>: the text is scanned
  from the left; where the pattern matches, \<^verbatim>\<open>f\<close> of the captured group is written and
  the scan goes on behind the match, elsewhere the character is copied.
\<close>

fun replaceLazy :: "string \<Rightarrow> string \<Rightarrow> bool \<Rightarrow> (string \<Rightarrow> string) \<Rightarrow> string \<Rightarrow> string" where
  "replaceLazy op cl dotAll f [] = []"
| "replaceLazy op cl dotAll f (c # cs) =
     (if startsWith (c # cs) op then
        (case lazyBody dotAll cl (drop (length op) (c # cs)) of
           Some k \<Rightarrow> f (take k (drop (length op) (c # cs)))
                     @ replaceLazy op cl dotAll f (drop (length op + k + length cl - 1) cs)
         | None \<Rightarrow> c # replaceLazy op cl dotAll f cs)
      else c # replaceLazy op cl dotAll f cs)"

text \<open>\<^verbatim>\<open>s.match(/op.*?cl/g)\<close>: the matches, in order (the empty list for \<^verbatim>\<open>null\<close>).\<close>

fun matchAllLazy :: "string \<Rightarrow> string \<Rightarrow> bool \<Rightarrow> string \<Rightarrow> string list" where
  "matchAllLazy op cl dotAll [] = []"
| "matchAllLazy op cl dotAll (c # cs) =
     (if startsWith (c # cs) op then
        (case lazyBody dotAll cl (drop (length op) (c # cs)) of
           Some k \<Rightarrow> take (length op + k + length cl) (c # cs)
                     # matchAllLazy op cl dotAll (drop (length op + k + length cl - 1) cs)
         | None \<Rightarrow> matchAllLazy op cl dotAll cs)
      else matchAllLazy op cl dotAll cs)"

lemma length_dropWhile_drop:
  "length (dropWhile P (drop n cs)) - m < Suc (length cs)"
proof -
  have "length (dropWhile P (drop n cs)) \<le> length (drop n cs)"
    by (rule length_dropWhile_le)
  then show ?thesis by simp
qed

text \<open>
  \<^verbatim>\<open>s.replace(/^&gt; (.+)$/gm, '<div class="quote">$1</div>')\<close>. The flag says whether the
  position is the start of a line; the greedy group takes the rest of the line, which
  must not be empty.
\<close>

function replaceQuote :: "bool \<Rightarrow> string \<Rightarrow> string" where
  \<open>replaceQuote atStart [] = []\<close>
| \<open>replaceQuote atStart (c # cs) =
     (if atStart \<and> startsWith (c # cs) ''&gt; '' \<and> takeWhile (dotChar False) (drop 4 cs) \<noteq> [] then
        ''<div class="quote">'' @ takeWhile (dotChar False) (drop 4 cs) @ ''</div>''
        @ replaceQuote False (dropWhile (dotChar False) (drop 4 cs))
      else c # replaceQuote (isLineTerminator c) cs)\<close>
  by pat_completeness auto
termination
  by (relation "measure (\<lambda>(atStart, s). length s)")
     (auto simp: length_dropWhile_drop [where m = 0, simplified])

text \<open>
  \<^verbatim>\<open>s.replace(/&lt;@(\d+)&gt;/g, rep)\<close> and the same with \<^verbatim>\<open>#\<close>: \<^verbatim>\<open>sigil\<close> is the
  character after \<^verbatim>\<open>&lt;\<close>.
\<close>

function replaceMention :: "char \<Rightarrow> string \<Rightarrow> string \<Rightarrow> string" where
  "replaceMention sigil rep [] = []"
| "replaceMention sigil rep (c # cs) =
     (if startsWith (c # cs) (''&lt;'' @ [sigil]) \<and> takeWhile isDigit (drop 4 cs) \<noteq> []
         \<and> startsWith (dropWhile isDigit (drop 4 cs)) ''&gt;'' then
        rep @ replaceMention sigil rep (drop 4 (dropWhile isDigit (drop 4 cs)))
      else c # replaceMention sigil rep cs)"
  by pat_completeness auto
termination
  by (relation "measure (\<lambda>(sigil, rep, s). length s)")
     (auto simp: length_dropWhile_drop)

section \<open>The transcript generator\<close>

subsection \<open>escapeHtml and formatDiscordMarkdown\<close>

definition escapeChar :: "char \<Rightarrow> string" where
  "escapeChar c =
     (if c = CHR ''&'' then ''&amp;''
      else if c = CHR ''<'' then ''&lt;''
      else if c = CHR ''>'' then ''&gt;''
      else if c = CHR 0x22 then ''&quot;''
      else if c = CHR 0x27 then ''&#039;''
      else [c])"

definition escapeHtml :: "string \<Rightarrow> string" where
  "escapeHtml text = concat (map escapeChar text)"

definition wrapTag :: "string \<Rightarrow> string \<Rightarrow> string \<Rightarrow> string" where
  "wrapTag l r body = l @ body @ r"

definition replaceLineBreaks :: "string \<Rightarrow> string" where
  "replaceLineBreaks s = concat (map (\<lambda>c. if c = CHR 0x0A then ''<br>'' else [c]) s)"

definition formatDiscordMarkdown :: "string \<Rightarrow> string" where
  \<open>formatDiscordMarkdown text =
     (let formatted = escapeHtml text;
          formatted = replaceLazy ''**'' ''**'' False (wrapTag ''<strong>'' ''</strong>'') formatted;
          formatted = replaceLazy ''*'' ''*'' False (wrapTag ''<em>'' ''</em>'') formatted;
          formatted = replaceLazy ''__'' ''__'' False (wrapTag ''<u>'' ''</u>'') formatted;
          formatted = replaceLazy ''~~'' ''~~'' False (wrapTag ''<s>'' ''</s>'') formatted;
          formatted = replaceLazy ''```'' ''```'' True (wrapTag ''<pre><code>'' ''</code></pre>'') formatted;
          formatted = replaceLazy ''`'' ''`'' False (wrapTag ''<code>'' ''</code>'') formatted;
          formatted = replaceQuote True formatted;
          formatted = replaceMention (CHR ''@'') ''<span class="mention">@User</span>'' formatted;
          formatted = replaceMention (CHR ''#'') ''<span class="mention">#channel</span>'' formatted;
          formatted = replaceLineBreaks formatted
      in formatted)\<close>

text \<open>
  What a browser shows for a piece of the generated document, as far as the transform
  can produce it: tags are not shown, \<^verbatim>\<open><br>\<close> breaks the line and the five character
  references of \<^const>\<open>escapeChar\<close> show the character they stand for. This is the reading
  of "visible text" used to state idempotence; it is not a function of the source.
\<close>

function visibleText :: "string \<Rightarrow> string" where
  "visibleText [] = []"
| "visibleText (c # cs) =
     (if startsWith (c # cs) ''<br>'' then CHR 0x0A # visibleText (drop 3 cs)
      else if c = CHR ''<'' \<and> CHR ''>'' \<in> set cs then
        visibleText (drop 1 (dropWhile (\<lambda>x. x \<noteq> CHR ''>'') cs))
      else if startsWith (c # cs) ''&amp;'' then CHR ''&'' # visibleText (drop 4 cs)
      else if startsWith (c # cs) ''&lt;'' then CHR ''<'' # visibleText (drop 3 cs)
      else if startsWith (c # cs) ''&gt;'' then CHR ''>'' # visibleText (drop 3 cs)
      else if startsWith (c # cs) ''&quot;'' then CHR 0x22 # visibleText (drop 5 cs)
      else if startsWith (c # cs) ''&#039;'' then CHR 0x27 # visibleText (drop 5 cs)
      else c # visibleText cs)"
  by pat_completeness auto
termination
  by (relation "measure length")
     (auto simp: length_dropWhile_drop [where n = 0, simplified])

subsection \<open>The message log and the filter of generateTicketTranscript\<close>

type_synonym snowflake = string
type_synonym timestamp = nat

text \<open>A row of \<^verbatim>\<open>TicketMessages\<close> (\<^verbatim>\<open>TicketMessageData\<close> with the ticket it belongs to).\<close>

record TicketMessage =
  m_id :: nat
  m_ticket :: nat
  m_authorId :: snowflake
  m_displayName :: string
  m_avatar :: "string option"
  m_content :: "string option"
  m_editedAt :: "timestamp option"
  m_sentAt :: timestamp

text \<open>\<^verbatim>\<open>msg.content?.includes('<EMBED:')\<close>: a null content gives \<^verbatim>\<open>undefined\<close>, which is falsy.\<close>

definition hasEmbedMarker :: "TicketMessage \<Rightarrow> bool" where
  "hasEmbedMarker msg =
     (case m_content msg of None \<Rightarrow> False | Some c \<Rightarrow> str_includes c ''<EMBED:'')"

text \<open>The callback of \<^verbatim>\<open>ticket.messages.filter((msg, index, arr) => ...)\<close>; \<^verbatim>\<open>n\<close> is
  \<^verbatim>\<open>arr.length\<close>, at least 1 whenever the callback runs.\<close>

definition keepMessage :: "nat \<Rightarrow> nat \<times> TicketMessage \<Rightarrow> bool" where
  "keepMessage n = (\<lambda>(index, msg).
     if index = 0 \<and> hasEmbedMarker msg then False
     else if index + 1 = n \<and> hasEmbedMarker msg then False
     else True)"

definition filterMessages :: "TicketMessage list \<Rightarrow> TicketMessage list" where
  "filterMessages arr = map snd (filter (keepMessage (length arr)) (enumerate 0 arr))"

text \<open>
  From \<^verbatim>\<open>generateHTML\<close>: \<^verbatim>\<open>msg.content.match(/<EMBED:.*?>/gs)\<close> and the text left for the
  \<^verbatim>\<open>message-content\<close> block, \<^verbatim>\<open>msg.content.replace(/<EMBED:.*?>/gs, '').trim()\<close> when there
  is a match and the content itself otherwise.
\<close>

definition embedMatches :: "string \<Rightarrow> string list" where
  "embedMatches content = matchAllLazy ''<EMBED:'' ''>'' True content"

definition textContent :: "string \<Rightarrow> string" where
  "textContent content =
     (if embedMatches content = [] then content
      else trim (replaceLazy ''<EMBED:'' ''>'' True (\<lambda>body. []) content))"

text \<open>
  A message is rich-content-only when \<^verbatim>\<open>generateHTML\<close> finds an embed marker in it and
  is left with no plain text to render.
\<close>

definition richContentOnly :: "TicketMessage \<Rightarrow> bool" where
  "richContentOnly msg =
     (case m_content msg of None \<Rightarrow> False
      | Some c \<Rightarrow> embedMatches c \<noteq> [] \<and> textContent c = [])"

section \<open>The ticket handler: data\<close>

record User =
  u_id :: snowflake
  u_username :: string
  u_displayName :: string
  u_avatar :: "string option"

record TextChannel =
  ch_id :: snowflake
  ch_name :: string

text \<open>An instance of the class \<^verbatim>\<open>Ticket\<close>.\<close>

record Ticket =
  ticketId :: nat
  channel :: TextChannel

record TicketCategoryField =
  f_id :: nat
  f_label :: string
  f_placeholder :: "string option"
  f_required :: nat
  f_short_field :: nat
  f_min_length :: "nat option"
  f_max_length :: "nat option"

record TicketCategoryData =
  c_id :: nat
  c_name :: string
  c_categoryId :: snowflake
  c_requireTbxId :: bool
  c_fields :: "TicketCategoryField list"

record TicketRow =
  t_id :: nat
  t_category :: nat
  t_ticketName :: string
  t_channelId :: snowflake
  t_userId :: snowflake
  t_userUsername :: string
  t_userDisplayName :: string
  t_openedAt :: timestamp
  t_closedAt :: "timestamp option"
  t_staffThreadId :: "snowflake option"

record EmbedField =
  ef_name :: string
  ef_value :: string
  ef_inline :: bool

text \<open>An embed, as far as the handler fills it (colours, authors and thumbnails are left out).\<close>

record Embed =
  e_title :: string
  e_description :: "string option"
  e_fields :: "EmbedField list"

text \<open>
  The checks of the \<^verbatim>\<open>EmbedBuilder\<close> of discord.js, whose setters throw on a value they
  refuse: a title has 1 to 256 characters, a description 1 to 4096, the name of a field 1
  to 256 and its value 1 to 1024, and an embed has at most 25 fields. An embed that passes
  is one the handler can build.
\<close>

definition fieldOk :: "EmbedField \<Rightarrow> bool" where
  "fieldOk f =
     (1 \<le> length (ef_name f) \<and> length (ef_name f) \<le> 256
      \<and> 1 \<le> length (ef_value f) \<and> length (ef_value f) \<le> 1024)"

definition embedOk :: "Embed \<Rightarrow> bool" where
  "embedOk e =
     (1 \<le> length (e_title e) \<and> length (e_title e) \<le> 256
      \<and> (case e_description e of None \<Rightarrow> True
          | Some d \<Rightarrow> 1 \<le> length d \<and> length d \<le> 4096)
      \<and> list_all fieldOk (e_fields e) \<and> length (e_fields e) \<le> 25)"

record PermissionOverwrite =
  ow_id :: snowflake
  ow_allow :: nat
  ow_deny :: nat
  ow_type :: nat

record TextInput =
  ti_customId :: string
  ti_label :: string
  ti_required :: bool
  ti_short :: bool
  ti_placeholder :: "string option"
  ti_minLength :: "nat option"
  ti_maxLength :: "nat option"

text \<open>A modal submission reaching the collector, \<^verbatim>\<open>ms_at\<close> milliseconds after the wait began.\<close>

record ModalSubmit =
  ms_customId :: string
  ms_user :: User
  ms_at :: nat
  ms_fields :: "(string \<times> string) list"

record TebexPackage =
  pkg_name :: string

record TebexPayment =
  pay_status :: string
  pay_packages :: "TebexPackage list"

text \<open>The result of \<^verbatim>\<open>Tebex.verifyPurchase\<close>: \<^verbatim>\<open>{ success: true, data }\<close> or a \<^verbatim>\<open>TebexAPIError\<close>.\<close>

datatype purchase = PurchaseOk TebexPayment | PurchaseError

text \<open>The document of \<^verbatim>\<open>generateHTML\<close>, by the data it is rendered from.\<close>

record Transcript =
  tr_ticket :: TicketRow
  tr_categoryName :: string
  tr_messages :: "TicketMessage list"

text \<open>An awaited call of a collaborator either rejects or resolves with a value.\<close>

datatype 'a promise = Rejects | Resolves 'a

datatype log_level = LInfo | LWarn | LError | LSuccess

text \<open>
  The calls the handler issues, in the order it issues them. A call is recorded when it is
  made, whatever its outcome. Log entries carry the fixed part of the message.
\<close>

datatype event =
    Reply string
  | DeferReply
  | EditReply string
  | DeleteReply
  | ShowModal string "TextInput list"
  | Log log_level string
  | FetchGuild
  | FetchChannel snowflake
  | ChannelCreate string snowflake "PermissionOverwrite list"
  | ChannelSend snowflake string Embed
  | ThreadCreate snowflake string
  | ThreadSend snowflake string
  | VerifyPurchase string
  | DbTicketCreate TicketRow
  | DbTicketClose nat timestamp
  | DbTicketStaffThread nat snowflake
  | DbMessageCreate TicketMessage
  | RegistrySet snowflake nat
  | RegistryDelete snowflake
  | GenerateTranscript nat
  | ArchiveSend snowflake Embed Transcript
  | FetchThreadMessages snowflake
  | StaffTranscriptSend snowflake Embed "string list"
  | FetchUser snowflake
  | OwnerTranscriptSend snowflake Embed Transcript
  | FetchMember snowflake
  | OwnerNoticeSend snowflake Embed
  | ScheduleDelete snowflake nat

text \<open>
  The state the handler works on: the static map \<^verbatim>\<open>ActiveTickets\<close> (the Registry), the
  tables of the store and the calls issued so far.
\<close>

record world =
  ActiveTickets :: "snowflake \<rightharpoonup> Ticket"
  db_categories :: "TicketCategoryData list"
  db_tickets :: "TicketRow list"
  db_messages :: "TicketMessage list"
  trace :: "event list"

definition emit :: "event \<Rightarrow> world \<Rightarrow> world" where
  "emit e w = w\<lparr>trace := trace w @ [e]\<rparr>"

text \<open>JavaScript truthiness of a string and of a nullable string.\<close>

definition truthy :: "string \<Rightarrow> bool" where
  "truthy s = (s \<noteq> [])"

definition truthyOpt :: "string option \<Rightarrow> bool" where
  "truthyOpt s = (case s of None \<Rightarrow> False | Some v \<Rightarrow> truthy v)"

text \<open>A number in a template literal.\<close>

fun showNat :: "nat \<Rightarrow> string" where
  "showNat n =
     (if n < 10 then [char_of (48 + n)] else showNat (n div 10) @ [char_of (48 + n mod 10)])"

subsection \<open>JSON.stringify of an embed\<close>

definition hexDigit :: "nat \<Rightarrow> char" where
  "hexDigit n = (if n < 10 then char_of (48 + n) else char_of (87 + n))"

definition jsonChar :: "char \<Rightarrow> string" where
  "jsonChar c =
     (if c = CHR 0x22 then [CHR 0x5C, CHR 0x22]
      else if c = CHR 0x5C then [CHR 0x5C, CHR 0x5C]
      else if c = CHR 0x08 then [CHR 0x5C, CHR ''b'']
      else if c = CHR 0x0C then [CHR 0x5C, CHR ''f'']
      else if c = CHR 0x0A then [CHR 0x5C, CHR ''n'']
      else if c = CHR 0x0D then [CHR 0x5C, CHR ''r'']
      else if c = CHR 0x09 then [CHR 0x5C, CHR ''t'']
      else if (of_char c :: nat) < 32 then
        [CHR 0x5C, CHR ''u'', CHR ''0'', CHR ''0'',
         hexDigit ((of_char c :: nat) div 16), hexDigit ((of_char c :: nat) mod 16)]
      else [c])"

definition jsonString :: "string \<Rightarrow> string" where
  "jsonString s = [CHR 0x22] @ concat (map jsonChar s) @ [CHR 0x22]"

text \<open>
  \<^verbatim>\<open>`<EMBED:${JSON.stringify(embed.toJSON())}>`\<close> for an embed built with \<^verbatim>\<open>setTitle\<close> and,
  optionally, \<^verbatim>\<open>setDescription\<close>.
\<close>

definition embedMarker :: "string \<Rightarrow> string option \<Rightarrow> string" where
  \<open>embedMarker title description =
     ''<EMBED:{"title":'' @ jsonString title
       @ (case description of None \<Rightarrow> [] | Some d \<Rightarrow> '',"description":'' @ jsonString d)
       @ ''}>''\<close>

subsection \<open>The Registry and the store\<close>

definition getTicket :: "snowflake \<Rightarrow> world \<Rightarrow> Ticket option" where
  "getTicket channelId w = ActiveTickets w channelId"

definition registrySet :: "snowflake \<Rightarrow> Ticket \<Rightarrow> world \<Rightarrow> world" where
  "registrySet channelId ticket w =
     emit (RegistrySet channelId (ticketId ticket))
       (w\<lparr>ActiveTickets := (ActiveTickets w)(channelId \<mapsto> ticket)\<rparr>)"

definition registryDelete :: "snowflake \<Rightarrow> world \<Rightarrow> world" where
  "registryDelete channelId w =
     emit (RegistryDelete channelId) (w\<lparr>ActiveTickets := (ActiveTickets w)(channelId := None)\<rparr>)"

definition nextId :: "nat list \<Rightarrow> nat" where
  "nextId ids = Suc (fold max ids 0)"

definition tickets_findUnique :: "nat \<Rightarrow> world \<Rightarrow> TicketRow option" where
  "tickets_findUnique tid w = find (\<lambda>r. t_id r = tid) (db_tickets w)"

definition categories_findUnique :: "nat \<Rightarrow> world \<Rightarrow> TicketCategoryData option" where
  "categories_findUnique cid w = find (\<lambda>c. c_id c = cid) (db_categories w)"

text \<open>
  \<^verbatim>\<open>prisma.tickets.findUnique({ where: { id }, include: { ticketCategory: true } })\<close>: rejects
  when the query fails (\<^verbatim>\<open>ok\<close> is false) or the required relation is missing.
\<close>

definition tickets_findWithCategory ::
  "bool \<Rightarrow> nat \<Rightarrow> world \<Rightarrow> (TicketRow \<times> TicketCategoryData) option promise" where
  "tickets_findWithCategory ok tid w =
     (if \<not> ok then Rejects
      else case tickets_findUnique tid w of
        None \<Rightarrow> Resolves None
      | Some row \<Rightarrow>
          (case categories_findUnique (t_category row) w of
             None \<Rightarrow> Rejects
           | Some cat \<Rightarrow> Resolves (Some (row, cat))))"

text \<open>
  \<^verbatim>\<open>prisma.tickets.update({ where: { id }, data })\<close>: rejects (\<^verbatim>\<open>None\<close>) when the write
  fails or no row has the id.
\<close>

definition tickets_update ::
  "bool \<Rightarrow> nat \<Rightarrow> (TicketRow \<Rightarrow> TicketRow) \<Rightarrow> world \<Rightarrow> world option" where
  "tickets_update ok tid f w =
     (if ok \<and> tickets_findUnique tid w \<noteq> None
      then Some (w\<lparr>db_tickets := map (\<lambda>r. if t_id r = tid then f r else r) (db_tickets w)\<rparr>)
      else None)"

text \<open>
  \<^verbatim>\<open>prisma.ticketMessages.create({ data })\<close>: the store gives the id and the time sent;
  the write rejects (\<^verbatim>\<open>None\<close>) when it fails or the ticket of the foreign key is missing.
\<close>

definition newMessage ::
  "timestamp \<Rightarrow> nat \<Rightarrow> User \<Rightarrow> string option \<Rightarrow> string \<Rightarrow> world \<Rightarrow> TicketMessage" where
  "newMessage now tid author avatar content w =
     \<lparr>m_id = nextId (map m_id (db_messages w)), m_ticket = tid,
      m_authorId = u_id author, m_displayName = u_displayName author,
      m_avatar = avatar, m_content = Some content,
      m_editedAt = None, m_sentAt = now\<rparr>"

definition ticketMessages_create :: "bool \<Rightarrow> TicketMessage \<Rightarrow> world \<Rightarrow> world option" where
  "ticketMessages_create ok msg w =
     (if ok \<and> tickets_findUnique (m_ticket msg) w \<noteq> None
      then Some (w\<lparr>db_messages := db_messages w @ [msg]\<rparr>)
      else None)"

section \<open>The ticket handler: operations\<close>

subsection \<open>reloadTickets\<close>

text \<open>
  The collaborators' answers during one pass: \<^verbatim>\<open>client.user\<close>, whether \<^verbatim>\<open>findMany\<close>
  succeeds, what \<^verbatim>\<open>client.channels.fetch\<close> gives for a channel id (the channel's name,
  null, or a rejection), the time of \<^verbatim>\<open>FormatDateForDB()\<close> and whether the two writes
  succeed, by ticket id.
\<close>

record reload_env =
  re_bot :: User
  re_findMany_ok :: bool
  re_fetchChannel :: "snowflake \<Rightarrow> string option promise"
  re_now :: "nat \<Rightarrow> timestamp"
  re_update_ok :: "nat \<Rightarrow> bool"
  re_create_ok :: "nat \<Rightarrow> bool"

text \<open>The body of the \<^verbatim>\<open>try\<close>: the channel, or \<^verbatim>\<open>None\<close> when the block throws.\<close>

definition resolveChannel :: "reload_env \<Rightarrow> snowflake \<Rightarrow> TextChannel option" where
  "resolveChannel env cid =
     (case re_fetchChannel env cid of
        Rejects \<Rightarrow> None
      | Resolves None \<Rightarrow> None
      | Resolves (Some name) \<Rightarrow> Some \<lparr>ch_id = cid, ch_name = name\<rparr>)"

text \<open>
  The \<^verbatim>\<open>for\<close> loop over the tickets found. The flag is false when a write of the
  \<^verbatim>\<open>catch\<close> block rejects: nothing catches that, and the pass ends there.
\<close>

fun reloadLoop :: "reload_env \<Rightarrow> TicketRow list \<Rightarrow> world \<Rightarrow> bool \<times> world" where
  "reloadLoop env [] w = (True, w)"
| "reloadLoop env (ticketData # rest) w =
     (let w1 = emit (FetchChannel (t_channelId ticketData)) w in
      case resolveChannel env (t_channelId ticketData) of
        Some ch \<Rightarrow>
          reloadLoop env rest (registrySet (ch_id ch) \<lparr>ticketId = t_id ticketData, channel = ch\<rparr> w1)
      | None \<Rightarrow>
          (let w2 = emit (Log LWarn ''Ticket was closed manually, closing in database.'') w1;
               date = re_now env (t_id ticketData);
               w3 = emit (DbTicketClose (t_id ticketData) date) w2
           in case tickets_update (re_update_ok env (t_id ticketData)) (t_id ticketData)
                     (\<lambda>r. r\<lparr>t_closedAt := Some date\<rparr>) w3 of
                None \<Rightarrow> (False, w3)
              | Some w4 \<Rightarrow>
                  (let msg = newMessage date (t_id ticketData) (re_bot env) (u_avatar (re_bot env))
                               (embedMarker ''Ticket closed'' None) w4;
                       w5 = emit (DbMessageCreate msg) w4
                   in case ticketMessages_create (re_create_ok env (t_id ticketData)) msg w5 of
                        None \<Rightarrow> (False, w5)
                      | Some w6 \<Rightarrow> reloadLoop env rest w6)))"

definition reloadTickets :: "reload_env \<Rightarrow> world \<Rightarrow> bool \<times> world" where
  "reloadTickets env w =
     (if \<not> re_findMany_ok env then (False, w)
      else case reloadLoop env (filter (\<lambda>r. t_closedAt r = None) (db_tickets w)) w of
             (True, w') \<Rightarrow> (True, emit (Log LSuccess ''Reloaded tickets from database'') w')
           | (False, w') \<Rightarrow> (False, w'))"

subsection \<open>updateMessages and handleNewMessage\<close>

record Message =
  msg_channelId :: snowflake
  msg_content :: string
  msg_embeds :: "string list"
  msg_author :: User

text \<open>The content stored for a message; \<^verbatim>\<open>msg_embeds\<close> holds \<^verbatim>\<open>JSON.stringify\<close> of each embed.\<close>

definition loggedContent :: "Message \<Rightarrow> string" where
  "loggedContent message =
     (if msg_embeds message \<noteq> [] then
        msg_content message
        @ (if msg_content message \<noteq> [] then [CHR 0x0A, CHR 0x0A] else [])
        @ join [CHR 0x0A] (map (\<lambda>j. ''<EMBED:'' @ j @ ''>'' @ [CHR 0x0A]) (msg_embeds message))
      else msg_content message)"

definition handleNewMessage :: "bool \<Rightarrow> timestamp \<Rightarrow> Ticket \<Rightarrow> Message \<Rightarrow> world \<Rightarrow> world" where
  "handleNewMessage ok now this message w =
     (let msg = newMessage now (ticketId this) (msg_author message) (u_avatar (msg_author message))
                  (loggedContent message) w;
          w1 = emit (DbMessageCreate msg) w
      in case ticketMessages_create ok msg w1 of None \<Rightarrow> w1 | Some w2 \<Rightarrow> w2)"

definition updateMessages :: "bool \<Rightarrow> timestamp \<Rightarrow> Message \<Rightarrow> world \<Rightarrow> world" where
  "updateMessages ok now message w =
     (case getTicket (msg_channelId message) w of
        None \<Rightarrow> w
      | Some ticket \<Rightarrow> handleNewMessage ok now ticket message w)"

subsection \<open>generateTicketTranscript\<close>

text \<open>
  The query orders the messages by \<^verbatim>\<open>sentAt\<close>; the filter drops the first and the last
  message when they hold an embed marker. \<^verbatim>\<open>None\<close> is the rethrown error.
\<close>

definition generateTicketTranscript :: "bool \<Rightarrow> nat \<Rightarrow> world \<Rightarrow> Transcript option \<times> world" where
  "generateTicketTranscript ok tid w =
     (let w1 = emit (GenerateTranscript tid) w in
      case tickets_findWithCategory ok tid w1 of
        Resolves (Some (row, cat)) \<Rightarrow>
          (Some \<lparr>tr_ticket = row, tr_categoryName = c_name cat,
                 tr_messages = filterMessages
                   (sort_key m_sentAt (filter (\<lambda>m. m_ticket m = tid) (db_messages w1)))\<rparr>,
           emit (Log LSuccess ''Generated transcript'') w1)
      | _ \<Rightarrow> (None, emit (Log LError ''Failed to generate transcript'') w1))"

subsection \<open>Closing a ticket\<close>

text \<open>
  The collaborators' answers during one close request: the user of the interaction, the
  modal submissions that arrive, the clock, whether each call of the store and of the
  platform succeeds, and the configured \<^verbatim>\<open>TRANSCRIPT_CHANNEL_ID\<close> (empty when unset).
  \<^verbatim>\<open>ce_archiveChannel\<close>, \<^verbatim>\<open>ce_staffThread\<close> and \<^verbatim>\<open>ce_owner\<close> resolve with whether the
  object fetched passes the test of the \<^verbatim>\<open>if\<close> that follows the fetch.
  \<^verbatim>\<open>ce_showModal_ok\<close> says whether the modal was built and shown.
\<close>

record close_env =
  ce_user :: User
  ce_showModal_ok :: bool
  ce_submissions :: "ModalSubmit list"
  ce_deferReply_ok :: bool
  ce_now :: timestamp
  ce_findInfo_ok :: bool
  ce_update_ok :: bool
  ce_create_ok :: bool
  ce_transcript_ok :: bool
  ce_TRANSCRIPT_CHANNEL_ID :: string
  ce_archiveChannel :: "bool promise"
  ce_archiveSend_ok :: bool
  ce_staffThread :: "bool promise"
  ce_staffMessages :: "string list promise"
  ce_staffSend_ok :: bool
  ce_owner :: "bool promise"
  ce_ownerSend_ok :: bool
  ce_deleteReply_ok :: bool
  ce_findUser_ok :: bool
  ce_guildPresent :: bool
  ce_member_ok :: bool
  ce_memberSend_ok :: bool

text \<open>
  \<^verbatim>\<open>interaction.awaitModalSubmit({ filter, time })\<close>: the first submission that arrives
  within the time and passes the filter; \<^verbatim>\<open>None\<close> when the wait times out and the
  promise rejects.
\<close>

definition awaitModalSubmit ::
  "(ModalSubmit \<Rightarrow> bool) \<Rightarrow> nat \<Rightarrow> ModalSubmit list \<Rightarrow> ModalSubmit option" where
  "awaitModalSubmit flt time subs = find (\<lambda>m. ms_at m < time \<and> flt m) subs"

definition closureDescription :: "string \<Rightarrow> string" where
  "closureDescription reason =
     (if truthy reason then ''Closure reason:'' @ [CHR 0x0A] @ ''> '' @ reason
      else ''No reason provided.'')"

text \<open>The embed of the closure message, \<^verbatim>\<open>closureEmbed\<close> of the instance method.\<close>

definition closureEmbed :: "string \<Rightarrow> Embed" where
  "closureEmbed reason =
     \<lparr>e_title = ''Ticket closed'', e_description = Some (closureDescription reason), e_fields = []\<rparr>"

definition closedByField :: "User \<Rightarrow> EmbedField" where
  "closedByField user =
     \<lparr>ef_name = ''Closed By'',
      ef_value = u_displayName user @ '' (@'' @ u_username user @ '')'', ef_inline = True\<rparr>"

definition archiveEmbed :: "Ticket \<Rightarrow> User \<Rightarrow> string \<Rightarrow> TicketRow \<times> TicketCategoryData \<Rightarrow> Embed" where
  "archiveEmbed this user reason info =
     \<lparr>e_title = [CHR 0xF0, CHR 0x9F, CHR 0x93, CHR 0x8B] @ '' Ticket #'' @ showNat (ticketId this)
                 @ '' Closed'',
      e_description = None,
      e_fields =
        [\<lparr>ef_name = ''Category'', ef_value = c_name (snd info), ef_inline = True\<rparr>,
         \<lparr>ef_name = ''Channel'', ef_value = ''#'' @ ch_name (channel this), ef_inline = True\<rparr>,
         closedByField user,
         \<lparr>ef_name = ''Owner'',
          ef_value = t_userDisplayName (fst info) @ '' (@'' @ t_userUsername (fst info) @ '')'',
          ef_inline = True\<rparr>]
        @ (if truthy reason
           then [\<lparr>ef_name = ''Closure Reason'', ef_value = reason, ef_inline = False\<rparr>]
           else [])\<rparr>"

definition staffEmbed :: "Ticket \<Rightarrow> TicketRow \<times> TicketCategoryData \<Rightarrow> nat \<Rightarrow> Embed" where
  "staffEmbed this info n =
     \<lparr>e_title = [CHR 0xF0, CHR 0x9F, CHR 0x94, CHR 0x92] @ '' Staff Evidence - Ticket #''
                 @ showNat (ticketId this),
      e_description = Some ''**STAFF ONLY** - Internal discussion transcript'',
      e_fields =
        [\<lparr>ef_name = ''Category'', ef_value = c_name (snd info), ef_inline = True\<rparr>,
         \<lparr>ef_name = ''Channel'', ef_value = ''#'' @ ch_name (channel this), ef_inline = True\<rparr>,
         \<lparr>ef_name = ''Messages'', ef_value = showNat n, ef_inline = True\<rparr>]\<rparr>"

definition dmEmbed :: "Ticket \<Rightarrow> User \<Rightarrow> string \<Rightarrow> TicketRow \<times> TicketCategoryData \<Rightarrow> Embed" where
  "dmEmbed this user reason info =
     \<lparr>e_title = ''Your Ticket Was Closed'',
      e_description = Some (''Your ticket **#'' @ ch_name (channel this) @ ''** in the **''
                            @ c_name (snd info) @ ''** category has been closed.''),
      e_fields =
        [closedByField user]
        @ (if truthy reason
           then [\<lparr>ef_name = ''Reason'', ef_value = reason, ef_inline = False\<rparr>]
           else [])\<rparr>"

definition noticeEmbed :: "string \<Rightarrow> Embed" where
  "noticeEmbed closureReason =
     \<lparr>e_title = ''Your ticket closed'',
      e_description = Some (if truthy closureReason
                            then ''Closure reason:'' @ [CHR 0x0A] @ ''> '' @ closureReason
                            else ''Ticket considered as resolved.''),
      e_fields = []\<rparr>"

text \<open>
  The block "Generate and send staff thread transcript if it exists", with its own
  \<^verbatim>\<open>try\<close>; it stands inside the block that posts to the transcript channel, behind the
  post. An embed the builder refuses is an exception of the block, like a call that
  rejects.
\<close>

definition sendStaffTranscript ::
  "close_env \<Rightarrow> Ticket \<Rightarrow> TicketRow \<times> TicketCategoryData \<Rightarrow> world \<Rightarrow> world" where
  "sendStaffTranscript env this info w =
     (case t_staffThreadId (fst info) of
        None \<Rightarrow> w
      | Some staffThreadId \<Rightarrow>
        if \<not> truthy staffThreadId then w
        else
        (let w1 = emit (FetchChannel staffThreadId) w in
         case ce_staffThread env of
           Rejects \<Rightarrow> emit (Log LWarn ''Failed to send staff thread transcript'') w1
         | Resolves False \<Rightarrow> w1
         | Resolves True \<Rightarrow>
             (let w2 = emit (FetchThreadMessages staffThreadId) w1 in
              case ce_staffMessages env of
                Rejects \<Rightarrow> emit (Log LWarn ''Failed to send staff thread transcript'') w2
              | Resolves staffMessages \<Rightarrow>
                  if length staffMessages > 1 then
                    if \<not> embedOk (staffEmbed this info (length staffMessages))
                    then emit (Log LWarn ''Failed to send staff thread transcript'') w2
                    else
                    (let w3 = emit (StaffTranscriptSend (ce_TRANSCRIPT_CHANNEL_ID env)
                                      (staffEmbed this info (length staffMessages))
                                      (rev staffMessages)) w2
                     in if ce_staffSend_ok env
                        then emit (Log LSuccess ''Staff thread transcript sent to transcript channel'') w3
                        else emit (Log LWarn ''Failed to send staff thread transcript'') w3)
                  else w2)))"

text \<open>
  The block guarded by \<^verbatim>\<open>env.TRANSCRIPT_CHANNEL_ID && ticketInfo && transcriptBuffer\<close>. The
  embed is built inside the \<^verbatim>\<open>try\<close>, after the channel was fetched and before the post:
  when the builder refuses it (a closure reason of more than 1024 characters, which the
  modal allows), the exception is logged and nothing is posted.
\<close>

definition sendArchive ::
  "close_env \<Rightarrow> Ticket \<Rightarrow> User \<Rightarrow> string \<Rightarrow> (TicketRow \<times> TicketCategoryData) option
     \<Rightarrow> Transcript option \<Rightarrow> world \<Rightarrow> world" where
  "sendArchive env this user reason ticketInfo transcript w =
     (case (ticketInfo, transcript) of
        (Some info, Some doc) \<Rightarrow>
          if \<not> truthy (ce_TRANSCRIPT_CHANNEL_ID env) then w
          else
            (let w1 = emit (FetchChannel (ce_TRANSCRIPT_CHANNEL_ID env)) w in
             case ce_archiveChannel env of
               Rejects \<Rightarrow> emit (Log LError ''Failed to send transcript to channel'') w1
             | Resolves False \<Rightarrow> w1
             | Resolves True \<Rightarrow>
                 if \<not> embedOk (archiveEmbed this user reason info)
                 then emit (Log LError ''Failed to send transcript to channel'') w1
                 else
                 (let w2 = emit (ArchiveSend (ce_TRANSCRIPT_CHANNEL_ID env)
                                   (archiveEmbed this user reason info) doc) w1
                  in if \<not> ce_archiveSend_ok env
                     then emit (Log LError ''Failed to send transcript to channel'') w2
                     else sendStaffTranscript env this info
                            (emit (Log LSuccess ''Transcript sent to transcript channel'') w2)))
      | _ \<Rightarrow> w)"

text \<open>The block "Send DM to ticket owner with transcript", guarded by
  \<^verbatim>\<open>ticketInfo && transcriptBuffer\<close>; the embed is built inside its \<^verbatim>\<open>try\<close>, after the
  user was fetched and before the message is sent.\<close>

definition sendOwnerTranscript ::
  "close_env \<Rightarrow> Ticket \<Rightarrow> User \<Rightarrow> string \<Rightarrow> (TicketRow \<times> TicketCategoryData) option
     \<Rightarrow> Transcript option \<Rightarrow> world \<Rightarrow> world" where
  "sendOwnerTranscript env this user reason ticketInfo transcript w =
     (case (ticketInfo, transcript) of
        (Some info, Some doc) \<Rightarrow>
          (let w1 = emit (FetchUser (t_userId (fst info))) w in
           case ce_owner env of
             Rejects \<Rightarrow> emit (Log LWarn ''Failed to send transcript DM to ticket owner'') w1
           | Resolves False \<Rightarrow> w1
           | Resolves True \<Rightarrow>
               if \<not> embedOk (dmEmbed this user reason info)
               then emit (Log LWarn ''Failed to send transcript DM to ticket owner'') w1
               else
               (let w2 = emit (OwnerTranscriptSend (t_userId (fst info))
                                 (dmEmbed this user reason info) doc) w1
                in if ce_ownerSend_ok env
                   then emit (Log LSuccess ''Transcript DM sent to ticket owner'') w2
                   else emit (Log LWarn ''Failed to send transcript DM to ticket owner'') w2))
      | _ \<Rightarrow> w)"

text \<open>The \<^verbatim>\<open>try\<close> around \<^verbatim>\<open>generateTicketTranscript\<close>, guarded by \<^verbatim>\<open>ticketInfo\<close>.\<close>

definition makeTranscript ::
  "close_env \<Rightarrow> Ticket \<Rightarrow> (TicketRow \<times> TicketCategoryData) option \<Rightarrow> world
     \<Rightarrow> Transcript option \<times> world" where
  "makeTranscript env this ticketInfo w =
     (case ticketInfo of
        None \<Rightarrow> (None, w)
      | Some info \<Rightarrow>
          (case generateTicketTranscript (ce_transcript_ok env) (ticketId this) w of
             (Some doc, w1) \<Rightarrow> (Some doc, w1)
           | (None, w1) \<Rightarrow> (None, emit (Log LError ''Failed to generate transcript for ticket'') w1)))"

text \<open>What follows the two writes: transcript, the posts, the timer, \<^verbatim>\<open>return true\<close>.\<close>

definition fanOut ::
  "close_env \<Rightarrow> Ticket \<Rightarrow> User \<Rightarrow> string \<Rightarrow> (TicketRow \<times> TicketCategoryData) option
     \<Rightarrow> world \<Rightarrow> world" where
  "fanOut env this user reason ticketInfo w =
     (case makeTranscript env this ticketInfo w of
        (transcript, w1) \<Rightarrow>
          emit (ScheduleDelete (ch_id (channel this)) 500)
            (sendOwnerTranscript env this user reason ticketInfo transcript
               (sendArchive env this user reason ticketInfo transcript w1)))"

text \<open>The instance method \<^verbatim>\<open>closeTicket(user, reason)\<close>. The closure embed is built
  between the two writes; the builder refuses a description of more than 4096 characters,
  which takes a reason longer than the 4000 characters a modal can submit.\<close>

definition closeTicket :: "close_env \<Rightarrow> Ticket \<Rightarrow> User \<Rightarrow> string \<Rightarrow> world \<Rightarrow> bool \<times> world" where
  "closeTicket env this user reason w =
     (let w1 = emit (Log LInfo ''Ticket closed'') w in
      case tickets_findWithCategory (ce_findInfo_ok env) (ticketId this) w1 of
        Rejects \<Rightarrow> (False, emit (Log LError ''Unable to close ticket'') w1)
      | Resolves ticketInfo \<Rightarrow>
          (let w2 = emit (DbTicketClose (ticketId this) (ce_now env)) w1 in
           case tickets_update (ce_update_ok env) (ticketId this)
                  (\<lambda>r. r\<lparr>t_closedAt := Some (ce_now env)\<rparr>) w2 of
             None \<Rightarrow> (False, emit (Log LError ''Unable to close ticket'') w2)
           | Some w3 \<Rightarrow>
               if \<not> embedOk (closureEmbed reason)
               then (False, emit (Log LError ''Unable to close ticket'') w3)
               else
               (let msg = newMessage (ce_now env) (ticketId this) user
                            (Some (case u_avatar user of None \<Rightarrow> [] | Some a \<Rightarrow> a))
                            (embedMarker (e_title (closureEmbed reason))
                               (e_description (closureEmbed reason))) w3;
                    w4 = emit (DbMessageCreate msg) w3
                in case ticketMessages_create (ce_create_ok env) msg w4 of
                     None \<Rightarrow> (False, emit (Log LError ''Unable to close ticket'') w4)
                   | Some w5 \<Rightarrow> (True, fanOut env this user reason ticketInfo w5))))"

text \<open>
  How the static \<^verbatim>\<open>Ticket.closeTicket\<close> ended: the channel has no ticket; the prompt
  could not be shown; no submission came (or it had no reason field); the reply could not
  be deferred; or the instance method ran, with its result and whether the rest of the
  function resolved.
\<close>

datatype close_result =
    ChannelNotTicket
  | PromptRejected
  | ClosureCancelled
  | DeferRejected
  | Closed bool bool

text \<open>The notification after the close, from \<^verbatim>\<open>prisma.tickets.findUnique\<close> on. Its embed
  is built outside the \<^verbatim>\<open>try\<close>: an embed the builder refuses ends the static method with
  an exception.\<close>

definition notifyOwner ::
  "close_env \<Rightarrow> Ticket \<Rightarrow> ModalSubmit \<Rightarrow> string \<Rightarrow> world \<Rightarrow> bool \<times> world" where
  "notifyOwner env ticket modalInteraction closureReason w =
     (if \<not> ce_findUser_ok env then (False, w)
      else case tickets_findUnique (ticketId ticket) w of
        None \<Rightarrow> (True, w)
      | Some dbUser \<Rightarrow>
          if t_userId dbUser = u_id (ms_user modalInteraction) then (True, w)
          else if \<not> embedOk (noticeEmbed closureReason) then (False, w)
          else if \<not> ce_guildPresent env
          then (True, emit (Log LError ''Unable to send closure notification to user'') w)
          else
            (let w1 = emit (FetchMember (t_userId dbUser)) w in
             if \<not> ce_member_ok env
             then (True, emit (Log LError ''Unable to send closure notification to user'') w1)
             else
               (let w2 = emit (OwnerNoticeSend (t_userId dbUser) (noticeEmbed closureReason)) w1 in
                if ce_memberSend_ok env then (True, w2)
                else (True, emit (Log LError ''Unable to send closure notification to user'') w2))))"

text \<open>The static method from \<^verbatim>\<open>deferReply\<close> on, for a submission with its reason.\<close>

definition closeSubmitted ::
  "close_env \<Rightarrow> snowflake \<Rightarrow> Ticket \<Rightarrow> ModalSubmit \<Rightarrow> string \<Rightarrow> world \<Rightarrow> close_result \<times> world" where
  "closeSubmitted env channelId ticket modalInteraction closureReason w =
     (let w1 = emit DeferReply w in
      if \<not> ce_deferReply_ok env then (DeferRejected, w1)
      else case closeTicket env ticket (ce_user env) closureReason w1 of
        (success, w2) \<Rightarrow>
          (let w3 = (if success then registryDelete channelId w2 else w2);
               w4 = emit DeleteReply w3
           in if \<not> ce_deleteReply_ok env then (Closed success False, w4)
              else case notifyOwner env ticket modalInteraction closureReason w4 of
                     (resolved, w5) \<Rightarrow> (Closed success resolved, w5)))"

definition closeModalId :: "snowflake \<Rightarrow> string" where
  "closeModalId channelId = ''collector-closeticket-'' @ channelId"

definition closeModalInputs :: "snowflake \<Rightarrow> TextInput list" where
  "closeModalInputs channelId =
     [\<lparr>ti_customId = ''closure-reason-'' @ channelId, ti_label = ''Closure reason:'',
       ti_required = False, ti_short = False, ti_placeholder = None,
       ti_minLength = None, ti_maxLength = None\<rparr>]"

text \<open>The static method \<^verbatim>\<open>Ticket.closeTicket(channelId, interaction)\<close>.\<close>

definition Ticket_closeTicket :: "close_env \<Rightarrow> snowflake \<Rightarrow> world \<Rightarrow> close_result \<times> world" where
  "Ticket_closeTicket env channelId w =
     (case getTicket channelId w of
        None \<Rightarrow> (ChannelNotTicket, emit (Reply ''This channel is not an active ticket.'') w)
      | Some ticket \<Rightarrow>
          (let w1 = emit (ShowModal (closeModalId channelId) (closeModalInputs channelId)) w in
           if \<not> ce_showModal_ok env then (PromptRejected, w1)
           else case awaitModalSubmit
                       (\<lambda>m. ms_customId m = closeModalId channelId
                             \<and> u_id (ms_user m) = u_id (ce_user env))
                       60000 (ce_submissions env) of
                  None \<Rightarrow> (ClosureCancelled, emit (Log LError ''modal wait rejected'') w1)
                | Some modalInteraction \<Rightarrow>
                    (case map_of (ms_fields modalInteraction) (''closure-reason-'' @ channelId) of
                       None \<Rightarrow>
                         (ClosureCancelled,
                          emit (Reply ''Closure cancelled'') (emit (Log LError ''field not found'') w1))
                     | Some closureReason \<Rightarrow>
                         closeSubmitted env channelId ticket modalInteraction closureReason w1)))"

text \<open>
  The static method is suspended while it waits for the modal, and other requests run
  meanwhile. \<^verbatim>\<open>closePrompt\<close> is the method up to the end of the wait: the look-up in the
  Registry, the prompt and the wait. It ends the request, or it hands the ticket it looked
  up, the submission and the reason to \<^const>\<open>closeSubmitted\<close>, the rest of the method.
\<close>

definition closePrompt ::
  "close_env \<Rightarrow> snowflake \<Rightarrow> world \<Rightarrow> (close_result + Ticket \<times> ModalSubmit \<times> string) \<times> world" where
  "closePrompt env channelId w =
     (case getTicket channelId w of
        None \<Rightarrow> (Inl ChannelNotTicket, emit (Reply ''This channel is not an active ticket.'') w)
      | Some ticket \<Rightarrow>
          (let w1 = emit (ShowModal (closeModalId channelId) (closeModalInputs channelId)) w in
           if \<not> ce_showModal_ok env then (Inl PromptRejected, w1)
           else case awaitModalSubmit
                       (\<lambda>m. ms_customId m = closeModalId channelId
                             \<and> u_id (ms_user m) = u_id (ce_user env))
                       60000 (ce_submissions env) of
                  None \<Rightarrow> (Inl ClosureCancelled, emit (Log LError ''modal wait rejected'') w1)
                | Some modalInteraction \<Rightarrow>
                    (case map_of (ms_fields modalInteraction) (''closure-reason-'' @ channelId) of
                       None \<Rightarrow>
                         (Inl ClosureCancelled,
                          emit (Reply ''Closure cancelled'') (emit (Log LError ''field not found'') w1))
                     | Some closureReason \<Rightarrow>
                         (Inr (ticket, modalInteraction, closureReason), w1))))"

subsection \<open>Opening a ticket\<close>

text \<open>
  The collaborators' answers during one call of \<^verbatim>\<open>createNewTicket\<close>.
  \<^verbatim>\<open>ie_guild\<close> resolves with whether a guild was found; \<^verbatim>\<open>ie_categoryChannel\<close> with the
  permission overwrites of the category channel, or null; \<^verbatim>\<open>ie_channelCreate\<close> with the
  channel the platform made. \<^verbatim>\<open>ie_showModal_ok\<close> says whether the modal was built and
  shown.
\<close>

record intake_env =
  ie_user :: User
  ie_category_ok :: bool
  ie_guild :: "bool promise"
  ie_deferReply_ok :: bool
  ie_editReply_ok :: bool
  ie_showModal_ok :: bool
  ie_submissions :: "ModalSubmit list"
  ie_verifyPurchase :: "string \<Rightarrow> purchase promise"
  ie_categoryChannel :: "PermissionOverwrite list option promise"
  ie_channelCreate :: "TextChannel promise"
  ie_now :: timestamp
  ie_ticketCreate_ok :: bool
  ie_channelSend_ok :: bool
  ie_STAFF_ROLE_IDS :: "string list"
  ie_threadCreate :: "snowflake promise"
  ie_threadUpdate_ok :: bool
  ie_threadSend_ok :: bool

text \<open>
  How \<^verbatim>\<open>createNewTicket\<close> ended: the category was not found; an exception left the
  function; the category channel was not found; the modal was not answered; the
  transaction id was missing or refused; or a ticket with this id was opened.
\<close>

datatype intake_result =
    InvalidData
  | IntakeRejected
  | NoCategoryChannel
  | IntakeCancelled
  | VerificationFailed
  | Opened nat

text \<open>An element of \<^verbatim>\<open>formattedResponses\<close>.\<close>

record FormResponse =
  fr_label :: string
  fr_response :: string
  fr_id :: string

text \<open>
  The callback of \<^verbatim>\<open>formattedResponses.map\<close> that builds the embed fields. The pattern
  \<^verbatim>\<open>tbxIdRegex\<close> of \<^verbatim>\<open>utils/utils\<close> is a parameter, taken as a test of the string alone.
  \<^verbatim>\<open>purchase\<close> is \<^verbatim>\<open>None\<close> while the variable is unassigned (the category asks for no
  transaction id); reading \<^verbatim>\<open>purchase.success\<close> then throws, and the result is \<^verbatim>\<open>None\<close>.
\<close>

definition renderField :: "(string \<Rightarrow> bool) \<Rightarrow> purchase option \<Rightarrow> FormResponse \<Rightarrow> EmbedField option" where
  "renderField tbxIdRegex purchase r =
     (if tbxIdRegex (fr_response r) then
        (case purchase of
           None \<Rightarrow> None
         | Some PurchaseError \<Rightarrow>
             Some \<lparr>ef_name = fr_label r, ef_value = fr_response r, ef_inline = False\<rparr>
         | Some (PurchaseOk data) \<Rightarrow>
             Some \<lparr>ef_name = ''Purchase Info'',
                   ef_value = ''* Transaction ID: '' @ fr_response r @ [CHR 0x0A]
                              @ ''* Status: '' @ pay_status data @ [CHR 0x0A]
                              @ ''* Packages: '' @ join '', '' (map pkg_name (pay_packages data)),
                   ef_inline = False\<rparr>)
      else Some \<lparr>ef_name = fr_label r, ef_value = fr_response r, ef_inline = False\<rparr>)"

definition renderFields ::
  "(string \<Rightarrow> bool) \<Rightarrow> purchase option \<Rightarrow> FormResponse list \<Rightarrow> EmbedField list option" where
  "renderFields tbxIdRegex purchase rs = those (map (renderField tbxIdRegex purchase) rs)"

definition introEmbed :: "TicketCategoryData \<Rightarrow> User \<Rightarrow> EmbedField list \<Rightarrow> Embed" where
  "introEmbed categoryData user embedFields =
     \<lparr>e_title = c_name categoryData @ '' ticket - '' @ u_displayName user,
      e_description = Some ''> :warning: Failure to follow ticket guidelines and required information **can** lead to the ticket getting closed.'',
      e_fields = embedFields\<rparr>"

text \<open>"Clone category permissions and add the ticket creator"; \<^verbatim>\<open>ViewChannel\<close> is bit 10.\<close>

definition permissionOverwrites :: "PermissionOverwrite list \<Rightarrow> User \<Rightarrow> PermissionOverwrite list" where
  "permissionOverwrites cache user =
     cache @ [\<lparr>ow_id = u_id user, ow_allow = 1024, ow_deny = 0, ow_type = 1\<rparr>]"

text \<open>The block "Create private staff thread", with its \<^verbatim>\<open>try\<close>; the two paths differ in
  the notice sent.\<close>

definition createStaffThread :: "intake_env \<Rightarrow> string \<Rightarrow> TextChannel \<Rightarrow> nat \<Rightarrow> world \<Rightarrow> world" where
  "createStaffThread env notice ch tid w =
     (if ie_STAFF_ROLE_IDS env = [] then w
      else
        (let w1 = emit (ThreadCreate (ch_id ch) (''Evidence-'' @ showNat tid)) w in
         case ie_threadCreate env of
           Rejects \<Rightarrow> emit (Log LWarn ''Failed to create private staff thread'') w1
         | Resolves thread \<Rightarrow>
             (let w2 = emit (DbTicketStaffThread tid thread) w1 in
              case tickets_update (ie_threadUpdate_ok env) tid
                     (\<lambda>r. r\<lparr>t_staffThreadId := Some thread\<rparr>) w2 of
                None \<Rightarrow> emit (Log LWarn ''Failed to create private staff thread'') w2
              | Some w3 \<Rightarrow>
                  (let staffMentions =
                         join '' '' (map (\<lambda>roleId. ''<@&'' @ roleId @ ''>'') (ie_STAFF_ROLE_IDS env));
                       w4 = emit (ThreadSend thread (staffMentions @ notice)) w3
                   in if ie_threadSend_ok env
                      then emit (Log LInfo ''Created private staff thread'') w4
                      else emit (Log LWarn ''Failed to create private staff thread'') w4))))"

text \<open>
  From \<^verbatim>\<open>prisma.tickets.create\<close> to the end of the function: the row, the Registry entry,
  the introductory message, the staff thread.
\<close>

definition openTicket ::
  "intake_env \<Rightarrow> TicketCategoryData \<Rightarrow> TextChannel \<Rightarrow> EmbedField list \<Rightarrow> string \<Rightarrow> world
     \<Rightarrow> intake_result \<times> world" where
  "openTicket env categoryData ch embedFields notice w =
     (let user = ie_user env;
          dbTicket = \<lparr>t_id = nextId (map t_id (db_tickets w)), t_category = c_id categoryData,
                      t_ticketName = ch_name ch, t_channelId = ch_id ch,
                      t_userId = u_id user, t_userUsername = u_username user,
                      t_userDisplayName = u_displayName user, t_openedAt = ie_now env,
                      t_closedAt = None, t_staffThreadId = None\<rparr>;
          w1 = emit (DbTicketCreate dbTicket) w
      in if \<not> ie_ticketCreate_ok env then (IntakeRejected, w1)
         else
           (let w2 = w1\<lparr>db_tickets := db_tickets w1 @ [dbTicket]\<rparr>;
                w3 = registrySet (ch_id ch) \<lparr>ticketId = t_id dbTicket, channel = ch\<rparr> w2;
                w4 = emit (ChannelSend (ch_id ch) (''<@'' @ u_id user @ ''>'')
                             (introEmbed categoryData user embedFields)) w3
            in if \<not> ie_channelSend_ok env then (IntakeRejected, w4)
               else (Opened (t_id dbTicket), createStaffThread env notice ch (t_id dbTicket) w4)))"

definition fastNotice :: string where
  "fastNotice = [CHR 0x0A, CHR 0x0A, CHR 0xF0, CHR 0x9F, CHR 0x94, CHR 0x92]
     @ '' **Staff Evidence Thread**'' @ [CHR 0x0A]
     @ ''Private staff-only discussion for this ticket. A separate transcript will be generated for this thread and sent to the transcript channel when the ticket is closed.''"

definition formNotice :: string where
  "formNotice = '' - Private staff-only discussion for this ticket. Messages here will NOT be included in the transcript.''"

text \<open>The path without a modal: no transaction id required and no fields. The embed is
  built after the reply was edited, before the row is written.\<close>

definition createDirect :: "intake_env \<Rightarrow> TicketCategoryData \<Rightarrow> world \<Rightarrow> intake_result \<times> world" where
  "createDirect env categoryData w =
     (let w1 = emit DeferReply w in
      if \<not> ie_deferReply_ok env then (IntakeRejected, w1)
      else
        (let w2 = emit (FetchChannel (c_categoryId categoryData)) w1 in
         case ie_categoryChannel env of
           Rejects \<Rightarrow> (IntakeRejected, w2)
         | Resolves None \<Rightarrow>
             (let w3 = emit (EditReply ''Unable to open a ticket, please inform the developers that no category was found.'')
                         (emit (Log LError ''Unable to find category channel'') w2)
              in if ie_editReply_ok env then (NoCategoryChannel, w3) else (IntakeRejected, w3))
         | Resolves (Some cache) \<Rightarrow>
             (let w3 = emit (ChannelCreate (u_username (ie_user env)) (c_categoryId categoryData)
                               (permissionOverwrites cache (ie_user env))) w2 in
              case ie_channelCreate env of
                Rejects \<Rightarrow> (IntakeRejected, w3)
              | Resolves ch \<Rightarrow>
                  (let w4 = emit (EditReply (''Your ticket has been opened: '' @ ch_id ch @ ''.'')) w3 in
                   if \<not> ie_editReply_ok env then (IntakeRejected, w4)
                   else if \<not> embedOk (introEmbed categoryData (ie_user env) [])
                   then (IntakeRejected, w4)
                   else openTicket env categoryData ch [] fastNotice w4))))"

text \<open>The modal: the transaction id first when it is required, then one input per field.\<close>

definition tbxInput :: TextInput where
  "tbxInput = \<lparr>ti_customId = ''tbxid'', ti_label = ''Transaction ID'', ti_required = True,
               ti_short = True, ti_placeholder = Some ''tbx-000a0000a00000-aaa0aa'',
               ti_minLength = Some 25, ti_maxLength = Some 40\<rparr>"

definition fieldInput :: "TicketCategoryField \<Rightarrow> TextInput" where
  "fieldInput field =
     \<lparr>ti_customId = showNat (f_id field), ti_label = f_label field,
      ti_required = (f_required field = 1), ti_short = (f_short_field field = 1),
      ti_placeholder = (if truthyOpt (f_placeholder field) then f_placeholder field else None),
      ti_minLength = (case f_min_length field of None \<Rightarrow> None
                      | Some n \<Rightarrow> if n = 0 then None else Some n),
      ti_maxLength = (case f_max_length field of None \<Rightarrow> None
                      | Some n \<Rightarrow> if n = 0 then None else Some n)\<rparr>"

definition openModalId :: "TicketCategoryData \<Rightarrow> User \<Rightarrow> string" where
  "openModalId categoryData user =
     ''collector-openticket-'' @ showNat (c_id categoryData) @ ''-'' @ u_id user"

definition openModalInputs :: "TicketCategoryData \<Rightarrow> TextInput list" where
  "openModalInputs categoryData =
     (if c_requireTbxId categoryData then [tbxInput] else [])
     @ map fieldInput (c_fields categoryData)"

text \<open>
  \<^verbatim>\<open>formattedResponses\<close>: one entry per input, read from the submission
  (\<^verbatim>\<open>responseData.get(id)!\<close>; an input the submission lacks makes \<^verbatim>\<open>'value' in fieldData\<close>
  throw, the result \<^verbatim>\<open>None\<close>), then the entries with an empty label, response or id are
  dropped.
\<close>

definition formattedResponses :: "TextInput list \<Rightarrow> (string \<times> string) list \<Rightarrow> FormResponse list option" where
  "formattedResponses inputs responseData =
     map_option (filter (\<lambda>e. truthy (fr_label e) \<and> truthy (fr_response e) \<and> truthy (fr_id e)))
       (those (map (\<lambda>textInput.
                 map_option (\<lambda>v. \<lparr>fr_label = ti_label textInput, fr_response = v,
                                   fr_id = ti_customId textInput\<rparr>)
                   (map_of responseData (ti_customId textInput))) inputs))"

text \<open>
  The path with a modal, from the category channel on. The embed of the introductory
  message is built after the channel was created and the reply edited, before the row is
  written: when the builder refuses it (an answer of more than 1024 characters), the
  function ends with an exception and a channel without a ticket is left behind.
\<close>

definition createVerified ::
  "(string \<Rightarrow> bool) \<Rightarrow> intake_env \<Rightarrow> TicketCategoryData \<Rightarrow> FormResponse list \<Rightarrow> purchase option
     \<Rightarrow> world \<Rightarrow> intake_result \<times> world" where
  "createVerified tbxIdRegex env categoryData responses purchase w =
     (let w1 = emit (FetchChannel (c_categoryId categoryData)) w in
      case ie_categoryChannel env of
        Rejects \<Rightarrow> (IntakeRejected, w1)
      | Resolves None \<Rightarrow>
          (NoCategoryChannel,
           emit (EditReply ''Unable to open a ticket, please inform the developers that no category was found.'')
             (emit (Log LError ''Unable to find category channel'') w1))
      | Resolves (Some cache) \<Rightarrow>
          (let w2 = emit (ChannelCreate (u_username (ie_user env)) (c_categoryId categoryData)
                            (permissionOverwrites cache (ie_user env))) w1 in
           case ie_channelCreate env of
             Rejects \<Rightarrow> (IntakeRejected, w2)
           | Resolves ch \<Rightarrow>
               (let w3 = emit (EditReply (''Your ticket has been opened: '' @ ch_id ch @ ''.'')) w2 in
                case renderFields tbxIdRegex purchase responses of
                  None \<Rightarrow> (IntakeRejected, w3)
                | Some embedFields \<Rightarrow>
                    if \<not> embedOk (introEmbed categoryData (ie_user env) embedFields)
                    then (IntakeRejected, w3)
                    else openTicket env categoryData ch embedFields formNotice w3)))"

text \<open>The path with a modal, from the submission on.\<close>

definition createSubmitted ::
  "(string \<Rightarrow> bool) \<Rightarrow> intake_env \<Rightarrow> TicketCategoryData \<Rightarrow> ModalSubmit \<Rightarrow> world
     \<Rightarrow> intake_result \<times> world" where
  "createSubmitted tbxIdRegex env categoryData modalInteraction w =
     (let w1 = emit DeferReply w in
      if \<not> ie_deferReply_ok env then (IntakeRejected, w1)
      else case formattedResponses (openModalInputs categoryData) (ms_fields modalInteraction) of
        None \<Rightarrow> (IntakeRejected, w1)
      | Some responses \<Rightarrow>
          if c_requireTbxId categoryData then
            (case find (\<lambda>item. fr_id item = ''tbxid'') responses of
               None \<Rightarrow>
                 (VerificationFailed,
                  emit (EditReply ''This ticket requires a **valid** transaction id for a purchase.'') w1)
             | Some item \<Rightarrow>
                 (let w2 = emit (VerifyPurchase (fr_response item)) w1 in
                  case ie_verifyPurchase env (fr_response item) of
                    Rejects \<Rightarrow> (IntakeRejected, w2)
                  | Resolves PurchaseError \<Rightarrow>
                      (VerificationFailed,
                       emit (EditReply ''This ticket requires a **valid** transaction id for a purchase.'') w2)
                  | Resolves (PurchaseOk data) \<Rightarrow>
                      createVerified tbxIdRegex env categoryData responses (Some (PurchaseOk data)) w2))
          else createVerified tbxIdRegex env categoryData responses None w1)"

text \<open>The static method \<^verbatim>\<open>Ticket.createNewTicket(client, interaction, category_id)\<close>.\<close>

definition createNewTicket ::
  "(string \<Rightarrow> bool) \<Rightarrow> intake_env \<Rightarrow> nat \<Rightarrow> world \<Rightarrow> intake_result \<times> world" where
  "createNewTicket tbxIdRegex env category_id w =
     (if \<not> ie_category_ok env then (IntakeRejected, w)
      else case categories_findUnique category_id w of
        None \<Rightarrow> (InvalidData, emit (Reply ''Invalid Data'') w)
      | Some categoryData \<Rightarrow>
          (let w1 = emit FetchGuild w in
           case ie_guild env of
             Rejects \<Rightarrow> (IntakeRejected, w1)
           | Resolves False \<Rightarrow> (IntakeRejected, w1)
           | Resolves True \<Rightarrow>
               if \<not> c_requireTbxId categoryData \<and> c_fields categoryData = []
               then createDirect env categoryData w1
               else
                 (let w2 = emit (ShowModal (openModalId categoryData (ie_user env))
                                   (openModalInputs categoryData)) w1 in
                  if \<not> ie_showModal_ok env then (IntakeRejected, w2)
                  else case awaitModalSubmit
                              (\<lambda>m. ms_customId m = openModalId categoryData (ie_user env)
                                    \<and> u_id (ms_user m) = u_id (ie_user env))
                              60000 (ie_submissions env) of
                         None \<Rightarrow> (IntakeCancelled, w2)
                       | Some modalInteraction \<Rightarrow>
                           createSubmitted tbxIdRegex env categoryData modalInteraction w2)))"

section \<open>Constants of the statements\<close>

text \<open>
  The six markdown patterns of \<^const>\<open>formatDiscordMarkdown\<close>: the opening and the closing
  delimiter, and whether the dot matches line terminators.
\<close>

definition markdownPatterns :: "(string \<times> string \<times> bool) list" where
  "markdownPatterns =
     [(''**'', ''**'', False), (''*'', ''*'', False), (''__'', ''__'', False),
      (''~~'', ''~~'', False), (''```'', ''```'', True), (''`'', ''`'', False)]"

text \<open>
  A text on which the transform finds nothing to do: none of the characters
  \<^const>\<open>escapeHtml\<close> rewrites, no line feed, and no match of a markdown pattern.
\<close>

definition untouched :: "string \<Rightarrow> bool" where
  "untouched s =
     (set s \<inter> {CHR ''&'', CHR ''<'', CHR ''>'', CHR 0x22, CHR 0x27, CHR 0x0A} = {}
      \<and> list_all (\<lambda>(op, cl, dotAll). matchAllLazy op cl dotAll s = []) markdownPatterns)"

text \<open>The number of characters of a text that are not digits.\<close>

abbreviation nd :: "string \<Rightarrow> nat" where
  "nd s \<equiv> length (filter (\<lambda>c. \<not> isDigit c) s)"

text \<open>
  Modelled from the spec: \<^verbatim>\<open>utils/utils\<close>, which defines \<^verbatim>\<open>tbxIdRegex\<close>, is not among the
  sources. Where an example needs a pattern, this one stands for it: it accepts the
  strings that start with \<^verbatim>\<open>tbx-\<close>, as the placeholder of the modal
  (\<^verbatim>\<open>tbx-000a0000a00000-aaa0aa\<close>) and the tokens of the spec's scenarios do. The theorems
  hold for every pattern.
\<close>

definition sampleTbxIdRegex :: "string \<Rightarrow> bool" where
  "sampleTbxIdRegex s = startsWith s ''tbx-''"

text \<open>Example data: a row of the message log, and the introductory message of a ticket as
  the bot's own \<^verbatim>\<open>messageCreate\<close> event delivers it.\<close>

definition exampleMessage :: "nat \<Rightarrow> string \<Rightarrow> timestamp \<Rightarrow> TicketMessage" where
  "exampleMessage n content sent =
     \<lparr>m_id = n, m_ticket = 1, m_authorId = ''900'', m_displayName = ''Ann'', m_avatar = None,
      m_content = Some content, m_editedAt = None, m_sentAt = sent\<rparr>"

definition exampleIntro :: Message where
  \<open>exampleIntro = \<lparr>msg_channelId = ''555'', msg_content = ''<@900>'',
                    msg_embeds = [''{"title":"Billing ticket - Ann"}''],
                    msg_author = \<lparr>u_id = ''1'', u_username = ''bot'', u_displayName = ''Bot'', u_avatar = None\<rparr>\<rparr>\<close>

text \<open>A step that only issues calls: it leaves the Registry and the store as they are and
  extends the trace.\<close>

definition onlyEmits :: "world \<Rightarrow> world \<Rightarrow> bool" where
  "onlyEmits w w' = (\<exists>evs. w' = w\<lparr>trace := trace w @ evs\<rparr>)"

text \<open>The calls issued between two states.\<close>

definition newEvents :: "world \<Rightarrow> world \<Rightarrow> event list" where
  "newEvents w w' = drop (length (trace w)) (trace w')"

text \<open>The row after the ticket \<open>tid\<close> has been closed at \<open>now\<close>.\<close>

definition closeRow :: "timestamp \<Rightarrow> nat \<Rightarrow> TicketRow \<Rightarrow> TicketRow" where
  "closeRow now tid r = (if t_id r = tid then r\<lparr>t_closedAt := Some now\<rparr> else r)"

text \<open>The closure message the instance method stores, and the state after its two writes:
  the closed timestamp is set, the closure message is appended to the log.\<close>

definition closureMessage :: "close_env \<Rightarrow> Ticket \<Rightarrow> User \<Rightarrow> string \<Rightarrow> world \<Rightarrow> TicketMessage" where
  "closureMessage env this user reason w =
     \<lparr>m_id = nextId (map m_id (db_messages w)), m_ticket = ticketId this,
      m_authorId = u_id user, m_displayName = u_displayName user,
      m_avatar = Some (case u_avatar user of None \<Rightarrow> [] | Some a \<Rightarrow> a),
      m_content = Some (embedMarker ''Ticket closed'' (Some (closureDescription reason))),
      m_editedAt = None, m_sentAt = ce_now env\<rparr>"

definition afterWrites :: "close_env \<Rightarrow> Ticket \<Rightarrow> User \<Rightarrow> string \<Rightarrow> world \<Rightarrow> world" where
  "afterWrites env this user reason w =
     w\<lparr>db_tickets := map (closeRow (ce_now env) (ticketId this)) (db_tickets w),
       db_messages := db_messages w @ [closureMessage env this user reason w],
       trace := trace w @ [Log LInfo ''Ticket closed'', DbTicketClose (ticketId this) (ce_now env),
                           DbMessageCreate (closureMessage env this user reason w)]\<rparr>"

text \<open>The submission the wait of the static \<^verbatim>\<open>closeTicket\<close> accepts, with the reason it carries.\<close>

definition submittedReason :: "close_env \<Rightarrow> snowflake \<Rightarrow> (ModalSubmit \<times> string) option" where
  "submittedReason env channelId =
     (case awaitModalSubmit
             (\<lambda>m. ms_customId m = closeModalId channelId \<and> u_id (ms_user m) = u_id (ce_user env))
             60000 (ce_submissions env) of
        None \<Rightarrow> None
      | Some modalInteraction \<Rightarrow>
          map_option (Pair modalInteraction)
            (map_of (ms_fields modalInteraction) (''closure-reason-'' @ channelId)))"

text \<open>The prompt was shown, answered in time and the answer acknowledged.\<close>

definition confirmed :: "close_env \<Rightarrow> snowflake \<Rightarrow> bool" where
  "confirmed env channelId =
     (ce_showModal_ok env \<and> submittedReason env channelId \<noteq> None \<and> ce_deferReply_ok env)"

text \<open>The state after the prompt and its acknowledgement.\<close>

definition promptShown :: "snowflake \<Rightarrow> world \<Rightarrow> world" where
  "promptShown channelId w =
     emit DeferReply (emit (ShowModal (closeModalId channelId) (closeModalInputs channelId)) w)"

text \<open>Example data: the requester of a ticket, a staff member, a category with one field, and the
  row and the Registry entry of a ticket of that category.\<close>

definition exampleOwner :: User where
  "exampleOwner = \<lparr>u_id = ''900'', u_username = ''ann'', u_displayName = ''Ann'', u_avatar = None\<rparr>"

definition exampleStaff :: User where
  "exampleStaff = \<lparr>u_id = ''700'', u_username = ''sam'', u_displayName = ''Sam'', u_avatar = None\<rparr>"

definition exampleCategory :: TicketCategoryData where
  "exampleCategory = \<lparr>c_id = 1, c_name = ''Billing'', c_categoryId = ''400'', c_requireTbxId = True,
     c_fields = [\<lparr>f_id = 1, f_label = ''Describe issue'', f_placeholder = None, f_required = 1,
                  f_short_field = 1, f_min_length = None, f_max_length = None\<rparr>]\<rparr>"

definition exampleRow :: TicketRow where
  "exampleRow = \<lparr>t_id = 1, t_category = 1, t_ticketName = ''ann'', t_channelId = ''555'',
     t_userId = ''900'', t_userUsername = ''ann'', t_userDisplayName = ''Ann'',
     t_openedAt = 10, t_closedAt = None, t_staffThreadId = Some ''556''\<rparr>"

definition exampleTicket :: Ticket where
  "exampleTicket = \<lparr>ticketId = 1, channel = \<lparr>ch_id = ''555'', ch_name = ''ann''\<rparr>\<rparr>"

text \<open>A world with one category and one open ticket, registered under its channel.\<close>

definition exampleWorld :: world where
  "exampleWorld = \<lparr>ActiveTickets = [''555'' \<mapsto> exampleTicket], db_categories = [exampleCategory],
     db_tickets = [exampleRow],
     db_messages = [exampleMessage 1 ''hello'' 20],
     trace = []\<rparr>"

text \<open>A close request by \<^verbatim>\<open>user\<close> with the reason "done", in which every call succeeds.\<close>

definition exampleClose :: "User \<Rightarrow> close_env" where
  "exampleClose user = \<lparr>ce_user = user, ce_showModal_ok = True,
     ce_submissions = [\<lparr>ms_customId = ''collector-closeticket-555'', ms_user = user, ms_at = 5000,
                        ms_fields = [(''closure-reason-555'', ''done'')]\<rparr>],
     ce_deferReply_ok = True, ce_now = 100, ce_findInfo_ok = True, ce_update_ok = True,
     ce_create_ok = True, ce_transcript_ok = True, ce_TRANSCRIPT_CHANNEL_ID = ''800'',
     ce_archiveChannel = Resolves True, ce_archiveSend_ok = True, ce_staffThread = Resolves True,
     ce_staffMessages = Resolves [''second'', ''first''], ce_staffSend_ok = True,
     ce_owner = Resolves True, ce_ownerSend_ok = True, ce_deleteReply_ok = True,
     ce_findUser_ok = True, ce_guildPresent = True, ce_member_ok = True, ce_memberSend_ok = True\<rparr>"

text \<open>A text of 1025 characters, one more than the value of an embed's field takes.\<close>

definition longText :: string where
  "longText = replicate 1025 (CHR ''x'')"


text \<open>The kind of a call, without its arguments.\<close>

datatype event_kind =
    ReplyK
  | DeferReplyK
  | EditReplyK
  | DeleteReplyK
  | ShowModalK
  | LogK
  | FetchGuildK
  | FetchChannelK
  | ChannelCreateK
  | ChannelSendK
  | ThreadCreateK
  | ThreadSendK
  | VerifyPurchaseK
  | DbTicketCreateK
  | DbTicketCloseK
  | DbTicketStaffThreadK
  | DbMessageCreateK
  | RegistrySetK
  | RegistryDeleteK
  | GenerateTranscriptK
  | ArchiveSendK
  | FetchThreadMessagesK
  | StaffTranscriptSendK
  | FetchUserK
  | OwnerTranscriptSendK
  | FetchMemberK
  | OwnerNoticeSendK
  | ScheduleDeleteK

fun eventKind :: "event \<Rightarrow> event_kind" where
  "eventKind (Reply _) = ReplyK"
| "eventKind DeferReply = DeferReplyK"
| "eventKind (EditReply _) = EditReplyK"
| "eventKind DeleteReply = DeleteReplyK"
| "eventKind (ShowModal _ _) = ShowModalK"
| "eventKind (Log _ _) = LogK"
| "eventKind FetchGuild = FetchGuildK"
| "eventKind (FetchChannel _) = FetchChannelK"
| "eventKind (ChannelCreate _ _ _) = ChannelCreateK"
| "eventKind (ChannelSend _ _ _) = ChannelSendK"
| "eventKind (ThreadCreate _ _) = ThreadCreateK"
| "eventKind (ThreadSend _ _) = ThreadSendK"
| "eventKind (VerifyPurchase _) = VerifyPurchaseK"
| "eventKind (DbTicketCreate _) = DbTicketCreateK"
| "eventKind (DbTicketClose _ _) = DbTicketCloseK"
| "eventKind (DbTicketStaffThread _ _) = DbTicketStaffThreadK"
| "eventKind (DbMessageCreate _) = DbMessageCreateK"
| "eventKind (RegistrySet _ _) = RegistrySetK"
| "eventKind (RegistryDelete _) = RegistryDeleteK"
| "eventKind (GenerateTranscript _) = GenerateTranscriptK"
| "eventKind (ArchiveSend _ _ _) = ArchiveSendK"
| "eventKind (FetchThreadMessages _) = FetchThreadMessagesK"
| "eventKind (StaffTranscriptSend _ _ _) = StaffTranscriptSendK"
| "eventKind (FetchUser _) = FetchUserK"
| "eventKind (OwnerTranscriptSend _ _ _) = OwnerTranscriptSendK"
| "eventKind (FetchMember _) = FetchMemberK"
| "eventKind (OwnerNoticeSend _ _) = OwnerNoticeSendK"
| "eventKind (ScheduleDelete _ _) = ScheduleDeleteK"

text \<open>A call of the kind was issued between the two states.\<close>

definition attempted :: "event_kind \<Rightarrow> world \<Rightarrow> world \<Rightarrow> bool" where
  "attempted k w w' = (k \<in> set (map eventKind (newEvents w w')))"

subsection \<open>The pass at start\<close>

text \<open>The channel of the ticket is not found: the fetch rejects or gives null.\<close>

definition orphaned :: "reload_env \<Rightarrow> TicketRow \<Rightarrow> bool" where
  "orphaned env t = (resolveChannel env (t_channelId t) = None)"

text \<open>The rows the query of \<^const>\<open>reloadTickets\<close> selects.\<close>

definition openTickets :: "world \<Rightarrow> TicketRow list" where
  "openTickets w = filter (\<lambda>r. t_closedAt r = None) (db_tickets w)"

text \<open>The row after the pass has closed the tickets \<open>ids\<close>.\<close>

definition forceClose :: "reload_env \<Rightarrow> nat list \<Rightarrow> TicketRow \<Rightarrow> TicketRow" where
  "forceClose env ids r = (if t_id r \<in> set ids then r\<lparr>t_closedAt := Some (re_now env (t_id r))\<rparr> else r)"

text \<open>What a logged message says: its ticket, its author and its content.\<close>

definition closureNote :: "TicketMessage \<Rightarrow> nat \<times> snowflake \<times> string \<times> string option" where
  "closureNote m = (m_ticket m, m_authorId m, m_displayName m, m_content m)"

text \<open>The identity of the bot in the examples.\<close>

definition exampleBot :: User where
  "exampleBot = \<lparr>u_id = ''1'', u_username = ''bot'', u_displayName = ''Bot'', u_avatar = None\<rparr>"

text \<open>Four tickets: three open ones on the channels 555, 666 and 777, and a closed one.\<close>

definition exampleStore :: world where
  "exampleStore = \<lparr>ActiveTickets = Map.empty, db_categories = [exampleCategory],
     db_tickets = [exampleRow,
                   exampleRow\<lparr>t_id := 2, t_channelId := ''666''\<rparr>,
                   exampleRow\<lparr>t_id := 3, t_channelId := ''777''\<rparr>,
                   exampleRow\<lparr>t_id := 4, t_channelId := ''888'', t_closedAt := Some 5\<rparr>],
     db_messages = [exampleMessage 1 ''hello'' 20],
     trace = []\<rparr>"

text \<open>A start at which the channel 555 is found, fetching 666 rejects and 777 gives null.\<close>

definition exampleReload :: reload_env where
  "exampleReload = \<lparr>re_bot = exampleBot, re_findMany_ok = True,
     re_fetchChannel = (\<lambda>c. if c = ''555'' then Resolves (Some ''ann'')
                             else if c = ''777'' then Resolves None else Rejects),
     re_now = (\<lambda>t. 200), re_update_ok = (\<lambda>t. True), re_create_ok = (\<lambda>t. True)\<rparr>"

subsection \<open>The form of the intake\<close>

text \<open>Whether a submission is one the wait of \<^const>\<open>createNewTicket\<close> accepts: in time, for
  this modal and from this user.\<close>

definition answersForm :: "intake_env \<Rightarrow> TicketCategoryData \<Rightarrow> ModalSubmit \<Rightarrow> bool" where
  "answersForm env categoryData m =
     (ms_at m < 60000 \<and> ms_customId m = openModalId categoryData (ie_user env)
      \<and> u_id (ms_user m) = u_id (ie_user env))"

text \<open>A request by the example owner; the only submissions are one by another user and one
  that arrives after 61 seconds.\<close>

definition exampleIntake :: intake_env where
  "exampleIntake = \<lparr>ie_user = exampleOwner, ie_category_ok = True, ie_guild = Resolves True,
     ie_deferReply_ok = True, ie_editReply_ok = True, ie_showModal_ok = True,
     ie_submissions =
       [\<lparr>ms_customId = ''collector-openticket-1-700'', ms_user = exampleStaff, ms_at = 1000,
         ms_fields = [(''tbxid'', ''tbx-000a0000a00000-aaa0aa''), (''1'', ''spam'')]\<rparr>,
        \<lparr>ms_customId = ''collector-openticket-1-900'', ms_user = exampleOwner, ms_at = 61000,
         ms_fields = [(''tbxid'', ''tbx-000a0000a00000-aaa0aa''), (''1'', ''It broke'')]\<rparr>],
     ie_verifyPurchase = (\<lambda>t. Resolves (PurchaseOk \<lparr>pay_status = ''Complete'',
                                                       pay_packages = [\<lparr>pkg_name = ''VIP''\<rparr>]\<rparr>)),
     ie_categoryChannel = Resolves (Some []),
     ie_channelCreate = Resolves \<lparr>ch_id = ''999'', ch_name = ''ann''\<rparr>,
     ie_now = 300, ie_ticketCreate_ok = True, ie_channelSend_ok = True,
     ie_STAFF_ROLE_IDS = [], ie_threadCreate = Rejects, ie_threadUpdate_ok = True,
     ie_threadSend_ok = True\<rparr>"

chapter \<open>Properties\<close>

section \<open>Strings\<close>

lemma startsWith_iff: "startsWith s p \<longleftrightarrow> (\<exists>q. s = p @ q)"
  by (induction s p rule: startsWith.induct) auto





section \<open>The introductory message\<close>








section \<open>The markdown transform\<close>

lemma replaceLazy_absent:
  "p \<notin> set s \<Longrightarrow> replaceLazy (p # ps) cl dotAll f s = s"
  by (induction s) auto

lemma replaceQuote_absent:
  "CHR ''&'' \<notin> set s \<Longrightarrow> replaceQuote b s = s"
  by (induction s arbitrary: b) auto

lemma replaceMention_absent:
  "CHR ''&'' \<notin> set s \<Longrightarrow> replaceMention sigil rep s = s"
  by (induction s) auto

lemma escapeHtml_absent:
  "set s \<inter> {CHR ''&'', CHR ''<'', CHR ''>'', CHR 0x22, CHR 0x27} = {} \<Longrightarrow> escapeHtml s = s"
  by (induction s) (auto simp: escapeHtml_def escapeChar_def)

lemma replaceLineBreaks_absent:
  "CHR 0x0A \<notin> set s \<Longrightarrow> replaceLineBreaks s = s"
  by (induction s) (auto simp: replaceLineBreaks_def)

lemma lazyBody_Some:
  "lazyBody dotAll cl xs = Some k \<Longrightarrow> xs = take k xs @ cl @ drop (k + length cl) xs"
proof (induction xs arbitrary: k)
  case Nil
  then show ?case by (simp split: if_splits)
next
  case (Cons c cs)
  show ?case
  proof (cases "startsWith (c # cs) cl")
    case True
    with Cons.prems have "k = 0" by simp
    moreover from True obtain q where "c # cs = cl @ q"
      by (auto simp: startsWith_iff)
    ultimately show ?thesis by simp
  next
    case False
    with Cons.prems obtain k' where k: "k = Suc k'" and l: "lazyBody dotAll cl cs = Some k'"
      by (auto split: if_splits)
    from Cons.IH [OF l] have "cs = take k' cs @ cl @ drop (k' + length cl) cs" .
    then have "c # cs = (c # take k' cs) @ cl @ drop (k' + length cl) cs"
      by simp
    then show ?thesis unfolding k by simp
  qed
qed

lemma match_split:
  assumes "startsWith (c # cs) op" and "lazyBody dotAll cl (drop (length op) (c # cs)) = Some k"
    and "op \<noteq> []"
  shows "c # cs = op @ take k (drop (length op) (c # cs)) @ cl
           @ drop (length op + k + length cl - 1) cs"
proof -
  from assms(1) obtain q where q: "c # cs = op @ q"
    by (auto simp: startsWith_iff)
  then have d: "drop (length op) (c # cs) = q" by simp
  from lazyBody_Some [OF assms(2)] d have "q = take k q @ cl @ drop (k + length cl) q"
    by simp
  moreover have "drop (k + length cl) q = drop (length op + k + length cl - 1) cs"
  proof -
    have "drop (k + length cl) q = drop (length op + (k + length cl)) (c # cs)"
      unfolding q by simp
    also have "\<dots> = drop (length op + k + length cl - 1) cs"
      using assms(3) by (cases op) (simp_all add: add.assoc)
    finally show ?thesis .
  qed
  ultimately have "q = take k q @ cl @ drop (length op + k + length cl - 1) cs"
    by simp
  with q d show ?thesis by simp
qed

lemma replaceLazy_grows:
  assumes "\<And>body. nd op + nd body + nd cl \<le> nd (f body)" and "op \<noteq> []"
  shows "nd s \<le> nd (replaceLazy op cl dotAll f s)"
  using assms
proof (induction op cl dotAll f s rule: replaceLazy.induct)
  case (1 op cl dotAll f)
  then show ?case by simp
next
  case (2 op cl dotAll f c cs)
  show ?case
  proof (cases "startsWith (c # cs) op")
    case False
    then show ?thesis using 2 by simp
  next
    case True
    show ?thesis
    proof (cases "lazyBody dotAll cl (drop (length op) (c # cs))")
      case None
      then show ?thesis using True 2 by simp
    next
      case (Some k)
      let ?body = "take k (drop (length op) (c # cs))"
      let ?rest = "drop (length op + k + length cl - 1) cs"
      from match_split [OF True Some "2.prems"(2)]
      have "c # cs = op @ ?body @ cl @ ?rest" .
      then have "nd (c # cs) = nd (op @ ?body @ cl @ ?rest)" by simp
      then have n: "nd (c # cs) = nd op + nd ?body + nd cl + nd ?rest"
        by simp
      have "nd ?rest \<le> nd (replaceLazy op cl dotAll f ?rest)"
        using "2.IH"(2) [OF True Some] "2.prems" by simp
      moreover have "replaceLazy op cl dotAll f (c # cs)
          = f ?body @ replaceLazy op cl dotAll f ?rest"
        using True Some by simp
      ultimately show ?thesis
        using n "2.prems"(1) [of ?body] by simp
    qed
  qed
qed

lemma replaceLazy_nd:
  assumes "nd op + nd cl \<le> nd l + nd r" and "op \<noteq> []"
  shows "nd s \<le> nd (replaceLazy op cl dotAll (wrapTag l r) s)"
  by (rule replaceLazy_grows) (use assms in \<open>simp_all add: wrapTag_def\<close>)

lemma replaceLazy_none:
  "matchAllLazy op cl dotAll s = [] \<Longrightarrow> replaceLazy op cl dotAll f s = s"
  by (induction op cl dotAll s rule: matchAllLazy.induct) (auto split: option.splits if_splits)

lemma replaceLazy_some:
  "matchAllLazy op cl dotAll s \<noteq> [] \<Longrightarrow> CHR ''<'' \<in> set l \<Longrightarrow>
     CHR ''<'' \<in> set (replaceLazy op cl dotAll (wrapTag l r) s)"
  by (induction op cl dotAll s rule: matchAllLazy.induct)
     (auto simp: wrapTag_def split: option.splits if_splits)

lemma replaceLazy_tag:
  "CHR ''<'' \<in> set l \<Longrightarrow>
     replaceLazy op cl dotAll (wrapTag l r) s = s
     \<or> CHR ''<'' \<in> set (replaceLazy op cl dotAll (wrapTag l r) s)"
  using replaceLazy_none replaceLazy_some by blast

lemma escapeChar_nd:
  "nd [c] \<le> nd (escapeChar c)"
  "c \<in> {CHR ''&'', CHR ''<'', CHR ''>'', CHR 0x22, CHR 0x27} \<Longrightarrow> nd [c] < nd (escapeChar c)"
  by (auto simp: escapeChar_def isDigit_def)

lemma escapeHtml_nd: "nd s \<le> nd (escapeHtml s)"
proof (induction s)
  case Nil
  then show ?case by (simp add: escapeHtml_def)
next
  case (Cons c cs)
  have "nd (escapeHtml (c # cs)) = nd (escapeChar c) + nd (escapeHtml cs)"
    by (simp add: escapeHtml_def)
  moreover have "nd (c # cs) = nd [c] + nd cs" by simp
  ultimately show ?case using escapeChar_nd(1) [of c] Cons by linarith
qed

lemma escapeHtml_nd_less:
  "set s \<inter> {CHR ''&'', CHR ''<'', CHR ''>'', CHR 0x22, CHR 0x27} \<noteq> {} \<Longrightarrow> nd s < nd (escapeHtml s)"
proof (induction s)
  case Nil
  then show ?case by simp
next
  case (Cons c cs)
  have e: "nd (escapeHtml (c # cs)) = nd (escapeChar c) + nd (escapeHtml cs)"
    by (simp add: escapeHtml_def)
  have n: "nd (c # cs) = nd [c] + nd cs" by simp
  show ?case
  proof (cases "c \<in> {CHR ''&'', CHR ''<'', CHR ''>'', CHR 0x22, CHR 0x27}")
    case True
    from escapeChar_nd(2) [OF True] escapeHtml_nd [of cs] e n show ?thesis by linarith
  next
    case False
    with Cons.prems have "set cs \<inter> {CHR ''&'', CHR ''<'', CHR ''>'', CHR 0x22, CHR 0x27} \<noteq> {}"
      by auto
    from Cons.IH [OF this] escapeChar_nd(1) [of c] e n show ?thesis by linarith
  qed
qed

lemma escapeHtml_amp:
  "set s \<inter> {CHR ''&'', CHR ''<'', CHR ''>'', CHR 0x22, CHR 0x27} \<noteq> {} \<Longrightarrow>
     CHR ''&'' \<in> set (escapeHtml s)"
  by (induction s) (auto simp: escapeHtml_def escapeChar_def)

lemma nd_takeWhile_digits: "nd (takeWhile isDigit s) = 0"
  by (induction s) auto

lemma replaceQuote_nd: "nd s \<le> nd (replaceQuote b s)"
proof (induction b s rule: replaceQuote.induct)
  case (1 atStart)
  then show ?case by simp
next
  case (2 atStart c cs)
  let ?q = "drop 4 cs"
  show ?case
  proof (cases "atStart \<and> startsWith (c # cs) ''&gt; '' \<and> takeWhile (dotChar False) ?q \<noteq> []")
    case False
    then have r: "replaceQuote atStart (c # cs) = c # replaceQuote (isLineTerminator c) cs"
      by (simp only: replaceQuote.simps simp_thms if_False)
    from "2.IH"(2) [OF False] show ?thesis
      unfolding r by simp
  next
    case True
    then have r: \<open>replaceQuote atStart (c # cs) =
        ''<div class="quote">'' @ takeWhile (dotChar False) ?q @ ''</div>''
        @ replaceQuote False (dropWhile (dotChar False) ?q)\<close>
      by (simp only: replaceQuote.simps simp_thms if_True)
    from True obtain q where q: "c # cs = ''&gt; '' @ q"
      unfolding startsWith_iff by blast
    then have d: "?q = q" by simp
    have "c # cs = ''&gt; '' @ takeWhile (dotChar False) ?q @ dropWhile (dotChar False) ?q"
      unfolding takeWhile_dropWhile_id d by (rule q)
    then have "nd (c # cs) = nd (''&gt; '' @ takeWhile (dotChar False) ?q @ dropWhile (dotChar False) ?q)"
      by (rule arg_cong)
    then have n: "nd (c # cs) \<le> 5 + nd (takeWhile (dotChar False) ?q) + nd (dropWhile (dotChar False) ?q)"
      by (simp del: takeWhile_dropWhile_id)
    have i: "nd (dropWhile (dotChar False) ?q) \<le> nd (replaceQuote False (dropWhile (dotChar False) ?q))"
      by (rule "2.IH"(1) [OF True])
    have \<open>nd (''<div class="quote">'' @ takeWhile (dotChar False) ?q @ ''</div>''
        @ replaceQuote False (dropWhile (dotChar False) ?q))
       = nd ''<div class="quote">'' + nd (takeWhile (dotChar False) ?q) + nd ''</div>''
         + nd (replaceQuote False (dropWhile (dotChar False) ?q))\<close>
      by (simp only: filter_append length_append)
    moreover have \<open>nd ''<div class="quote">'' = 19\<close> \<open>nd ''</div>'' = 6\<close>
      by (simp_all add: isDigit_def)
    ultimately show ?thesis
      unfolding r using n i by linarith
  qed
qed

lemma replaceQuote_tag:
  "replaceQuote b s = s \<or> CHR ''<'' \<in> set (replaceQuote b s)"
proof (induction b s rule: replaceQuote.induct)
  case (1 atStart)
  then show ?case by simp
next
  case (2 atStart c cs)
  let ?q = "drop 4 cs"
  show ?case
  proof (cases "atStart \<and> startsWith (c # cs) ''&gt; '' \<and> takeWhile (dotChar False) ?q \<noteq> []")
    case False
    then have r: "replaceQuote atStart (c # cs) = c # replaceQuote (isLineTerminator c) cs"
      by (simp only: replaceQuote.simps simp_thms if_False)
    from "2.IH"(2) [OF False] show ?thesis
      unfolding r by auto
  next
    case True
    then have r: \<open>replaceQuote atStart (c # cs) =
        ''<div class="quote">'' @ takeWhile (dotChar False) ?q @ ''</div>''
        @ replaceQuote False (dropWhile (dotChar False) ?q)\<close>
      by (simp only: replaceQuote.simps simp_thms if_True)
    show ?thesis unfolding r by simp
  qed
qed

lemma replaceMention_nd:
  assumes "9 \<le> nd rep"
  shows "nd s \<le> nd (replaceMention sigil rep s)"
  using assms
proof (induction sigil rep s rule: replaceMention.induct)
  case (1 sigil rep)
  then show ?case by simp
next
  case (2 sigil rep c cs)
  let ?d = "dropWhile isDigit (drop 4 cs)"
  show ?case
  proof (cases "startsWith (c # cs) (''&lt;'' @ [sigil]) \<and> takeWhile isDigit (drop 4 cs) \<noteq> []
         \<and> startsWith ?d ''&gt;''")
    case False
    then have r: "replaceMention sigil rep (c # cs) = c # replaceMention sigil rep cs"
      by (simp only: replaceMention.simps simp_thms if_False)
    from "2.IH"(2) [OF False "2.prems"] show ?thesis
      unfolding r by simp
  next
    case True
    then have r: "replaceMention sigil rep (c # cs) = rep @ replaceMention sigil rep (drop 4 ?d)"
      by (simp only: replaceMention.simps simp_thms if_True)
    from True obtain q where q: "c # cs = (''&lt;'' @ [sigil]) @ q"
      unfolding startsWith_iff by blast
    then have d: "drop 4 cs = q" by simp
    from True obtain p where p: "?d = ''&gt;'' @ p"
      unfolding startsWith_iff by blast
    then have dp: "drop 4 ?d = p" by simp
    have "q = takeWhile isDigit q @ dropWhile isDigit q"
      by simp
    also have "dropWhile isDigit q = ''&gt;'' @ p"
      using p d by simp
    finally have "q = takeWhile isDigit q @ ''&gt;'' @ p" .
    then have "(''&lt;'' @ [sigil]) @ q = (''&lt;'' @ [sigil]) @ takeWhile isDigit q @ ''&gt;'' @ p"
      by (rule arg_cong)
    then have "c # cs = (''&lt;'' @ [sigil]) @ takeWhile isDigit q @ ''&gt;'' @ p"
      unfolding q [symmetric] .
    then have "nd (c # cs) = nd ((''&lt;'' @ [sigil]) @ takeWhile isDigit q @ ''&gt;'' @ p)"
      by (rule arg_cong)
    also have "\<dots> = nd ''&lt;'' + nd [sigil] + nd (takeWhile isDigit q) + nd ''&gt;'' + nd p"
      by (simp only: filter_append length_append add.assoc)
    also have "\<dots> \<le> 9 + nd p"
    proof -
      have "nd ''&lt;'' = 4" "nd ''&gt;'' = 4"
        by (simp_all add: isDigit_def)
      moreover have "nd [sigil] \<le> 1"
        by simp
      ultimately show ?thesis
        using nd_takeWhile_digits [of q] by linarith
    qed
    finally have n: "nd (c # cs) \<le> 9 + nd p" .
    have i: "nd p \<le> nd (replaceMention sigil rep p)"
      using "2.IH"(1) [OF True "2.prems"] dp by simp
    have "nd (rep @ replaceMention sigil rep p) = nd rep + nd (replaceMention sigil rep p)"
      by simp
    then show ?thesis
      unfolding r dp using n i "2.prems" by linarith
  qed
qed

lemma replaceMention_tag:
  assumes "CHR ''<'' \<in> set rep"
  shows "replaceMention sigil rep s = s \<or> CHR ''<'' \<in> set (replaceMention sigil rep s)"
  using assms
proof (induction sigil rep s rule: replaceMention.induct)
  case (1 sigil rep)
  then show ?case by simp
next
  case (2 sigil rep c cs)
  let ?d = "dropWhile isDigit (drop 4 cs)"
  show ?case
  proof (cases "startsWith (c # cs) (''&lt;'' @ [sigil]) \<and> takeWhile isDigit (drop 4 cs) \<noteq> []
         \<and> startsWith ?d ''&gt;''")
    case False
    then have r: "replaceMention sigil rep (c # cs) = c # replaceMention sigil rep cs"
      by (simp only: replaceMention.simps simp_thms if_False)
    from "2.IH"(2) [OF False "2.prems"] show ?thesis
      unfolding r by auto
  next
    case True
    then have r: "replaceMention sigil rep (c # cs) = rep @ replaceMention sigil rep (drop 4 ?d)"
      by (simp only: replaceMention.simps simp_thms if_True)
    show ?thesis unfolding r using "2.prems" by simp
  qed
qed

lemma replaceLineBreaks_nd: "nd s \<le> nd (replaceLineBreaks s)"
  by (induction s) (auto simp: replaceLineBreaks_def isDigit_def)

lemma replaceLineBreaks_tag:
  "replaceLineBreaks s = s \<or> CHR ''<'' \<in> set (replaceLineBreaks s)"
  by (induction s) (auto simp: replaceLineBreaks_def)

lemma replaceLineBreaks_some:
  "CHR 0x0A \<in> set s \<Longrightarrow> CHR ''<'' \<in> set (replaceLineBreaks s)"
  by (induction s) (auto simp: replaceLineBreaks_def)

text \<open>The steps of the transform, one after the other.\<close>

lemma formatDiscordMarkdown_steps:
  fixes s
  defines "x1 \<equiv> escapeHtml s"
  defines "x2 \<equiv> replaceLazy ''**'' ''**'' False (wrapTag ''<strong>'' ''</strong>'') x1"
  defines "x3 \<equiv> replaceLazy ''*'' ''*'' False (wrapTag ''<em>'' ''</em>'') x2"
  defines "x4 \<equiv> replaceLazy ''__'' ''__'' False (wrapTag ''<u>'' ''</u>'') x3"
  defines "x5 \<equiv> replaceLazy ''~~'' ''~~'' False (wrapTag ''<s>'' ''</s>'') x4"
  defines "x6 \<equiv> replaceLazy ''```'' ''```'' True (wrapTag ''<pre><code>'' ''</code></pre>'') x5"
  defines "x7 \<equiv> replaceLazy ''`'' ''`'' False (wrapTag ''<code>'' ''</code>'') x6"
  defines "x8 \<equiv> replaceQuote True x7"
  defines \<open>x9 \<equiv> replaceMention (CHR ''@'') ''<span class="mention">@User</span>'' x8\<close>
  defines \<open>x10 \<equiv> replaceMention (CHR ''#'') ''<span class="mention">#channel</span>'' x9\<close>
  shows "formatDiscordMarkdown s = replaceLineBreaks x10"
    and "nd x1 \<le> nd (formatDiscordMarkdown s)"
    and "CHR ''&'' \<in> set x1 \<or> CHR ''<'' \<in> set x1 \<Longrightarrow>
           CHR ''&'' \<in> set (formatDiscordMarkdown s) \<or> CHR ''<'' \<in> set (formatDiscordMarkdown s)"
    and "untouched s \<Longrightarrow> formatDiscordMarkdown s = s"
    and "\<not> untouched s \<Longrightarrow>
           CHR ''&'' \<in> set (formatDiscordMarkdown s) \<or> CHR ''<'' \<in> set (formatDiscordMarkdown s)"
proof -
  show f: "formatDiscordMarkdown s = replaceLineBreaks x10"
    unfolding formatDiscordMarkdown_def Let_def x1_def x2_def x3_def x4_def x5_def x6_def x7_def
      x8_def x9_def x10_def ..
  have n2: "nd x1 \<le> nd x2" unfolding x2_def by (rule replaceLazy_nd) (simp_all add: isDigit_def)
  have n3: "nd x2 \<le> nd x3" unfolding x3_def by (rule replaceLazy_nd) (simp_all add: isDigit_def)
  have n4: "nd x3 \<le> nd x4" unfolding x4_def by (rule replaceLazy_nd) (simp_all add: isDigit_def)
  have n5: "nd x4 \<le> nd x5" unfolding x5_def by (rule replaceLazy_nd) (simp_all add: isDigit_def)
  have n6: "nd x5 \<le> nd x6" unfolding x6_def by (rule replaceLazy_nd) (simp_all add: isDigit_def)
  have n7: "nd x6 \<le> nd x7" unfolding x7_def by (rule replaceLazy_nd) (simp_all add: isDigit_def)
  have n8: "nd x7 \<le> nd x8" unfolding x8_def by (rule replaceQuote_nd)
  have n9: "nd x8 \<le> nd x9" unfolding x9_def by (rule replaceMention_nd) (simp add: isDigit_def)
  have n10: "nd x9 \<le> nd x10" unfolding x10_def by (rule replaceMention_nd) (simp add: isDigit_def)
  have n11: "nd x10 \<le> nd (replaceLineBreaks x10)" by (rule replaceLineBreaks_nd)
  show "nd x1 \<le> nd (formatDiscordMarkdown s)"
    unfolding f using n2 n3 n4 n5 n6 n7 n8 n9 n10 n11 by linarith
  have t2: "x2 = x1 \<or> CHR ''<'' \<in> set x2" unfolding x2_def by (rule replaceLazy_tag) simp
  have t3: "x3 = x2 \<or> CHR ''<'' \<in> set x3" unfolding x3_def by (rule replaceLazy_tag) simp
  have t4: "x4 = x3 \<or> CHR ''<'' \<in> set x4" unfolding x4_def by (rule replaceLazy_tag) simp
  have t5: "x5 = x4 \<or> CHR ''<'' \<in> set x5" unfolding x5_def by (rule replaceLazy_tag) simp
  have t6: "x6 = x5 \<or> CHR ''<'' \<in> set x6" unfolding x6_def by (rule replaceLazy_tag) simp
  have t7: "x7 = x6 \<or> CHR ''<'' \<in> set x7" unfolding x7_def by (rule replaceLazy_tag) simp
  have t8: "x8 = x7 \<or> CHR ''<'' \<in> set x8" unfolding x8_def by (rule replaceQuote_tag)
  have t9: "x9 = x8 \<or> CHR ''<'' \<in> set x9" unfolding x9_def by (rule replaceMention_tag) simp
  have t10: "x10 = x9 \<or> CHR ''<'' \<in> set x10" unfolding x10_def by (rule replaceMention_tag) simp
  have t11: "replaceLineBreaks x10 = x10 \<or> CHR ''<'' \<in> set (replaceLineBreaks x10)"
    by (rule replaceLineBreaks_tag)
  have q: "CHR ''&'' \<in> set y \<or> CHR ''<'' \<in> set y"
    if "CHR ''&'' \<in> set x \<or> CHR ''<'' \<in> set x" "y = x \<or> CHR ''<'' \<in> set y" for x y :: string
    using that by auto
  have q2: "CHR ''&'' \<in> set x1 \<or> CHR ''<'' \<in> set x1 \<Longrightarrow> CHR ''&'' \<in> set x2 \<or> CHR ''<'' \<in> set x2"
    by (rule q [OF _ t2])
  have q3: "CHR ''&'' \<in> set x2 \<or> CHR ''<'' \<in> set x2 \<Longrightarrow> CHR ''&'' \<in> set x3 \<or> CHR ''<'' \<in> set x3"
    by (rule q [OF _ t3])
  have q4: "CHR ''&'' \<in> set x3 \<or> CHR ''<'' \<in> set x3 \<Longrightarrow> CHR ''&'' \<in> set x4 \<or> CHR ''<'' \<in> set x4"
    by (rule q [OF _ t4])
  have q5: "CHR ''&'' \<in> set x4 \<or> CHR ''<'' \<in> set x4 \<Longrightarrow> CHR ''&'' \<in> set x5 \<or> CHR ''<'' \<in> set x5"
    by (rule q [OF _ t5])
  have q6: "CHR ''&'' \<in> set x5 \<or> CHR ''<'' \<in> set x5 \<Longrightarrow> CHR ''&'' \<in> set x6 \<or> CHR ''<'' \<in> set x6"
    by (rule q [OF _ t6])
  have q7: "CHR ''&'' \<in> set x6 \<or> CHR ''<'' \<in> set x6 \<Longrightarrow> CHR ''&'' \<in> set x7 \<or> CHR ''<'' \<in> set x7"
    by (rule q [OF _ t7])
  have q8: "CHR ''&'' \<in> set x7 \<or> CHR ''<'' \<in> set x7 \<Longrightarrow> CHR ''&'' \<in> set x8 \<or> CHR ''<'' \<in> set x8"
    by (rule q [OF _ t8])
  have q9: "CHR ''&'' \<in> set x8 \<or> CHR ''<'' \<in> set x8 \<Longrightarrow> CHR ''&'' \<in> set x9 \<or> CHR ''<'' \<in> set x9"
    by (rule q [OF _ t9])
  have q10: "CHR ''&'' \<in> set x9 \<or> CHR ''<'' \<in> set x9 \<Longrightarrow> CHR ''&'' \<in> set x10 \<or> CHR ''<'' \<in> set x10"
    by (rule q [OF _ t10])
  have q11: "CHR ''&'' \<in> set x10 \<or> CHR ''<'' \<in> set x10 \<Longrightarrow>
      CHR ''&'' \<in> set (formatDiscordMarkdown s) \<or> CHR ''<'' \<in> set (formatDiscordMarkdown s)"
    unfolding f by (rule q [OF _ t11])
  show p1: "CHR ''&'' \<in> set x1 \<or> CHR ''<'' \<in> set x1 \<Longrightarrow>
           CHR ''&'' \<in> set (formatDiscordMarkdown s) \<or> CHR ''<'' \<in> set (formatDiscordMarkdown s)"
    by (intro q11 q10 q9 q8 q7 q6 q5 q4 q3 q2)
  have m: "matchAllLazy ''**'' ''**'' False s = []" "matchAllLazy ''*'' ''*'' False s = []"
    "matchAllLazy ''__'' ''__'' False s = []" "matchAllLazy ''~~'' ''~~'' False s = []"
    "matchAllLazy ''```'' ''```'' True s = []" "matchAllLazy ''`'' ''`'' False s = []"
    and h: "set s \<inter> {CHR ''&'', CHR ''<'', CHR ''>'', CHR 0x22, CHR 0x27} = {}"
    and l: "CHR 0x0A \<notin> set s" and a: "CHR ''&'' \<notin> set s"
    if "untouched s"
    using that by (auto simp: untouched_def markdownPatterns_def)
  show "formatDiscordMarkdown s = s" if u: "untouched s"
  proof -
    have e1: "x1 = s" unfolding x1_def by (rule escapeHtml_absent [OF h [OF u]])
    have e2: "x2 = s" unfolding x2_def e1 by (rule replaceLazy_none [OF m(1) [OF u]])
    have e3: "x3 = s" unfolding x3_def e2 by (rule replaceLazy_none [OF m(2) [OF u]])
    have e4: "x4 = s" unfolding x4_def e3 by (rule replaceLazy_none [OF m(3) [OF u]])
    have e5: "x5 = s" unfolding x5_def e4 by (rule replaceLazy_none [OF m(4) [OF u]])
    have e6: "x6 = s" unfolding x6_def e5 by (rule replaceLazy_none [OF m(5) [OF u]])
    have e7: "x7 = s" unfolding x7_def e6 by (rule replaceLazy_none [OF m(6) [OF u]])
    have e8: "x8 = s" unfolding x8_def e7 by (rule replaceQuote_absent [OF a [OF u]])
    have e9: "x9 = s" unfolding x9_def e8 by (rule replaceMention_absent [OF a [OF u]])
    have e10: "x10 = s" unfolding x10_def e9 by (rule replaceMention_absent [OF a [OF u]])
    show ?thesis unfolding f e10 by (rule replaceLineBreaks_absent [OF l [OF u]])
  qed
  show "CHR ''&'' \<in> set (formatDiscordMarkdown s) \<or> CHR ''<'' \<in> set (formatDiscordMarkdown s)"
    if nu: "\<not> untouched s"
  proof (cases "set s \<inter> {CHR ''&'', CHR ''<'', CHR ''>'', CHR 0x22, CHR 0x27} = {}")
    case False
    then have "CHR ''&'' \<in> set x1"
      unfolding x1_def by (rule escapeHtml_amp)
    then show ?thesis by (intro p1) simp
  next
    case True
    then have e1: "x1 = s" unfolding x1_def by (rule escapeHtml_absent)
    from True have a: "CHR ''&'' \<notin> set s" by auto
    show ?thesis
    proof (cases "matchAllLazy ''**'' ''**'' False s = []")
      case False
      then have "CHR ''<'' \<in> set x2"
        unfolding x2_def e1 by (rule replaceLazy_some) simp
      then show ?thesis by (intro q11 q10 q9 q8 q7 q6 q5 q4 q3) simp
    next
      case m1: True
      then have e2: "x2 = s" unfolding x2_def e1 by (rule replaceLazy_none)
      show ?thesis
      proof (cases "matchAllLazy ''*'' ''*'' False s = []")
        case False
        then have "CHR ''<'' \<in> set x3"
          unfolding x3_def e2 by (rule replaceLazy_some) simp
        then show ?thesis by (intro q11 q10 q9 q8 q7 q6 q5 q4) simp
      next
        case m2: True
        then have e3: "x3 = s" unfolding x3_def e2 by (rule replaceLazy_none)
        show ?thesis
        proof (cases "matchAllLazy ''__'' ''__'' False s = []")
          case False
          then have "CHR ''<'' \<in> set x4"
            unfolding x4_def e3 by (rule replaceLazy_some) simp
          then show ?thesis by (intro q11 q10 q9 q8 q7 q6 q5) simp
        next
          case m3: True
          then have e4: "x4 = s" unfolding x4_def e3 by (rule replaceLazy_none)
          show ?thesis
          proof (cases "matchAllLazy ''~~'' ''~~'' False s = []")
            case False
            then have "CHR ''<'' \<in> set x5"
              unfolding x5_def e4 by (rule replaceLazy_some) simp
            then show ?thesis by (intro q11 q10 q9 q8 q7 q6) simp
          next
            case m4: True
            then have e5: "x5 = s" unfolding x5_def e4 by (rule replaceLazy_none)
            show ?thesis
            proof (cases "matchAllLazy ''```'' ''```'' True s = []")
              case False
              then have "CHR ''<'' \<in> set x6"
                unfolding x6_def e5 by (rule replaceLazy_some) simp
              then show ?thesis by (intro q11 q10 q9 q8 q7) simp
            next
              case m5: True
              then have e6: "x6 = s" unfolding x6_def e5 by (rule replaceLazy_none)
              show ?thesis
              proof (cases "matchAllLazy ''`'' ''`'' False s = []")
                case False
                then have "CHR ''<'' \<in> set x7"
                  unfolding x7_def e6 by (rule replaceLazy_some) simp
                then show ?thesis by (intro q11 q10 q9 q8) simp
              next
                case m6: True
                then have e7: "x7 = s" unfolding x7_def e6 by (rule replaceLazy_none)
                have e8: "x8 = s" unfolding x8_def e7 by (rule replaceQuote_absent [OF a])
                have e9: "x9 = s" unfolding x9_def e8 by (rule replaceMention_absent [OF a])
                have e10: "x10 = s" unfolding x10_def e9 by (rule replaceMention_absent [OF a])
                from nu True m1 m2 m3 m4 m5 m6 have "CHR 0x0A \<in> set s"
                  by (auto simp: untouched_def markdownPatterns_def)
                then have "CHR ''<'' \<in> set (replaceLineBreaks x10)"
                  unfolding e10 by (rule replaceLineBreaks_some)
                then show ?thesis unfolding f by simp
              qed
            qed
          qed
        qed
      qed
    qed
  qed
qed

lemma formatDiscordMarkdown_changes:
  assumes "CHR ''&'' \<in> set t \<or> CHR ''<'' \<in> set t"
  shows "formatDiscordMarkdown t \<noteq> t"
proof -
  from assms have "set t \<inter> {CHR ''&'', CHR ''<'', CHR ''>'', CHR 0x22, CHR 0x27} \<noteq> {}"
    by auto
  then have "nd t < nd (escapeHtml t)"
    by (rule escapeHtml_nd_less)
  also have "\<dots> \<le> nd (formatDiscordMarkdown t)"
    by (rule formatDiscordMarkdown_steps(2))
  finally show ?thesis by auto
qed

text \<open>
  C3, as the code has it. Applying the transform to its own output gives the same output,
  and so the same visible text, exactly for the texts the transform leaves as they are;
  and these are the texts that hold none of the characters \<^verbatim>\<open>& < > " '\<close>, no line feed
  and no match of one of the six markdown patterns. Whenever the first application
  escapes a character, wraps a pattern or replaces a line feed, the second application
  changes its output again.
\<close>

theorem formatDiscordMarkdown_idempotent_iff:
  "(formatDiscordMarkdown (formatDiscordMarkdown s) = formatDiscordMarkdown s \<longleftrightarrow> untouched s)
   \<and> (formatDiscordMarkdown s = s \<longleftrightarrow> untouched s)"
proof (cases "untouched s")
  case True
  then have "formatDiscordMarkdown s = s"
    by (rule formatDiscordMarkdown_steps(4))
  with True show ?thesis by simp
next
  case False
  then have q: "CHR ''&'' \<in> set (formatDiscordMarkdown s) \<or> CHR ''<'' \<in> set (formatDiscordMarkdown s)"
    by (rule formatDiscordMarkdown_steps(5))
  then have a: "formatDiscordMarkdown (formatDiscordMarkdown s) \<noteq> formatDiscordMarkdown s"
    by (rule formatDiscordMarkdown_changes)
  have b: "formatDiscordMarkdown s \<noteq> s"
  proof
    assume e: "formatDiscordMarkdown s = s"
    with q have "CHR ''&'' \<in> set s \<or> CHR ''<'' \<in> set s" by simp
    from formatDiscordMarkdown_changes [OF this] e show False by simp
  qed
  from False a b show ?thesis by simp
qed

theorem formatDiscordMarkdown_idempotent_iff_witness:
  "untouched ''Order 66 arrived, thanks!''
   \<and> formatDiscordMarkdown (formatDiscordMarkdown ''Order 66 arrived, thanks!'')
       = formatDiscordMarkdown ''Order 66 arrived, thanks!''
   \<and> untouched ''a_b'' \<and> formatDiscordMarkdown ''a_b'' = ''a_b''
   \<and> untouched ''2 * 3 ~ 6'' \<and> formatDiscordMarkdown ''2 * 3 ~ 6'' = ''2 * 3 ~ 6''
   \<and> formatDiscordMarkdown (formatDiscordMarkdown ''2 * 3 ~ 6'') = formatDiscordMarkdown ''2 * 3 ~ 6''
   \<and> \<not> untouched ''2 * 3 * 6''
   \<and> formatDiscordMarkdown (formatDiscordMarkdown ''2 * 3 * 6'') \<noteq> formatDiscordMarkdown ''2 * 3 * 6''"
proof -
  have u: "untouched ''Order 66 arrived, thanks!''" "untouched ''a_b''" "untouched ''2 * 3 ~ 6''"
    "\<not> untouched ''2 * 3 * 6''"
    by (simp_all add: untouched_def markdownPatterns_def dotChar_def isLineTerminator_def)
  from formatDiscordMarkdown_idempotent_iff [of "''Order 66 arrived, thanks!''"]
    formatDiscordMarkdown_idempotent_iff [of "''a_b''"]
    formatDiscordMarkdown_idempotent_iff [of "''2 * 3 ~ 6''"]
    formatDiscordMarkdown_idempotent_iff [of "''2 * 3 * 6''"] u
  show ?thesis by simp
qed

text \<open>
  C3 as stated fails: the transform escapes its own output again. An ampersand becomes
  \<^verbatim>\<open>&amp;\<close> and then \<^verbatim>\<open>&amp;amp;\<close>, which a browser shows as \<^verbatim>\<open>&amp;\<close>; the tags
  written for bold text are escaped by the second pass and shown as text.
\<close>

theorem formatDiscordMarkdown_not_idempotent:
  "formatDiscordMarkdown ''a & b'' = ''a &amp; b''
   \<and> formatDiscordMarkdown (formatDiscordMarkdown ''a & b'') = ''a &amp;amp; b''
   \<and> visibleText (formatDiscordMarkdown ''a & b'') = ''a & b''
   \<and> visibleText (formatDiscordMarkdown (formatDiscordMarkdown ''a & b'')) = ''a &amp; b''
   \<and> formatDiscordMarkdown ''**hi**'' = ''<strong>hi</strong>''
   \<and> formatDiscordMarkdown (formatDiscordMarkdown ''**hi**'') = ''&lt;strong&gt;hi&lt;/strong&gt;''
   \<and> visibleText (formatDiscordMarkdown ''**hi**'') = ''hi''
   \<and> visibleText (formatDiscordMarkdown (formatDiscordMarkdown ''**hi**'')) = ''<strong>hi</strong>''"
  by (simp add: formatDiscordMarkdown_def escapeHtml_def escapeChar_def replaceLineBreaks_def
      wrapTag_def dotChar_def isLineTerminator_def)

section \<open>The filter of the transcript\<close>

lemma matchAllLazy_includes:
  "matchAllLazy op cl dotAll s \<noteq> [] \<Longrightarrow> str_includes s op"
  by (induction s) (auto split: if_splits option.splits)

lemma richContentOnly_hasEmbedMarker:
  "richContentOnly m \<Longrightarrow> hasEmbedMarker m"
  by (auto simp: richContentOnly_def hasEmbedMarker_def embedMatches_def
      split: option.splits dest: matchAllLazy_includes)

lemma keep_middle:
  "filter (keepMessage (Suc (Suc (length mid)))) (enumerate (Suc 0) mid) = enumerate (Suc 0) mid"
  by (auto simp: filter_id_conv keepMessage_def in_set_enumerate_eq)

lemma filterMessages_ends:
  "filterMessages (a # mid @ [z]) =
     (if hasEmbedMarker a then [] else [a]) @ mid @ (if hasEmbedMarker z then [] else [z])"
proof -
  have split: "enumerate 0 (a # mid @ [z]) = (0, a) # enumerate (Suc 0) mid @ [(Suc (length mid), z)]"
    by (simp add: enumerate_append_eq)
  have first: "keepMessage (Suc (Suc (length mid))) (0, a) = (\<not> hasEmbedMarker a)"
    by (simp add: keepMessage_def)
  have last: "keepMessage (Suc (Suc (length mid))) (Suc (length mid), z) = (\<not> hasEmbedMarker z)"
    by (simp add: keepMessage_def)
  have "filterMessages (a # mid @ [z]) =
      map snd (filter (keepMessage (Suc (Suc (length mid))))
        ((0, a) # enumerate (Suc 0) mid @ [(Suc (length mid), z)]))"
    unfolding filterMessages_def split by simp
  also have "\<dots> = (if hasEmbedMarker a then [] else [a]) @ map snd (enumerate (Suc 0) mid)
      @ (if hasEmbedMarker z then [] else [z])"
    by (simp add: keep_middle first last)
  finally show ?thesis by simp
qed

lemma filterMessages_single:
  "filterMessages [m] = (if hasEmbedMarker m then [] else [m])"
  by (simp add: filterMessages_def keepMessage_def)

lemma sorted_filterMessages:
  assumes "sorted (map m_sentAt arr)"
  shows "sorted (map m_sentAt (filterMessages arr))"
proof -
  have "map (m_sentAt \<circ> snd) (enumerate 0 arr) = map m_sentAt (map snd (enumerate 0 arr))"
    by (simp only: map_map)
  also have "\<dots> = map m_sentAt arr"
    by (simp only: map_snd_enumerate)
  finally have "sorted (map (m_sentAt \<circ> snd) (enumerate 0 arr))"
    using assms by simp
  then have "sorted (map (m_sentAt \<circ> snd) (filter (keepMessage (length arr)) (enumerate 0 arr)))"
    by (simp add: sorted_map sorted_wrt_filter)
  then show ?thesis
    by (simp add: filterMessages_def)
qed

text \<open>
  C2, as the code has it. The filter drops the first message if and only if its content
  contains the embed marker \<^verbatim>\<open><EMBED:\<close> anywhere, likewise the last message, and keeps
  every other message in the order of the query; a message without content is never
  dropped. A rich-content-only message contains the marker, so it is dropped at either
  end; and a log in ascending order of \<^verbatim>\<open>sentAt\<close> stays in ascending order.
\<close>

theorem filterMessages_drops_marked_ends:
  "filterMessages [] = []
   \<and> filterMessages [m] = (if hasEmbedMarker m then [] else [m])
   \<and> filterMessages (a # mid @ [z]) =
       (if hasEmbedMarker a then [] else [a]) @ mid @ (if hasEmbedMarker z then [] else [z])
   \<and> (richContentOnly m \<longrightarrow> hasEmbedMarker m)
   \<and> (sorted (map m_sentAt arr) \<longrightarrow> sorted (map m_sentAt (filterMessages arr)))"
  using filterMessages_ends [of a mid z] filterMessages_single [of m]
    richContentOnly_hasEmbedMarker [of m] sorted_filterMessages [of arr]
  by (simp add: filterMessages_def)

theorem filterMessages_drops_marked_ends_witness:
  \<open>filterMessages [exampleMessage 1 ''<EMBED:{"title":"Ticket closed"}>'' 10]  = []
   \<and> filterMessages [exampleMessage 1 ''<EMBED:{"title":"Opened"}>'' 10, exampleMessage 2 ''hello'' 20,
                      exampleMessage 3 ''<EMBED:{"title":"Ticket closed"}>'' 30]
       = [exampleMessage 2 ''hello'' 20]
   \<and> richContentOnly (exampleMessage 1 ''<EMBED:{"title":"Ticket closed"}>'' 10)
   \<and> hasEmbedMarker (exampleMessage 1 ''<EMBED:{"title":"Ticket closed"}>'' 10)
   \<and> sorted (map m_sentAt [exampleMessage 1 ''<EMBED:{"title":"Opened"}>'' 10, exampleMessage 2 ''hello'' 20,
                      exampleMessage 3 ''<EMBED:{"title":"Ticket closed"}>'' 30])
   \<and> sorted (map m_sentAt (filterMessages [exampleMessage 1 ''<EMBED:{"title":"Opened"}>'' 10, exampleMessage 2 ''hello'' 20,
                      exampleMessage 3 ''<EMBED:{"title":"Ticket closed"}>'' 30]))\<close>
proof -
  have r: \<open>richContentOnly (exampleMessage 1 ''<EMBED:{"title":"Ticket closed"}>'' 10)\<close>
    by (simp add: richContentOnly_def exampleMessage_def embedMatches_def textContent_def trim_def
        dotChar_def)
  have h: \<open>hasEmbedMarker (exampleMessage 1 ''<EMBED:{"title":"Ticket closed"}>'' 10)\<close>
    \<open>hasEmbedMarker (exampleMessage 1 ''<EMBED:{"title":"Opened"}>'' 10)\<close>
    \<open>hasEmbedMarker (exampleMessage 3 ''<EMBED:{"title":"Ticket closed"}>'' 30)\<close>
    by (simp_all add: hasEmbedMarker_def exampleMessage_def)
  have s: \<open>sorted (map m_sentAt [exampleMessage 1 ''<EMBED:{"title":"Opened"}>'' 10, exampleMessage 2 ''hello'' 20,
                      exampleMessage 3 ''<EMBED:{"title":"Ticket closed"}>'' 30])\<close>
    by (simp add: exampleMessage_def)
  from filterMessages_drops_marked_ends
    [of \<open>exampleMessage 1 ''<EMBED:{"title":"Ticket closed"}>'' 10\<close>
        \<open>exampleMessage 1 ''<EMBED:{"title":"Opened"}>'' 10\<close>
        \<open>[exampleMessage 2 ''hello'' 20]\<close>
        \<open>exampleMessage 3 ''<EMBED:{"title":"Ticket closed"}>'' 30\<close>
        \<open>[exampleMessage 1 ''<EMBED:{"title":"Opened"}>'' 10, exampleMessage 2 ''hello'' 20,
                      exampleMessage 3 ''<EMBED:{"title":"Ticket closed"}>'' 30]\<close>]
  show ?thesis using r h s by simp
qed

text \<open>
  C2 as stated fails: a first message with plain text and an embed is dropped although it
  is not rich-content-only. The introductory message of a ticket is such a message: the
  mention of the requester is its text.
\<close>

theorem filterMessages_drops_text_with_embed:
  \<open>loggedContent exampleIntro = ''<@900>'' @ [CHR 0x0A, CHR 0x0A] @ ''<EMBED:{"title":"Billing ticket - Ann"}>'' @ [CHR 0x0A]
   \<and> textContent (loggedContent exampleIntro) = ''<@900>''
   \<and> richContentOnly (exampleMessage 1 (loggedContent exampleIntro) 10) = False
   \<and> filterMessages [exampleMessage 1 (loggedContent exampleIntro) 10,
                      exampleMessage 2 ''hello'' 20,
                      exampleMessage 3 ''thanks'' 30]
       = [exampleMessage 2 ''hello'' 20, exampleMessage 3 ''thanks'' 30]\<close>
  by (simp add: loggedContent_def exampleIntro_def exampleMessage_def textContent_def
      embedMatches_def richContentOnly_def filterMessages_def keepMessage_def hasEmbedMarker_def
      trim_def isWhiteSpace_def dotChar_def)

section \<open>Closing a ticket: the Registry and the store\<close>

lemma emit_simps [simp]:
  "ActiveTickets (emit e w) = ActiveTickets w"
  "db_categories (emit e w) = db_categories w"
  "db_tickets (emit e w) = db_tickets w"
  "db_messages (emit e w) = db_messages w"
  "trace (emit e w) = trace w @ [e]"
  by (simp_all add: emit_def)

lemma find_emit [simp]:
  "tickets_findUnique tid (emit e w) = tickets_findUnique tid w"
  "categories_findUnique cid (emit e w) = categories_findUnique cid w"
  "getTicket ch (emit e w) = getTicket ch w"
  by (simp_all add: tickets_findUnique_def categories_findUnique_def getTicket_def)

lemma findWithCategory_emit [simp]:
  "tickets_findWithCategory ok tid (emit e w) = tickets_findWithCategory ok tid w"
  by (simp add: tickets_findWithCategory_def split: option.splits)

lemma onlyEmits_refl [simp]: "onlyEmits w w"
  unfolding onlyEmits_def by (rule exI [of _ "[]"]) simp

lemma onlyEmits_emit [simp]: "onlyEmits w (emit e w)"
  unfolding onlyEmits_def emit_def by blast

lemma onlyEmits_trans:
  assumes "onlyEmits w w1" and "onlyEmits w1 w2"
  shows "onlyEmits w w2"
proof -
  from assms obtain evs evs' where "w1 = w\<lparr>trace := trace w @ evs\<rparr>"
    and "w2 = w1\<lparr>trace := trace w1 @ evs'\<rparr>"
    unfolding onlyEmits_def by blast
  then have "w2 = w\<lparr>trace := trace w @ (evs @ evs')\<rparr>" by simp
  then show ?thesis unfolding onlyEmits_def by blast
qed

lemma onlyEmits_emit_after [simp]: "onlyEmits w w1 \<Longrightarrow> onlyEmits w (emit e w1)"
  by (rule onlyEmits_trans [OF _ onlyEmits_emit])

lemma onlyEmitsD:
  assumes "onlyEmits w w'"
  shows "ActiveTickets w' = ActiveTickets w" "db_categories w' = db_categories w"
    "db_tickets w' = db_tickets w" "db_messages w' = db_messages w"
  using assms by (auto simp: onlyEmits_def)

lemma sendStaffTranscript_onlyEmits [simp]:
  "onlyEmits w (sendStaffTranscript env this info w)"
  by (simp add: sendStaffTranscript_def Let_def split: option.splits promise.splits bool.splits)

lemma sendArchive_onlyEmits [simp]:
  "onlyEmits w (sendArchive env this user reason ticketInfo transcript w)"
  by (auto simp: sendArchive_def Let_def split: option.splits promise.splits bool.splits
      intro: onlyEmits_trans [OF _ sendStaffTranscript_onlyEmits])

lemma sendOwnerTranscript_onlyEmits [simp]:
  "onlyEmits w (sendOwnerTranscript env this user reason ticketInfo transcript w)"
  by (simp add: sendOwnerTranscript_def Let_def split: option.splits promise.splits bool.splits)

lemma generateTicketTranscript_onlyEmits [simp]:
  "onlyEmits w (snd (generateTicketTranscript ok tid w))"
  by (simp add: generateTicketTranscript_def Let_def split: option.splits promise.splits prod.splits)

lemma makeTranscript_onlyEmits [simp]:
  "onlyEmits w (snd (makeTranscript env this ticketInfo w))"
proof (cases ticketInfo)
  case None
  then show ?thesis by (simp add: makeTranscript_def)
next
  case (Some info)
  obtain d w1 where g: "generateTicketTranscript (ce_transcript_ok env) (ticketId this) w = (d, w1)"
    by (cases "generateTicketTranscript (ce_transcript_ok env) (ticketId this) w")
  then have "onlyEmits w w1"
    using generateTicketTranscript_onlyEmits [of w "ce_transcript_ok env" "ticketId this"] by simp
  then show ?thesis using Some g
    by (cases d) (simp_all add: makeTranscript_def)
qed

lemma fanOut_onlyEmits [simp]:
  "onlyEmits w (fanOut env this user reason ticketInfo w)"
proof -
  obtain t w1 where m: "makeTranscript env this ticketInfo w = (t, w1)"
    by (cases "makeTranscript env this ticketInfo w")
  then have 1: "onlyEmits w w1"
    using makeTranscript_onlyEmits [of w env this ticketInfo] by simp
  have 2: "onlyEmits w1 (sendArchive env this user reason ticketInfo t w1)" by simp
  have 3: "onlyEmits (sendArchive env this user reason ticketInfo t w1)
     (sendOwnerTranscript env this user reason ticketInfo t (sendArchive env this user reason ticketInfo t w1))"
    by simp
  show ?thesis
    using onlyEmits_trans [OF onlyEmits_trans [OF 1 2] 3]
    by (simp add: fanOut_def m)
qed

lemma notifyOwner_onlyEmits [simp]:
  "onlyEmits w (snd (notifyOwner env ticket mi closureReason w))"
  by (simp add: notifyOwner_def Let_def split: option.splits)

lemma onlyEmits_newEvents:
  "onlyEmits w w' \<Longrightarrow> w' = w\<lparr>trace := trace w @ newEvents w w'\<rparr>"
  by (auto simp: onlyEmits_def newEvents_def)

lemma find_map_keep_id:
  assumes "\<And>r. t_id (f r) = t_id r"
  shows "find (\<lambda>r. t_id r = tid) (map f rows) = map_option f (find (\<lambda>r. t_id r = tid) rows)"
  using assms by (induction rows) auto

lemma closeTicket_registry [simp]:
  "ActiveTickets (snd (closeTicket env this user reason w)) = ActiveTickets w"
proof -
  have f: "ActiveTickets (fanOut env this user reason info w5) = ActiveTickets w5" for info w5
    by (rule onlyEmitsD) simp
  show ?thesis
    by (auto simp: closeTicket_def Let_def tickets_update_def ticketMessages_create_def f
        split: promise.splits option.splits if_splits)
qed

text \<open>The state after the two writes of the instance method.\<close>

lemma closeTicket_runs:
  assumes "tickets_findWithCategory (ce_findInfo_ok env) (ticketId this) w = Resolves (Some (row, cat))"
    and "ce_update_ok env" and "ce_create_ok env" and "embedOk (closureEmbed reason)"
  shows "closeTicket env this user reason w =
     (True, fanOut env this user reason (Some (row, cat)) (afterWrites env this user reason w))"
proof -
  from assms(1) have r: "tickets_findUnique (ticketId this) w = Some row"
    by (auto simp: tickets_findWithCategory_def split: if_splits option.splits)
  let ?w2 = "emit (DbTicketClose (ticketId this) (ce_now env)) (emit (Log LInfo ''Ticket closed'') w)"
  let ?w3 = "?w2\<lparr>db_tickets := map (\<lambda>r. if t_id r = ticketId this then r\<lparr>t_closedAt := Some (ce_now env)\<rparr> else r)
                               (db_tickets ?w2)\<rparr>"
  have u: "tickets_update (ce_update_ok env) (ticketId this) (\<lambda>r. r\<lparr>t_closedAt := Some (ce_now env)\<rparr>) ?w2
      = Some ?w3"
    using assms(2) r by (simp add: tickets_update_def)
  have r3: "tickets_findUnique (ticketId this) ?w3 \<noteq> None"
    using r by (simp add: tickets_findUnique_def find_map_keep_id)
  let ?msg = "newMessage (ce_now env) (ticketId this) user
                 (Some (case u_avatar user of None \<Rightarrow> [] | Some a \<Rightarrow> a))
                 (embedMarker (e_title (closureEmbed reason)) (e_description (closureEmbed reason))) ?w3"
  let ?w4 = "emit (DbMessageCreate ?msg) ?w3"
  have c: "ticketMessages_create (ce_create_ok env) ?msg ?w4
      = Some (?w4\<lparr>db_messages := db_messages ?w4 @ [?msg]\<rparr>)"
    using assms(3) r3 by (simp add: ticketMessages_create_def newMessage_def)
  have w5: "?w4\<lparr>db_messages := db_messages ?w4 @ [?msg]\<rparr> = afterWrites env this user reason w"
    by (simp add: emit_def afterWrites_def closureMessage_def newMessage_def closeRow_def
        closureEmbed_def)
  show ?thesis
    using assms(1,4) u c w5 by (simp add: closeTicket_def Let_def)
qed

lemma closeTicket_result:
  "fst (closeTicket env this user reason w) =
     (tickets_findWithCategory (ce_findInfo_ok env) (ticketId this) w \<noteq> Rejects
      \<and> tickets_findUnique (ticketId this) w \<noteq> None
      \<and> ce_update_ok env \<and> ce_create_ok env \<and> embedOk (closureEmbed reason))"
  by (auto simp: closeTicket_def Let_def tickets_update_def ticketMessages_create_def
      tickets_findUnique_def find_map_keep_id newMessage_def
      split: promise.splits option.splits if_splits)

lemma closeTicket_success:
  assumes "closeTicket env this user reason w = (True, w')"
  shows "\<exists>row cat.
       tickets_findWithCategory (ce_findInfo_ok env) (ticketId this) w = Resolves (Some (row, cat))
     \<and> ce_update_ok env \<and> ce_create_ok env \<and> embedOk (closureEmbed reason)
     \<and> w' = fanOut env this user reason (Some (row, cat)) (afterWrites env this user reason w)"
proof -
  from assms have "fst (closeTicket env this user reason w)" by simp
  then have f: "tickets_findWithCategory (ce_findInfo_ok env) (ticketId this) w \<noteq> Rejects"
    and u: "tickets_findUnique (ticketId this) w \<noteq> None"
    and o: "ce_update_ok env" "ce_create_ok env" "embedOk (closureEmbed reason)"
    by (simp_all add: closeTicket_result)
  from f u obtain row cat where
    i: "tickets_findWithCategory (ce_findInfo_ok env) (ticketId this) w = Resolves (Some (row, cat))"
    by (auto simp: tickets_findWithCategory_def split: if_splits option.splits)
  from closeTicket_runs [OF i o, of user] assms i o show ?thesis
    by simp
qed

lemma afterWrites_simps [simp]:
  "ActiveTickets (afterWrites env this user reason w) = ActiveTickets w"
  "db_categories (afterWrites env this user reason w) = db_categories w"
  "db_tickets (afterWrites env this user reason w) = map (closeRow (ce_now env) (ticketId this)) (db_tickets w)"
  "db_messages (afterWrites env this user reason w) = db_messages w @ [closureMessage env this user reason w]"
  "trace (afterWrites env this user reason w) = trace w @ [Log LInfo ''Ticket closed'',
      DbTicketClose (ticketId this) (ce_now env), DbMessageCreate (closureMessage env this user reason w)]"
  by (simp_all add: afterWrites_def)


lemma Ticket_closeTicket_confirmed:
  assumes "getTicket channelId w = Some ticket"
    and "confirmed env channelId"
    and "submittedReason env channelId = Some (modalInteraction, reason)"
  shows "Ticket_closeTicket env channelId w =
     closeSubmitted env channelId ticket modalInteraction reason
       (emit (ShowModal (closeModalId channelId) (closeModalInputs channelId)) w)"
  using assms
  by (auto simp: Ticket_closeTicket_def Let_def submittedReason_def confirmed_def
      split: option.splits if_splits)

lemma registryDelete_simps [simp]:
  "ActiveTickets (registryDelete channelId w) = (ActiveTickets w)(channelId := None)"
  "db_categories (registryDelete channelId w) = db_categories w"
  "db_tickets (registryDelete channelId w) = db_tickets w"
  "db_messages (registryDelete channelId w) = db_messages w"
  "trace (registryDelete channelId w) = trace w @ [RegistryDelete channelId]"
  by (simp_all add: registryDelete_def)

lemma closeSubmitted_Closed:
  assumes "closeSubmitted env channelId ticket modalInteraction reason w = (Closed success resolved, w')"
  shows "\<exists>wi post.
       closeTicket env ticket (ce_user env) reason (emit DeferReply w) = (success, wi)
     \<and> ActiveTickets w' = (if success then (ActiveTickets wi)(channelId := None) else ActiveTickets wi)
     \<and> db_tickets w' = db_tickets wi \<and> db_messages w' = db_messages wi
     \<and> db_categories w' = db_categories wi
     \<and> trace w' = trace wi @ (if success then [RegistryDelete channelId] else []) @ DeleteReply # post"
proof -
  obtain s wi where c: "closeTicket env ticket (ce_user env) reason (emit DeferReply w) = (s, wi)"
    by (cases "closeTicket env ticket (ce_user env) reason (emit DeferReply w)")
  define w4 where "w4 = emit DeleteReply (if s then registryDelete channelId wi else wi)"
  have d: "ce_deferReply_ok env" and s: "s = success"
    using assms c by (auto simp: closeSubmitted_def Let_def split: if_splits prod.splits)
  have "onlyEmits w4 w'"
  proof (cases "ce_deleteReply_ok env")
    case False
    then show ?thesis
      using assms c d by (auto simp: closeSubmitted_def Let_def w4_def split: if_splits prod.splits)
  next
    case True
    then have "w' = snd (notifyOwner env ticket modalInteraction reason w4)"
      using assms c d by (auto simp: closeSubmitted_def Let_def w4_def split: if_splits prod.splits)
    then show ?thesis by simp
  qed
  then obtain post where w': "w' = w4\<lparr>trace := trace w4 @ post\<rparr>"
    unfolding onlyEmits_def by blast
  show ?thesis
    using c s by (auto simp: w' w4_def)
qed

text \<open>The definitions that evaluate a close request on given data.\<close>

lemmas example_defs = exampleOwner_def exampleStaff_def exampleCategory_def exampleRow_def
  exampleTicket_def exampleWorld_def exampleClose_def exampleMessage_def

lemmas close_defs = Ticket_closeTicket_def closeSubmitted_def closeTicket_def fanOut_def
  makeTranscript_def generateTicketTranscript_def sendArchive_def sendStaffTranscript_def
  sendOwnerTranscript_def notifyOwner_def registryDelete_def emit_def
  awaitModalSubmit_def closeModalId_def closeModalInputs_def tickets_findWithCategory_def
  tickets_findUnique_def categories_findUnique_def tickets_update_def ticketMessages_create_def
  newMessage_def truthy_def truthyOpt_def Let_def
  embedOk_def fieldOk_def closureEmbed_def closureDescription_def archiveEmbed_def staffEmbed_def
  dmEmbed_def noticeEmbed_def closedByField_def

lemma getTicket_simps [simp]:
  "getTicket channelId w = ActiveTickets w channelId"
  by (simp add: getTicket_def)



text \<open>A request whose reply could be deferred runs the instance method and reports its result.\<close>

lemma closeSubmitted_runs:
  assumes "ce_deferReply_ok env"
  shows "\<exists>resolved w'. closeSubmitted env channelId ticket modalInteraction reason w =
     (Closed (fst (closeTicket env ticket (ce_user env) reason (emit DeferReply w))) resolved, w')"
  using assms
  by (auto simp: closeSubmitted_def Let_def split: prod.splits)

text \<open>
  C10. When a close request is confirmed (the modal is shown, a matching submission with
  the reason field arrives within 60 seconds, the reply is deferred) and the update of the
  closed timestamp or the creation of the closure message rejects, the instance method
  reports failure, the Registry is left exactly as it was, the ticket stays reachable by
  its channel id (\<^const>\<open>getTicket\<close>, and \<^const>\<open>updateMessages\<close> still hands messages of
  the channel to it), and a later close request on the channel is not answered with
  "not an active ticket".
\<close>

theorem failed_close_keeps_registration:
  assumes "getTicket channelId w = Some ticket"
    and "confirmed env channelId"
    and "\<not> (ce_update_ok env \<and> ce_create_ok env)"
  shows "\<exists>resolved w1. Ticket_closeTicket env channelId w = (Closed False resolved, w1)
       \<and> ActiveTickets w1 = ActiveTickets w
       \<and> getTicket channelId w1 = Some ticket
       \<and> (msg_channelId message = channelId \<longrightarrow>
            updateMessages ok now message w1 = handleNewMessage ok now ticket message w1)
       \<and> fst (Ticket_closeTicket env2 channelId w1) \<noteq> ChannelNotTicket"
proof -
  from assms(2) obtain modalInteraction reason
    where s: "submittedReason env channelId = Some (modalInteraction, reason)"
      and d: "ce_deferReply_ok env"
    by (auto simp: confirmed_def)
  let ?w0 = "emit (ShowModal (closeModalId channelId) (closeModalInputs channelId)) w"
  have "fst (closeTicket env ticket (ce_user env) reason (emit DeferReply ?w0)) = False"
    using assms(3) by (auto simp: closeTicket_result)
  with closeSubmitted_runs [OF d, of channelId ticket modalInteraction reason ?w0]
  obtain resolved w1 where c: "closeSubmitted env channelId ticket modalInteraction reason ?w0
      = (Closed False resolved, w1)"
    by auto
  from closeSubmitted_Closed [OF c]
  obtain wi where i: "closeTicket env ticket (ce_user env) reason (emit DeferReply ?w0) = (False, wi)"
    and r: "ActiveTickets w1 = ActiveTickets wi"
    by auto
  from i have "wi = snd (closeTicket env ticket (ce_user env) reason (emit DeferReply ?w0))"
    by simp
  then have "ActiveTickets wi = ActiveTickets w"
    by simp
  with r have reg: "ActiveTickets w1 = ActiveTickets w" by simp
  have t: "Ticket_closeTicket env channelId w = (Closed False resolved, w1)"
    using Ticket_closeTicket_confirmed [OF assms(1,2) s] c by simp
  have "fst (Ticket_closeTicket env2 channelId w1) \<noteq> ChannelNotTicket"
    using reg assms(1)
    by (auto simp: Ticket_closeTicket_def closeSubmitted_def Let_def split: option.splits prod.splits)
  with t reg assms(1) show ?thesis
    by (auto simp: updateMessages_def)
qed

theorem failed_close_keeps_registration_witness:
  "getTicket ''555'' exampleWorld = Some exampleTicket
   \<and> confirmed ((exampleClose exampleStaff)\<lparr>ce_create_ok := False\<rparr>) ''555''
   \<and> fst (Ticket_closeTicket ((exampleClose exampleStaff)\<lparr>ce_create_ok := False\<rparr>) ''555'' exampleWorld)
       = Closed False True
   \<and> getTicket ''555''
        (snd (Ticket_closeTicket ((exampleClose exampleStaff)\<lparr>ce_create_ok := False\<rparr>) ''555'' exampleWorld))
       = Some exampleTicket
   \<and> fst (Ticket_closeTicket (exampleClose exampleStaff) ''555''
        (snd (Ticket_closeTicket ((exampleClose exampleStaff)\<lparr>ce_create_ok := False\<rparr>) ''555'' exampleWorld)))
       = Closed True True"
proof -
  let ?env = "(exampleClose exampleStaff)\<lparr>ce_create_ok := False\<rparr>"
  have g: "getTicket ''555'' exampleWorld = Some exampleTicket"
    by (simp add: exampleWorld_def)
  have c: "confirmed ?env ''555''"
    by (simp add: confirmed_def submittedReason_def awaitModalSubmit_def closeModalId_def
        exampleClose_def)
  have f: "\<not> (ce_update_ok ?env \<and> ce_create_ok ?env)"
    by simp
  have r: "fst (Ticket_closeTicket ?env ''555'' exampleWorld) = Closed False True"
    by (simp add: close_defs example_defs)
  have a: "fst (Ticket_closeTicket (exampleClose exampleStaff) ''555''
        (snd (Ticket_closeTicket ?env ''555'' exampleWorld))) = Closed True True"
    by (simp add: close_defs example_defs)
  from failed_close_keeps_registration [OF g c f, of exampleIntro True 50 "exampleClose exampleStaff"]
  show ?thesis using g c r a by auto
qed

section \<open>Closing a ticket: the calls of the instance method\<close>

lemma newEvents_emit [simp]:
  "newEvents w w = []"
  "trace w1 = trace w @ evs \<Longrightarrow> newEvents w (emit e w1) = evs @ [e]"
  by (simp_all add: newEvents_def)

lemma newEvents_trace:
  "trace w' = trace w @ evs \<Longrightarrow> newEvents w w' = evs"
  by (simp add: newEvents_def)

lemma onlyEmits_trace:
  "onlyEmits w w' \<Longrightarrow> trace w' = trace w @ newEvents w w'"
  by (auto simp: onlyEmits_def newEvents_def)

lemma filter_kind_absent:
  "k \<notin> set (map eventKind evs) \<Longrightarrow> filter (\<lambda>e. eventKind e = k) evs = []"
  by (induction evs) auto

lemma staff_events:
  fixes env this info w
  defines "evs \<equiv> newEvents w (sendStaffTranscript env this info w)"
  shows "set (map eventKind evs) \<subseteq> {FetchChannelK, FetchThreadMessagesK, StaffTranscriptSendK, LogK}"
    and "StaffTranscriptSendK \<in> set (map eventKind evs) \<longleftrightarrow>
           truthyOpt (t_staffThreadId (fst info)) \<and> ce_staffThread env = Resolves True
           \<and> (\<exists>ms. ce_staffMessages env = Resolves ms \<and> 1 < length ms
                  \<and> embedOk (staffEmbed this info (length ms)))"
    and "truthyOpt (t_staffThreadId (fst info)) \<Longrightarrow>
         ce_staffThread env = Rejects
         \<or> ce_staffThread env = Resolves True
            \<and> (ce_staffMessages env = Rejects
               \<or> (\<exists>ms. ce_staffMessages env = Resolves ms \<and> 1 < length ms
                      \<and> (\<not> embedOk (staffEmbed this info (length ms)) \<or> \<not> ce_staffSend_ok env))) \<Longrightarrow>
           Log LWarn ''Failed to send staff thread transcript'' \<in> set evs"
  unfolding evs_def
  by (auto simp: sendStaffTranscript_def newEvents_def Let_def truthyOpt_def
      split: option.splits promise.splits bool.splits if_splits)

lemma archive_sent:
  assumes "truthy (ce_TRANSCRIPT_CHANNEL_ID env)" "ce_archiveChannel env = Resolves True"
    "embedOk (archiveEmbed this user reason info)" "ce_archiveSend_ok env"
  shows "\<exists>w2. newEvents w (sendArchive env this user reason (Some info) (Some doc) w) =
      [FetchChannel (ce_TRANSCRIPT_CHANNEL_ID env),
       ArchiveSend (ce_TRANSCRIPT_CHANNEL_ID env) (archiveEmbed this user reason info) doc,
       Log LSuccess ''Transcript sent to transcript channel'']
      @ newEvents w2 (sendStaffTranscript env this info w2)"
proof -
  let ?w2 = "emit (Log LSuccess ''Transcript sent to transcript channel'')
               (emit (ArchiveSend (ce_TRANSCRIPT_CHANNEL_ID env) (archiveEmbed this user reason info) doc)
                  (emit (FetchChannel (ce_TRANSCRIPT_CHANNEL_ID env)) w))"
  have tr: "trace (sendStaffTranscript env this info ?w2)
      = trace ?w2 @ newEvents ?w2 (sendStaffTranscript env this info ?w2)"
    by (rule onlyEmits_trace) simp
  have "trace (sendArchive env this user reason (Some info) (Some doc) w) =
      trace w @ [FetchChannel (ce_TRANSCRIPT_CHANNEL_ID env),
       ArchiveSend (ce_TRANSCRIPT_CHANNEL_ID env) (archiveEmbed this user reason info) doc,
       Log LSuccess ''Transcript sent to transcript channel'']
      @ newEvents ?w2 (sendStaffTranscript env this info ?w2)"
    using assms by (simp add: sendArchive_def Let_def tr)
  then have "newEvents w (sendArchive env this user reason (Some info) (Some doc) w) =
      [FetchChannel (ce_TRANSCRIPT_CHANNEL_ID env),
       ArchiveSend (ce_TRANSCRIPT_CHANNEL_ID env) (archiveEmbed this user reason info) doc,
       Log LSuccess ''Transcript sent to transcript channel'']
      @ newEvents ?w2 (sendStaffTranscript env this info ?w2)"
    by (rule newEvents_trace)
  then show ?thesis by blast
qed

lemma archive_not_sent:
  assumes "\<not> (truthy (ce_TRANSCRIPT_CHANNEL_ID env) \<and> ce_archiveChannel env = Resolves True
      \<and> embedOk (archiveEmbed this user reason info) \<and> ce_archiveSend_ok env)"
  shows "newEvents w (sendArchive env this user reason (Some info) (Some doc) w) =
      (if \<not> truthy (ce_TRANSCRIPT_CHANNEL_ID env) then []
       else FetchChannel (ce_TRANSCRIPT_CHANNEL_ID env) #
         (case ce_archiveChannel env of
            Rejects \<Rightarrow> [Log LError ''Failed to send transcript to channel'']
          | Resolves b \<Rightarrow>
              if b then
                if embedOk (archiveEmbed this user reason info)
                then [ArchiveSend (ce_TRANSCRIPT_CHANNEL_ID env) (archiveEmbed this user reason info) doc,
                      Log LError ''Failed to send transcript to channel'']
                else [Log LError ''Failed to send transcript to channel'']
              else []))"
  using assms
  by (simp add: sendArchive_def Let_def newEvents_def split: promise.splits bool.splits)

lemma archive_events:
  fixes env this user reason info doc w
  defines "evs \<equiv> newEvents w (sendArchive env this user reason (Some info) (Some doc) w)"
  shows "(set (map eventKind evs) \<subseteq> {FetchChannelK, ArchiveSendK, FetchThreadMessagesK, StaffTranscriptSendK, LogK})
    \<and> (ArchiveSendK \<in> set (map eventKind evs) \<longleftrightarrow>
           truthy (ce_TRANSCRIPT_CHANNEL_ID env) \<and> ce_archiveChannel env = Resolves True
           \<and> embedOk (archiveEmbed this user reason info))
    \<and> (StaffTranscriptSendK \<in> set (map eventKind evs) \<longleftrightarrow>
           truthy (ce_TRANSCRIPT_CHANNEL_ID env) \<and> ce_archiveChannel env = Resolves True
           \<and> embedOk (archiveEmbed this user reason info) \<and> ce_archiveSend_ok env
           \<and> truthyOpt (t_staffThreadId (fst info)) \<and> ce_staffThread env = Resolves True
           \<and> (\<exists>ms. ce_staffMessages env = Resolves ms \<and> 1 < length ms
                  \<and> embedOk (staffEmbed this info (length ms))))
    \<and> (truthy (ce_TRANSCRIPT_CHANNEL_ID env) \<longrightarrow>
         (ce_archiveChannel env = Rejects
          \<or> ce_archiveChannel env = Resolves True
             \<and> (\<not> embedOk (archiveEmbed this user reason info) \<or> \<not> ce_archiveSend_ok env)) \<longrightarrow>
           Log LError ''Failed to send transcript to channel'' \<in> set evs)
    \<and> (truthy (ce_TRANSCRIPT_CHANNEL_ID env) \<and> ce_archiveChannel env = Resolves True
           \<and> embedOk (archiveEmbed this user reason info) \<and> ce_archiveSend_ok env
           \<and> truthyOpt (t_staffThreadId (fst info)) \<longrightarrow>
         (ce_staffThread env = Rejects
          \<or> ce_staffThread env = Resolves True
            \<and> (ce_staffMessages env = Rejects
               \<or> (\<exists>ms. ce_staffMessages env = Resolves ms \<and> 1 < length ms
                      \<and> (\<not> embedOk (staffEmbed this info (length ms)) \<or> \<not> ce_staffSend_ok env)))) \<longrightarrow>
           Log LWarn ''Failed to send staff thread transcript'' \<in> set evs)"
proof (cases "truthy (ce_TRANSCRIPT_CHANNEL_ID env) \<and> ce_archiveChannel env = Resolves True
      \<and> embedOk (archiveEmbed this user reason info) \<and> ce_archiveSend_ok env")
  case True
  then obtain w2 where e: "evs = [FetchChannel (ce_TRANSCRIPT_CHANNEL_ID env),
       ArchiveSend (ce_TRANSCRIPT_CHANNEL_ID env) (archiveEmbed this user reason info) doc,
       Log LSuccess ''Transcript sent to transcript channel'']
      @ newEvents w2 (sendStaffTranscript env this info w2)"
    unfolding evs_def using archive_sent [of env this user reason info w doc] by blast
  note st = staff_events [where w = w2 and env = env and this = this and info = info]
  have k: "set (map eventKind evs) \<subseteq> {FetchChannelK, ArchiveSendK, FetchThreadMessagesK, StaffTranscriptSendK, LogK}"
    unfolding e using st(1) by auto
  have a: "ArchiveSendK \<in> set (map eventKind evs)"
    unfolding e by simp
  have s: "StaffTranscriptSendK \<in> set (map eventKind evs) \<longleftrightarrow>
      StaffTranscriptSendK \<in> set (map eventKind (newEvents w2 (sendStaffTranscript env this info w2)))"
    unfolding e by simp
  have l: "set (newEvents w2 (sendStaffTranscript env this info w2)) \<subseteq> set evs"
    unfolding e by auto
  have c2: "ArchiveSendK \<in> set (map eventKind evs) \<longleftrightarrow>
           truthy (ce_TRANSCRIPT_CHANNEL_ID env) \<and> ce_archiveChannel env = Resolves True
           \<and> embedOk (archiveEmbed this user reason info)"
    using True a by simp
  have c3: "StaffTranscriptSendK \<in> set (map eventKind evs) \<longleftrightarrow>
           truthy (ce_TRANSCRIPT_CHANNEL_ID env) \<and> ce_archiveChannel env = Resolves True
           \<and> embedOk (archiveEmbed this user reason info) \<and> ce_archiveSend_ok env
           \<and> truthyOpt (t_staffThreadId (fst info)) \<and> ce_staffThread env = Resolves True
           \<and> (\<exists>ms. ce_staffMessages env = Resolves ms \<and> 1 < length ms
                  \<and> embedOk (staffEmbed this info (length ms)))"
    using True s st(2) by simp
  have c4: "truthy (ce_TRANSCRIPT_CHANNEL_ID env) \<longrightarrow>
         (ce_archiveChannel env = Rejects
          \<or> ce_archiveChannel env = Resolves True
             \<and> (\<not> embedOk (archiveEmbed this user reason info) \<or> \<not> ce_archiveSend_ok env)) \<longrightarrow>
           Log LError ''Failed to send transcript to channel'' \<in> set evs"
    using True by simp
  have c5: "truthy (ce_TRANSCRIPT_CHANNEL_ID env) \<and> ce_archiveChannel env = Resolves True
           \<and> embedOk (archiveEmbed this user reason info) \<and> ce_archiveSend_ok env
           \<and> truthyOpt (t_staffThreadId (fst info)) \<longrightarrow>
         (ce_staffThread env = Rejects
          \<or> ce_staffThread env = Resolves True
            \<and> (ce_staffMessages env = Rejects
               \<or> (\<exists>ms. ce_staffMessages env = Resolves ms \<and> 1 < length ms
                      \<and> (\<not> embedOk (staffEmbed this info (length ms)) \<or> \<not> ce_staffSend_ok env)))) \<longrightarrow>
           Log LWarn ''Failed to send staff thread transcript'' \<in> set evs"
    using st(3) l by blast
  show ?thesis
    by (intro conjI k c2 c3 c4 c5)
next
  case False
  note e = archive_not_sent [OF False, of w doc, folded evs_def]
  show ?thesis
  proof (cases "truthy (ce_TRANSCRIPT_CHANNEL_ID env)")
    case False
    then show ?thesis using e by simp
  next
    case t: True
    show ?thesis
    proof (cases "ce_archiveChannel env")
      case Rejects
      then show ?thesis using e t by simp
    next
      case (Resolves b)
      then show ?thesis using e t False by (cases b) auto
    qed
  qed
qed

lemma owner_events:
  fixes env this user reason info doc w
  defines "evs \<equiv> newEvents w (sendOwnerTranscript env this user reason (Some info) (Some doc) w)"
  shows "set (map eventKind evs) \<subseteq> {FetchUserK, OwnerTranscriptSendK, LogK}"
    and "filter (\<lambda>e. eventKind e = OwnerTranscriptSendK) evs =
           (if ce_owner env = Resolves True \<and> embedOk (dmEmbed this user reason info)
            then [OwnerTranscriptSend (t_userId (fst info)) (dmEmbed this user reason info) doc]
            else [])"
    and "ce_owner env = Rejects
         \<or> ce_owner env = Resolves True
            \<and> (\<not> embedOk (dmEmbed this user reason info) \<or> \<not> ce_ownerSend_ok env) \<Longrightarrow>
           Log LWarn ''Failed to send transcript DM to ticket owner'' \<in> set evs"
  unfolding evs_def
  by (auto simp: sendOwnerTranscript_def newEvents_def Let_def
      split: promise.splits bool.splits if_splits)

lemma no_transcript_events [simp]:
  "sendArchive env this user reason ticketInfo None w = w"
  "sendOwnerTranscript env this user reason ticketInfo None w = w"
  by (simp_all add: sendArchive_def sendOwnerTranscript_def split: option.splits)

lemma notify_events:
  fixes env ticket modalInteraction closureReason w
  defines "evs \<equiv> newEvents w (snd (notifyOwner env ticket modalInteraction closureReason w))"
  assumes "tickets_findUnique (ticketId ticket) w = Some row"
  shows "set (map eventKind evs) \<subseteq> {LogK, FetchMemberK, OwnerNoticeSendK}"
    and "filter (\<lambda>e. eventKind e = OwnerNoticeSendK) evs =
           (if ce_findUser_ok env \<and> t_userId row \<noteq> u_id (ms_user modalInteraction)
               \<and> embedOk (noticeEmbed closureReason) \<and> ce_guildPresent env \<and> ce_member_ok env
            then [OwnerNoticeSend (t_userId row) (noticeEmbed closureReason)] else [])"
  using assms(2) unfolding evs_def
  by (auto simp: notifyOwner_def newEvents_def Let_def split: option.splits if_splits)

lemma findWithCategory_after_close:
  assumes "tickets_findWithCategory ok0 tid w = Resolves (Some (row, cat))"
    and "db_tickets w5 = map (closeRow now tid) (db_tickets w)"
    and "db_categories w5 = db_categories w"
  shows "tickets_findWithCategory ok tid w5 =
     (if ok then Resolves (Some (closeRow now tid row, cat)) else Rejects)"
proof -
  from assms(1) have r: "find (\<lambda>r. t_id r = tid) (db_tickets w) = Some row"
    and c: "find (\<lambda>c. c_id c = t_category row) (db_categories w) = Some cat"
    by (auto simp: tickets_findWithCategory_def tickets_findUnique_def categories_findUnique_def
        split: if_splits option.splits)
  have "find (\<lambda>r. t_id r = tid) (db_tickets w5) = Some (closeRow now tid row)"
    using r assms(2) by (simp add: find_map_keep_id closeRow_def)
  moreover have "t_category (closeRow now tid row) = t_category row"
    by (simp add: closeRow_def)
  ultimately show ?thesis
    using c assms(3)
    by (simp add: tickets_findWithCategory_def tickets_findUnique_def categories_findUnique_def)
qed

lemma makeTranscript_after_close:
  assumes "tickets_findWithCategory ok0 (ticketId this) w = Resolves (Some (row, cat))"
    and "db_tickets w5 = map (closeRow now (ticketId this)) (db_tickets w)"
    and "db_categories w5 = db_categories w"
  shows "\<exists>doc. tr_ticket doc = closeRow now (ticketId this) row \<and> tr_categoryName doc = c_name cat
     \<and> makeTranscript env this (Some info) w5 =
     (if ce_transcript_ok env then Some doc else None,
      w5\<lparr>trace := trace w5 @ GenerateTranscript (ticketId this) #
         (if ce_transcript_ok env then [Log LSuccess ''Generated transcript'']
          else [Log LError ''Failed to generate transcript'',
                Log LError ''Failed to generate transcript for ticket''])\<rparr>)"
proof (cases "ce_transcript_ok env")
  case True
  let ?doc = "\<lparr>tr_ticket = closeRow now (ticketId this) row, tr_categoryName = c_name cat,
            tr_messages = filterMessages
              (sort_key m_sentAt (filter (\<lambda>m. m_ticket m = ticketId this) (db_messages w5)))\<rparr>"
  from findWithCategory_after_close [OF assms, of True] True
  have "tickets_findWithCategory (ce_transcript_ok env) (ticketId this) w5 =
      Resolves (Some (closeRow now (ticketId this) row, cat))"
    by simp
  then have "makeTranscript env this (Some info) w5 =
     (Some ?doc,
      emit (Log LSuccess ''Generated transcript'') (emit (GenerateTranscript (ticketId this)) w5))"
    by (simp add: makeTranscript_def generateTicketTranscript_def Let_def)
  then have "makeTranscript env this (Some info) w5 =
     (if ce_transcript_ok env then Some ?doc else None,
      w5\<lparr>trace := trace w5 @ GenerateTranscript (ticketId this) #
         (if ce_transcript_ok env then [Log LSuccess ''Generated transcript'']
          else [Log LError ''Failed to generate transcript'',
                Log LError ''Failed to generate transcript for ticket''])\<rparr>)"
    using True by (simp add: emit_def)
  then show ?thesis
    by (intro exI [of _ ?doc]) simp
next
  case False
  let ?doc = "\<lparr>tr_ticket = closeRow now (ticketId this) row, tr_categoryName = c_name cat,
            tr_messages = []\<rparr>"
  from False have "tickets_findWithCategory (ce_transcript_ok env) (ticketId this) w5 = Rejects"
    by (simp add: tickets_findWithCategory_def)
  then have "makeTranscript env this (Some info) w5 =
     (None, emit (Log LError ''Failed to generate transcript for ticket'')
              (emit (Log LError ''Failed to generate transcript'')
                 (emit (GenerateTranscript (ticketId this)) w5)))"
    by (simp add: makeTranscript_def generateTicketTranscript_def Let_def)
  then have "makeTranscript env this (Some info) w5 =
     (if ce_transcript_ok env then Some ?doc else None,
      w5\<lparr>trace := trace w5 @ GenerateTranscript (ticketId this) #
         (if ce_transcript_ok env then [Log LSuccess ''Generated transcript'']
          else [Log LError ''Failed to generate transcript'',
                Log LError ''Failed to generate transcript for ticket''])\<rparr>)"
    using False by (simp add: emit_def)
  then show ?thesis
    by (intro exI [of _ ?doc]) simp
qed

lemma fanOut_events:
  assumes "tickets_findWithCategory ok0 (ticketId this) w = Resolves (Some (row, cat))"
    and "db_tickets w5 = map (closeRow now (ticketId this)) (db_tickets w)"
    and "db_categories w5 = db_categories w"
  shows "\<exists>doc wa wo. tr_ticket doc = closeRow now (ticketId this) row \<and> tr_categoryName doc = c_name cat
     \<and> newEvents w5 (fanOut env this user reason (Some (row, cat)) w5) =
     (if ce_transcript_ok env
      then [GenerateTranscript (ticketId this), Log LSuccess ''Generated transcript'']
           @ newEvents wa (sendArchive env this user reason (Some (row, cat)) (Some doc) wa)
           @ newEvents wo (sendOwnerTranscript env this user reason (Some (row, cat)) (Some doc) wo)
           @ [ScheduleDelete (ch_id (channel this)) 500]
      else [GenerateTranscript (ticketId this), Log LError ''Failed to generate transcript'',
            Log LError ''Failed to generate transcript for ticket'',
            ScheduleDelete (ch_id (channel this)) 500])"
proof -
  from makeTranscript_after_close [OF assms, of env "(row, cat)"]
  obtain doc where d: "tr_ticket doc = closeRow now (ticketId this) row" "tr_categoryName doc = c_name cat"
    and m: "makeTranscript env this (Some (row, cat)) w5 =
     (if ce_transcript_ok env then Some doc else None,
      w5\<lparr>trace := trace w5 @ GenerateTranscript (ticketId this) #
         (if ce_transcript_ok env then [Log LSuccess ''Generated transcript'']
          else [Log LError ''Failed to generate transcript'',
                Log LError ''Failed to generate transcript for ticket''])\<rparr>)"
    by blast
  show ?thesis
  proof (cases "ce_transcript_ok env")
    case False
    then have "trace (fanOut env this user reason (Some (row, cat)) w5) =
        trace w5 @ [GenerateTranscript (ticketId this), Log LError ''Failed to generate transcript'',
            Log LError ''Failed to generate transcript for ticket'',
            ScheduleDelete (ch_id (channel this)) 500]"
      by (simp add: fanOut_def m)
    from newEvents_trace [OF this] False d show ?thesis by auto
  next
    case True
    define wa where "wa = w5\<lparr>trace := trace w5 @ [GenerateTranscript (ticketId this),
        Log LSuccess ''Generated transcript'']\<rparr>"
    define wo where "wo = sendArchive env this user reason (Some (row, cat)) (Some doc) wa"
    have a: "trace wo = trace wa @ newEvents wa wo"
      unfolding wo_def by (rule onlyEmits_trace) simp
    have o: "trace (sendOwnerTranscript env this user reason (Some (row, cat)) (Some doc) wo)
        = trace wo @ newEvents wo (sendOwnerTranscript env this user reason (Some (row, cat)) (Some doc) wo)"
      by (rule onlyEmits_trace) simp
    have "trace (fanOut env this user reason (Some (row, cat)) w5) =
        trace w5 @ [GenerateTranscript (ticketId this), Log LSuccess ''Generated transcript'']
           @ newEvents wa wo
           @ newEvents wo (sendOwnerTranscript env this user reason (Some (row, cat)) (Some doc) wo)
           @ [ScheduleDelete (ch_id (channel this)) 500]"
      using True o a by (simp add: fanOut_def m wa_def [symmetric] wo_def [symmetric]) (simp add: wa_def)
    from newEvents_trace [OF this] True
    have "newEvents w5 (fanOut env this user reason (Some (row, cat)) w5) =
     (if ce_transcript_ok env
      then [GenerateTranscript (ticketId this), Log LSuccess ''Generated transcript'']
           @ newEvents wa (sendArchive env this user reason (Some (row, cat)) (Some doc) wa)
           @ newEvents wo (sendOwnerTranscript env this user reason (Some (row, cat)) (Some doc) wo)
           @ [ScheduleDelete (ch_id (channel this)) 500]
      else [GenerateTranscript (ticketId this), Log LError ''Failed to generate transcript'',
            Log LError ''Failed to generate transcript for ticket'',
            ScheduleDelete (ch_id (channel this)) 500])"
      unfolding wo_def by simp
    with d show ?thesis by blast
  qed
qed

text \<open>The calls of a run of the instance method whose reads and writes of the store succeed.\<close>

lemma closeTicket_calls:
  assumes "tickets_findWithCategory (ce_findInfo_ok env) (ticketId this) w = Resolves (Some (row, cat))"
    and "ce_update_ok env" and "ce_create_ok env" and "embedOk (closureEmbed reason)"
  shows "\<exists>w' doc wa wo.
       closeTicket env this user reason w = (True, w')
     \<and> tr_ticket doc = closeRow (ce_now env) (ticketId this) row \<and> tr_categoryName doc = c_name cat
     \<and> trace w' = trace w @ newEvents w w'
     \<and> newEvents w w' =
         [Log LInfo ''Ticket closed'', DbTicketClose (ticketId this) (ce_now env),
          DbMessageCreate (closureMessage env this user reason w)]
         @ (if ce_transcript_ok env
            then [GenerateTranscript (ticketId this), Log LSuccess ''Generated transcript'']
              @ newEvents wa (sendArchive env this user reason (Some (row, cat)) (Some doc) wa)
              @ newEvents wo (sendOwnerTranscript env this user reason (Some (row, cat)) (Some doc) wo)
              @ [ScheduleDelete (ch_id (channel this)) 500]
            else [GenerateTranscript (ticketId this), Log LError ''Failed to generate transcript'',
              Log LError ''Failed to generate transcript for ticket'',
              ScheduleDelete (ch_id (channel this)) 500])"
proof -
  define w5 where "w5 = afterWrites env this user reason w"
  define w' where "w' = fanOut env this user reason (Some (row, cat)) w5"
  have c: "closeTicket env this user reason w = (True, w')"
    unfolding w'_def w5_def by (rule closeTicket_runs [OF assms])
  have t: "db_tickets w5 = map (closeRow (ce_now env) (ticketId this)) (db_tickets w)"
    and g: "db_categories w5 = db_categories w"
    and tr: "trace w5 = trace w @ [Log LInfo ''Ticket closed'',
        DbTicketClose (ticketId this) (ce_now env), DbMessageCreate (closureMessage env this user reason w)]"
    by (simp_all add: w5_def)
  from fanOut_events [OF assms(1) t g, of env user reason]
  obtain doc wa wo where d: "tr_ticket doc = closeRow (ce_now env) (ticketId this) row"
      "tr_categoryName doc = c_name cat"
    and e: "newEvents w5 w' =
     (if ce_transcript_ok env
      then [GenerateTranscript (ticketId this), Log LSuccess ''Generated transcript'']
           @ newEvents wa (sendArchive env this user reason (Some (row, cat)) (Some doc) wa)
           @ newEvents wo (sendOwnerTranscript env this user reason (Some (row, cat)) (Some doc) wo)
           @ [ScheduleDelete (ch_id (channel this)) 500]
      else [GenerateTranscript (ticketId this), Log LError ''Failed to generate transcript'',
            Log LError ''Failed to generate transcript for ticket'',
            ScheduleDelete (ch_id (channel this)) 500])"
    unfolding w'_def by blast
  have "trace w' = trace w5 @ newEvents w5 w'"
    unfolding w'_def by (rule onlyEmits_trace) simp
  then have t': "trace w' = trace w @ [Log LInfo ''Ticket closed'',
        DbTicketClose (ticketId this) (ce_now env), DbMessageCreate (closureMessage env this user reason w)]
        @ newEvents w5 w'"
    using tr by simp
  have n: "newEvents w w' = [Log LInfo ''Ticket closed'',
        DbTicketClose (ticketId this) (ce_now env), DbMessageCreate (closureMessage env this user reason w)]
        @ newEvents w5 w'"
    by (rule newEvents_trace [OF t'])
  have t2: "trace w' = trace w @ newEvents w w'"
    using t' n by simp
  show ?thesis
    by (intro exI [of _ w'] exI [of _ doc] exI [of _ wa] exI [of _ wo] conjI c d t2)
       (simp add: n e)
qed

section \<open>Closing a ticket: what the posts depend on\<close>

lemma kind_filter:
  "k \<in> set (map eventKind evs) \<longleftrightarrow> filter (\<lambda>e. eventKind e = k) evs \<noteq> []"
  by (induction evs) auto

text \<open>
  C5, as the code has it. Take a run of the instance method in which the reads and writes
  of the store succeed. It returns true whatever the platform answers afterwards, so no
  failure of the fan-out changes the result, and every failure of the fan-out is logged:
  of the transcript, of the post to the transcript channel (the fetch of the channel, the
  embed the builder refuses, the post), of the staff transcript and of the direct message.
  The direct message is attempted exactly when the transcript was generated, the
  requester's user was fetched and its embed was built: the posts to the transcript channel
  play no part. But the destinations are not independent of each other: without a
  transcript neither the post to the transcript channel nor the direct message is
  attempted; the staff transcript is attempted only after the post to the transcript
  channel succeeded (and only if the ticket has a staff thread with more than one
  message); and a closure reason of more than 1024 characters, which both embeds carry in
  a field, stops the post to the transcript channel and the direct message alike.
\<close>

theorem fanOut_fault_isolation:
  assumes "tickets_findWithCategory (ce_findInfo_ok env) (ticketId this) w = Resolves (Some (row, cat))"
    and "ce_update_ok env" and "ce_create_ok env" and "embedOk (closureEmbed reason)"
  shows "\<exists>w'. closeTicket env this user reason w = (True, w')
     \<and> attempted GenerateTranscriptK w w'
     \<and> (attempted ArchiveSendK w w' \<longleftrightarrow>
          ce_transcript_ok env \<and> truthy (ce_TRANSCRIPT_CHANNEL_ID env)
          \<and> ce_archiveChannel env = Resolves True
          \<and> embedOk (archiveEmbed this user reason (row, cat)))
     \<and> (attempted StaffTranscriptSendK w w' \<longleftrightarrow>
          ce_transcript_ok env \<and> truthy (ce_TRANSCRIPT_CHANNEL_ID env)
          \<and> ce_archiveChannel env = Resolves True
          \<and> embedOk (archiveEmbed this user reason (row, cat)) \<and> ce_archiveSend_ok env
          \<and> truthyOpt (t_staffThreadId row) \<and> ce_staffThread env = Resolves True
          \<and> (\<exists>ms. ce_staffMessages env = Resolves ms \<and> 1 < length ms
                 \<and> embedOk (staffEmbed this (row, cat) (length ms))))
     \<and> (attempted OwnerTranscriptSendK w w' \<longleftrightarrow>
          ce_transcript_ok env \<and> ce_owner env = Resolves True
          \<and> embedOk (dmEmbed this user reason (row, cat)))
     \<and> (\<not> ce_transcript_ok env \<longrightarrow>
          Log LError ''Failed to generate transcript for ticket'' \<in> set (newEvents w w'))
     \<and> (ce_transcript_ok env \<and> truthy (ce_TRANSCRIPT_CHANNEL_ID env)
          \<and> (ce_archiveChannel env = Rejects
             \<or> ce_archiveChannel env = Resolves True
                \<and> (\<not> embedOk (archiveEmbed this user reason (row, cat)) \<or> \<not> ce_archiveSend_ok env)) \<longrightarrow>
          Log LError ''Failed to send transcript to channel'' \<in> set (newEvents w w'))
     \<and> (ce_transcript_ok env \<and> truthy (ce_TRANSCRIPT_CHANNEL_ID env)
          \<and> ce_archiveChannel env = Resolves True
          \<and> embedOk (archiveEmbed this user reason (row, cat)) \<and> ce_archiveSend_ok env
          \<and> truthyOpt (t_staffThreadId row)
          \<and> (ce_staffThread env = Rejects
             \<or> ce_staffThread env = Resolves True
                \<and> (ce_staffMessages env = Rejects
                   \<or> (\<exists>ms. ce_staffMessages env = Resolves ms \<and> 1 < length ms
                          \<and> (\<not> embedOk (staffEmbed this (row, cat) (length ms))
                             \<or> \<not> ce_staffSend_ok env)))) \<longrightarrow>
          Log LWarn ''Failed to send staff thread transcript'' \<in> set (newEvents w w'))
     \<and> (ce_transcript_ok env
          \<and> (ce_owner env = Rejects
             \<or> ce_owner env = Resolves True
                \<and> (\<not> embedOk (dmEmbed this user reason (row, cat)) \<or> \<not> ce_ownerSend_ok env)) \<longrightarrow>
          Log LWarn ''Failed to send transcript DM to ticket owner'' \<in> set (newEvents w w'))"
proof -
  from closeTicket_calls [OF assms, where user = user]
  obtain w' doc wa wo where c: "closeTicket env this user reason w = (True, w')"
    and e: "newEvents w w' =
         [Log LInfo ''Ticket closed'', DbTicketClose (ticketId this) (ce_now env),
          DbMessageCreate (closureMessage env this user reason w)]
         @ (if ce_transcript_ok env
            then [GenerateTranscript (ticketId this), Log LSuccess ''Generated transcript'']
              @ newEvents wa (sendArchive env this user reason (Some (row, cat)) (Some doc) wa)
              @ newEvents wo (sendOwnerTranscript env this user reason (Some (row, cat)) (Some doc) wo)
              @ [ScheduleDelete (ch_id (channel this)) 500]
            else [GenerateTranscript (ticketId this), Log LError ''Failed to generate transcript'',
              Log LError ''Failed to generate transcript for ticket'',
              ScheduleDelete (ch_id (channel this)) 500])"
    by blast
  have g: "attempted GenerateTranscriptK w w'"
    by (simp add: attempted_def e)
  show ?thesis
  proof (cases "ce_transcript_ok env")
    case False
    then have n: "\<not> attempted ArchiveSendK w w'" "\<not> attempted StaffTranscriptSendK w w'"
      "\<not> attempted OwnerTranscriptSendK w w'"
      "Log LError ''Failed to generate transcript for ticket'' \<in> set (newEvents w w')"
      by (simp_all add: attempted_def e)
    show ?thesis
      by (rule exI [of _ w']) (use c g n False in simp)
  next
    case True
    define evA where "evA = newEvents wa (sendArchive env this user reason (Some (row, cat)) (Some doc) wa)"
    define evO where "evO = newEvents wo (sendOwnerTranscript env this user reason (Some (row, cat)) (Some doc) wo)"
    note a = archive_events [where w = wa and env = env and this = this and user = user
        and reason = reason and info = "(row, cat)" and doc = doc, folded evA_def]
    note a1 = a [THEN conjunct1]
    note a2 = a [THEN conjunct2, THEN conjunct1]
    note a3 = a [THEN conjunct2, THEN conjunct2, THEN conjunct1, unfolded fst_conv]
    note a4 = a [THEN conjunct2, THEN conjunct2, THEN conjunct2, THEN conjunct1]
    note a5 = a [THEN conjunct2, THEN conjunct2, THEN conjunct2, THEN conjunct2, unfolded fst_conv]
    note o = owner_events [where w = wo and env = env and this = this and user = user
        and reason = reason and info = "(row, cat)" and doc = doc, folded evO_def]
    have ev: "newEvents w w' =
         [Log LInfo ''Ticket closed'', DbTicketClose (ticketId this) (ce_now env),
          DbMessageCreate (closureMessage env this user reason w),
          GenerateTranscript (ticketId this), Log LSuccess ''Generated transcript'']
         @ evA @ evO @ [ScheduleDelete (ch_id (channel this)) 500]"
      using e True by (simp add: evA_def evO_def)
    have aK: "set (map eventKind evA) \<subseteq> {FetchChannelK, ArchiveSendK, FetchThreadMessagesK, StaffTranscriptSendK, LogK}"
      by (rule a1)
    have oK: "set (map eventKind evO) \<subseteq> {FetchUserK, OwnerTranscriptSendK, LogK}"
      using o(1) .
    have nA: "OwnerTranscriptSendK \<notin> set (map eventKind evA)"
      using aK by auto
    have nO: "ArchiveSendK \<notin> set (map eventKind evO)" "StaffTranscriptSendK \<notin> set (map eventKind evO)"
      using oK by auto
    have k2: "attempted OwnerTranscriptSendK w w' \<longleftrightarrow> OwnerTranscriptSendK \<in> set (map eventKind evO)"
      and k3: "attempted ArchiveSendK w w' \<longleftrightarrow> ArchiveSendK \<in> set (map eventKind evA)"
      and k4: "attempted StaffTranscriptSendK w w' \<longleftrightarrow> StaffTranscriptSendK \<in> set (map eventKind evA)"
      using nA nO by (simp_all add: attempted_def ev)
    have sub: "set evA \<subseteq> set (newEvents w w')" "set evO \<subseteq> set (newEvents w w')"
      by (auto simp: ev)
    have oo: "OwnerTranscriptSendK \<in> set (map eventKind evO) \<longleftrightarrow>
        filter (\<lambda>e. eventKind e = OwnerTranscriptSendK) evO \<noteq> []"
      by (rule kind_filter)
    have c2: "attempted OwnerTranscriptSendK w w' \<longleftrightarrow>
          ce_transcript_ok env \<and> ce_owner env = Resolves True
          \<and> embedOk (dmEmbed this user reason (row, cat))"
      unfolding k2 oo o(2) using True by simp
    have c3: "attempted ArchiveSendK w w' \<longleftrightarrow>
          ce_transcript_ok env \<and> truthy (ce_TRANSCRIPT_CHANNEL_ID env)
          \<and> ce_archiveChannel env = Resolves True
          \<and> embedOk (archiveEmbed this user reason (row, cat))"
      unfolding k3 a2 using True by simp
    have c4: "attempted StaffTranscriptSendK w w' \<longleftrightarrow>
          ce_transcript_ok env \<and> truthy (ce_TRANSCRIPT_CHANNEL_ID env)
          \<and> ce_archiveChannel env = Resolves True
          \<and> embedOk (archiveEmbed this user reason (row, cat)) \<and> ce_archiveSend_ok env
          \<and> truthyOpt (t_staffThreadId row) \<and> ce_staffThread env = Resolves True
          \<and> (\<exists>ms. ce_staffMessages env = Resolves ms \<and> 1 < length ms
                 \<and> embedOk (staffEmbed this (row, cat) (length ms)))"
      unfolding k4 a3 using True by simp
    have c5: "\<not> ce_transcript_ok env \<longrightarrow>
          Log LError ''Failed to generate transcript for ticket'' \<in> set (newEvents w w')"
      using True by simp
    have c6: "ce_transcript_ok env \<and> truthy (ce_TRANSCRIPT_CHANNEL_ID env)
          \<and> (ce_archiveChannel env = Rejects
             \<or> ce_archiveChannel env = Resolves True
                \<and> (\<not> embedOk (archiveEmbed this user reason (row, cat)) \<or> \<not> ce_archiveSend_ok env)) \<longrightarrow>
          Log LError ''Failed to send transcript to channel'' \<in> set (newEvents w w')"
      using a4 sub(1) by blast
    have c7: "ce_transcript_ok env \<and> truthy (ce_TRANSCRIPT_CHANNEL_ID env)
          \<and> ce_archiveChannel env = Resolves True
          \<and> embedOk (archiveEmbed this user reason (row, cat)) \<and> ce_archiveSend_ok env
          \<and> truthyOpt (t_staffThreadId row)
          \<and> (ce_staffThread env = Rejects
             \<or> ce_staffThread env = Resolves True
                \<and> (ce_staffMessages env = Rejects
                   \<or> (\<exists>ms. ce_staffMessages env = Resolves ms \<and> 1 < length ms
                          \<and> (\<not> embedOk (staffEmbed this (row, cat) (length ms))
                             \<or> \<not> ce_staffSend_ok env)))) \<longrightarrow>
          Log LWarn ''Failed to send staff thread transcript'' \<in> set (newEvents w w')"
      using a5 sub(1) by blast
    have c8: "ce_transcript_ok env
          \<and> (ce_owner env = Rejects
             \<or> ce_owner env = Resolves True
                \<and> (\<not> embedOk (dmEmbed this user reason (row, cat)) \<or> \<not> ce_ownerSend_ok env)) \<longrightarrow>
          Log LWarn ''Failed to send transcript DM to ticket owner'' \<in> set (newEvents w w')"
      using o(3) sub(2) by blast
    show ?thesis
      by (intro exI [of _ w'] conjI c g c2 c3 c4 c5 c6 c7 c8)
  qed
qed

section \<open>Closing a ticket: the calls of the static method\<close>

lemma closeSubmitted_calls:
  assumes "ce_deferReply_ok env"
    and "closeTicket env ticket (ce_user env) reason (emit DeferReply w0) = (True, wi)"
  shows "\<exists>resolved w' w4.
       closeSubmitted env channelId ticket modalInteraction reason w0 = (Closed True resolved, w')
     \<and> ActiveTickets w' = (ActiveTickets wi)(channelId := None)
     \<and> db_tickets w' = db_tickets wi \<and> db_tickets w4 = db_tickets wi
     \<and> trace w' = trace wi @ [RegistryDelete channelId, DeleteReply]
          @ (if ce_deleteReply_ok env
             then newEvents w4 (snd (notifyOwner env ticket modalInteraction reason w4)) else [])"
proof -
  define w4 where "w4 = emit DeleteReply (registryDelete channelId wi)"
  have t4: "trace w4 = trace wi @ [RegistryDelete channelId, DeleteReply]"
    and a4: "ActiveTickets w4 = (ActiveTickets wi)(channelId := None)"
    and d4: "db_tickets w4 = db_tickets wi"
    by (simp_all add: w4_def)
  show ?thesis
  proof (cases "ce_deleteReply_ok env")
    case False
    then have "closeSubmitted env channelId ticket modalInteraction reason w0 = (Closed True False, w4)"
      using assms by (simp add: closeSubmitted_def Let_def w4_def)
    then show ?thesis
      using False t4 a4 d4 by (intro exI [of _ False] exI [of _ w4]) simp
  next
    case True
    obtain resolved w' where n: "notifyOwner env ticket modalInteraction reason w4 = (resolved, w')"
      by (cases "notifyOwner env ticket modalInteraction reason w4")
    have o: "onlyEmits w4 w'"
      using notifyOwner_onlyEmits [of w4 env ticket modalInteraction reason] n by simp
    have tr: "trace w' = trace w4 @ newEvents w4 w'"
      by (rule onlyEmits_trace [OF o])
    have c: "closeSubmitted env channelId ticket modalInteraction reason w0 = (Closed True resolved, w')"
      using assms True n by (simp add: closeSubmitted_def Let_def w4_def)
    have "ActiveTickets w' = (ActiveTickets wi)(channelId := None)" "db_tickets w' = db_tickets wi"
      using onlyEmitsD [OF o] a4 d4 by simp_all
    moreover have "trace w' = trace wi @ [RegistryDelete channelId, DeleteReply]
          @ (if ce_deleteReply_ok env
             then newEvents w4 (snd (notifyOwner env ticket modalInteraction reason w4)) else [])"
      using tr t4 True n by simp
    ultimately show ?thesis
      using c d4 by (intro exI [of _ resolved] exI [of _ w'] exI [of _ w4]) simp
  qed
qed

lemma closureMessage_emit [simp]:
  "closureMessage env this user reason (emit e w) = closureMessage env this user reason w"
  by (simp add: closureMessage_def)

lemma submittedReason_user:
  assumes "submittedReason env channelId = Some (modalInteraction, reason)"
  shows "u_id (ms_user modalInteraction) = u_id (ce_user env)"
  using assms
  by (auto simp: submittedReason_def awaitModalSubmit_def find_Some_iff split: option.splits)

text \<open>
  A confirmed close request whose reads and writes of the store succeed: the calls of the
  instance method, then the removal from the Registry and the deletion of the reply, then
  the calls of the notification.
\<close>

lemma Ticket_closeTicket_calls:
  assumes "getTicket channelId w = Some ticket"
    and "confirmed env channelId"
    and "submittedReason env channelId = Some (modalInteraction, reason)"
    and "tickets_findWithCategory (ce_findInfo_ok env) (ticketId ticket) w = Resolves (Some (row, cat))"
    and "ce_update_ok env" and "ce_create_ok env" and "embedOk (closureEmbed reason)"
  shows "\<exists>wi resolved w' w4 doc wa wo.
       closeTicket env ticket (ce_user env) reason (promptShown channelId w) = (True, wi)
     \<and> Ticket_closeTicket env channelId w = (Closed True resolved, w')
     \<and> ActiveTickets wi = ActiveTickets w
     \<and> ActiveTickets w' = (ActiveTickets w)(channelId := None)
     \<and> tickets_findUnique (ticketId ticket) w4 = Some (row\<lparr>t_closedAt := Some (ce_now env)\<rparr>)
     \<and> tr_ticket doc = row\<lparr>t_closedAt := Some (ce_now env)\<rparr> \<and> tr_categoryName doc = c_name cat
     \<and> newEvents w wi =
         [ShowModal (closeModalId channelId) (closeModalInputs channelId), DeferReply,
          Log LInfo ''Ticket closed'', DbTicketClose (ticketId ticket) (ce_now env),
          DbMessageCreate (closureMessage env ticket (ce_user env) reason w)]
         @ (if ce_transcript_ok env
            then [GenerateTranscript (ticketId ticket), Log LSuccess ''Generated transcript'']
              @ newEvents wa (sendArchive env ticket (ce_user env) reason (Some (row, cat)) (Some doc) wa)
              @ newEvents wo (sendOwnerTranscript env ticket (ce_user env) reason (Some (row, cat)) (Some doc) wo)
              @ [ScheduleDelete (ch_id (channel ticket)) 500]
            else [GenerateTranscript (ticketId ticket), Log LError ''Failed to generate transcript'',
              Log LError ''Failed to generate transcript for ticket'',
              ScheduleDelete (ch_id (channel ticket)) 500])
     \<and> newEvents w w' = newEvents w wi @ [RegistryDelete channelId, DeleteReply]
          @ (if ce_deleteReply_ok env
             then newEvents w4 (snd (notifyOwner env ticket modalInteraction reason w4)) else [])"
proof -
  let ?w0 = "emit (ShowModal (closeModalId channelId) (closeModalInputs channelId)) w"
  have p: "promptShown channelId w = emit DeferReply ?w0"
    by (simp add: promptShown_def)
  have tp: "trace (promptShown channelId w) = trace w
      @ [ShowModal (closeModalId channelId) (closeModalInputs channelId), DeferReply]"
    by (simp add: promptShown_def)
  from assms(2) have d: "ce_deferReply_ok env"
    by (simp add: confirmed_def)
  have f: "tickets_findWithCategory (ce_findInfo_ok env) (ticketId ticket) (promptShown channelId w)
      = Resolves (Some (row, cat))"
    using assms(4) by (simp add: promptShown_def)
  from assms(4) have r: "tickets_findUnique (ticketId ticket) w = Some row"
    by (auto simp: tickets_findWithCategory_def split: if_splits option.splits)
  then have rid: "t_id row = ticketId ticket"
    by (auto simp: tickets_findUnique_def find_Some_iff)
  have cr: "closeRow (ce_now env) (ticketId ticket) row = row\<lparr>t_closedAt := Some (ce_now env)\<rparr>"
    using rid by (simp add: closeRow_def)
  from closeTicket_calls [OF f assms(5-7), where user = "ce_user env"]
  obtain wi doc wa wo where c: "closeTicket env ticket (ce_user env) reason (promptShown channelId w) = (True, wi)"
    and dc: "tr_ticket doc = closeRow (ce_now env) (ticketId ticket) row" "tr_categoryName doc = c_name cat"
    and ti: "trace wi = trace (promptShown channelId w) @ newEvents (promptShown channelId w) wi"
    and ei: "newEvents (promptShown channelId w) wi =
         [Log LInfo ''Ticket closed'', DbTicketClose (ticketId ticket) (ce_now env),
          DbMessageCreate (closureMessage env ticket (ce_user env) reason (promptShown channelId w))]
         @ (if ce_transcript_ok env
            then [GenerateTranscript (ticketId ticket), Log LSuccess ''Generated transcript'']
              @ newEvents wa (sendArchive env ticket (ce_user env) reason (Some (row, cat)) (Some doc) wa)
              @ newEvents wo (sendOwnerTranscript env ticket (ce_user env) reason (Some (row, cat)) (Some doc) wo)
              @ [ScheduleDelete (ch_id (channel ticket)) 500]
            else [GenerateTranscript (ticketId ticket), Log LError ''Failed to generate transcript'',
              Log LError ''Failed to generate transcript for ticket'',
              ScheduleDelete (ch_id (channel ticket)) 500])"
    by blast
  from c have wi: "wi = snd (closeTicket env ticket (ce_user env) reason (promptShown channelId w))"
    by simp
  have ai: "ActiveTickets wi = ActiveTickets w"
    unfolding wi by (simp add: promptShown_def)
  from closeTicket_success [OF c]
  obtain row' cat' where "wi = fanOut env ticket (ce_user env) reason (Some (row', cat'))
      (afterWrites env ticket (ce_user env) reason (promptShown channelId w))"
    by blast
  then have di: "db_tickets wi = map (closeRow (ce_now env) (ticketId ticket)) (db_tickets w)"
    using onlyEmitsD(3) [OF fanOut_onlyEmits] by (simp add: promptShown_def)
  from closeSubmitted_calls [OF d c [unfolded p], of channelId modalInteraction]
  obtain resolved w' w4 where s: "closeSubmitted env channelId ticket modalInteraction reason ?w0
        = (Closed True resolved, w')"
    and a': "ActiveTickets w' = (ActiveTickets wi)(channelId := None)"
    and d4: "db_tickets w4 = db_tickets wi"
    and t': "trace w' = trace wi @ [RegistryDelete channelId, DeleteReply]
          @ (if ce_deleteReply_ok env
             then newEvents w4 (snd (notifyOwner env ticket modalInteraction reason w4)) else [])"
    by blast
  have t: "Ticket_closeTicket env channelId w = (Closed True resolved, w')"
    using Ticket_closeTicket_confirmed [OF assms(1-3)] s by simp
  have r4: "tickets_findUnique (ticketId ticket) w4 = Some (row\<lparr>t_closedAt := Some (ce_now env)\<rparr>)"
    using r d4 di cr by (simp add: tickets_findUnique_def find_map_keep_id closeRow_def)
  have twi: "trace wi = trace w @ [ShowModal (closeModalId channelId) (closeModalInputs channelId), DeferReply]
      @ newEvents (promptShown channelId w) wi"
    using ti tp by simp
  have nwi: "newEvents w wi = [ShowModal (closeModalId channelId) (closeModalInputs channelId), DeferReply]
      @ newEvents (promptShown channelId w) wi"
    by (rule newEvents_trace [OF twi])
  have e1: "newEvents w wi =
         [ShowModal (closeModalId channelId) (closeModalInputs channelId), DeferReply,
          Log LInfo ''Ticket closed'', DbTicketClose (ticketId ticket) (ce_now env),
          DbMessageCreate (closureMessage env ticket (ce_user env) reason w)]
         @ (if ce_transcript_ok env
            then [GenerateTranscript (ticketId ticket), Log LSuccess ''Generated transcript'']
              @ newEvents wa (sendArchive env ticket (ce_user env) reason (Some (row, cat)) (Some doc) wa)
              @ newEvents wo (sendOwnerTranscript env ticket (ce_user env) reason (Some (row, cat)) (Some doc) wo)
              @ [ScheduleDelete (ch_id (channel ticket)) 500]
            else [GenerateTranscript (ticketId ticket), Log LError ''Failed to generate transcript'',
              Log LError ''Failed to generate transcript for ticket'',
              ScheduleDelete (ch_id (channel ticket)) 500])"
    unfolding nwi ei by (simp add: promptShown_def)
  have "trace w' = trace w @ newEvents w wi @ [RegistryDelete channelId, DeleteReply]
          @ (if ce_deleteReply_ok env
             then newEvents w4 (snd (notifyOwner env ticket modalInteraction reason w4)) else [])"
    unfolding t' twi nwi by simp
  then have e2: "newEvents w w' = newEvents w wi @ [RegistryDelete channelId, DeleteReply]
          @ (if ce_deleteReply_ok env
             then newEvents w4 (snd (notifyOwner env ticket modalInteraction reason w4)) else [])"
    by (rule newEvents_trace)
  have a'': "ActiveTickets w' = (ActiveTickets w)(channelId := None)"
    using a' ai by simp
  have dc': "tr_ticket doc = row\<lparr>t_closedAt := Some (ce_now env)\<rparr>"
    using dc(1) cr by simp
  show ?thesis
    by (intro exI [of _ wi] exI [of _ resolved] exI [of _ w'] exI [of _ w4]
        exI [of _ doc] exI [of _ wa] exI [of _ wo] conjI c t ai a'' r4 dc' dc(2) e1 e2)
qed

section \<open>Closing a ticket: the order of the steps\<close>

lemma filter_kinds_absent:
  "set (map eventKind evs) \<inter> K = {} \<Longrightarrow> filter (\<lambda>e. eventKind e \<in> K) evs = []"
  by (induction evs) auto

text \<open>
  C4, as the code has it. Take a confirmed close request (the modal is shown, a matching
  submission with the reason arrives in time, the reply is deferred) on a registered
  channel, whose reads and writes of the store succeed. The request ends with the instance
  method reporting success. Its calls are those made until the instance method returns,
  then the removal from the Registry, then the rest. Until the instance method returns,
  the two writes, the generation of the transcript and the scheduling of the channel's
  deletion are made, in this order, and every post of the fan-out that is made at all is
  made there; the ticket is still reachable by its channel id when the instance method
  returns. After the removal from the Registry only the deferred reply is deleted and the
  requester notified. After the request the channel has no ticket in the Registry.
\<close>

theorem unregister_follows_fanOut:
  assumes "getTicket channelId w = Some ticket"
    and "confirmed env channelId"
    and "submittedReason env channelId = Some (modalInteraction, reason)"
    and "tickets_findWithCategory (ce_findInfo_ok env) (ticketId ticket) w = Resolves (Some (row, cat))"
    and "ce_update_ok env" and "ce_create_ok env" and "embedOk (closureEmbed reason)"
  shows "\<exists>resolved w' wi after.
       Ticket_closeTicket env channelId w = (Closed True resolved, w')
     \<and> closeTicket env ticket (ce_user env) reason (promptShown channelId w) = (True, wi)
     \<and> getTicket channelId wi = Some ticket
     \<and> newEvents w w' = newEvents w wi @ [RegistryDelete channelId] @ after
     \<and> set (map eventKind (newEvents w wi)) \<subseteq>
          {ShowModalK, DeferReplyK, LogK, DbTicketCloseK, DbMessageCreateK, GenerateTranscriptK,
           FetchChannelK, ArchiveSendK, FetchThreadMessagesK, StaffTranscriptSendK, FetchUserK,
           OwnerTranscriptSendK, ScheduleDeleteK}
     \<and> filter (\<lambda>e. eventKind e \<in> {DbTicketCloseK, DbMessageCreateK, GenerateTranscriptK, ScheduleDeleteK})
           (newEvents w wi)
         = [DbTicketClose (ticketId ticket) (ce_now env),
            DbMessageCreate (closureMessage env ticket (ce_user env) reason w),
            GenerateTranscript (ticketId ticket),
            ScheduleDelete (ch_id (channel ticket)) 500]
     \<and> set (map eventKind after) \<subseteq> {DeleteReplyK, LogK, FetchMemberK, OwnerNoticeSendK}
     \<and> getTicket channelId w' = None"
proof -
  from Ticket_closeTicket_calls [OF assms]
  obtain wi resolved w' w4 doc wa wo where
    c: "closeTicket env ticket (ce_user env) reason (promptShown channelId w) = (True, wi)"
    and t: "Ticket_closeTicket env channelId w = (Closed True resolved, w')"
    and ai: "ActiveTickets wi = ActiveTickets w"
    and a': "ActiveTickets w' = (ActiveTickets w)(channelId := None)"
    and r4: "tickets_findUnique (ticketId ticket) w4 = Some (row\<lparr>t_closedAt := Some (ce_now env)\<rparr>)"
    and e1: "newEvents w wi =
         [ShowModal (closeModalId channelId) (closeModalInputs channelId), DeferReply,
          Log LInfo ''Ticket closed'', DbTicketClose (ticketId ticket) (ce_now env),
          DbMessageCreate (closureMessage env ticket (ce_user env) reason w)]
         @ (if ce_transcript_ok env
            then [GenerateTranscript (ticketId ticket), Log LSuccess ''Generated transcript'']
              @ newEvents wa (sendArchive env ticket (ce_user env) reason (Some (row, cat)) (Some doc) wa)
              @ newEvents wo (sendOwnerTranscript env ticket (ce_user env) reason (Some (row, cat)) (Some doc) wo)
              @ [ScheduleDelete (ch_id (channel ticket)) 500]
            else [GenerateTranscript (ticketId ticket), Log LError ''Failed to generate transcript'',
              Log LError ''Failed to generate transcript for ticket'',
              ScheduleDelete (ch_id (channel ticket)) 500])"
    and e2: "newEvents w w' = newEvents w wi @ [RegistryDelete channelId, DeleteReply]
          @ (if ce_deleteReply_ok env
             then newEvents w4 (snd (notifyOwner env ticket modalInteraction reason w4)) else [])"
    by blast
  define evA where "evA = newEvents wa (sendArchive env ticket (ce_user env) reason (Some (row, cat)) (Some doc) wa)"
  define evO where "evO = newEvents wo (sendOwnerTranscript env ticket (ce_user env) reason (Some (row, cat)) (Some doc) wo)"
  define evN where "evN = (if ce_deleteReply_ok env
             then newEvents w4 (snd (notifyOwner env ticket modalInteraction reason w4)) else [])"
  define K where "K = {DbTicketCloseK, DbMessageCreateK, GenerateTranscriptK, ScheduleDeleteK}"
  have aK: "set (map eventKind evA) \<subseteq> {FetchChannelK, ArchiveSendK, FetchThreadMessagesK, StaffTranscriptSendK, LogK}"
    unfolding evA_def by (rule archive_events [THEN conjunct1])
  have oK: "set (map eventKind evO) \<subseteq> {FetchUserK, OwnerTranscriptSendK, LogK}"
    unfolding evO_def by (rule owner_events(1))
  have nK: "set (map eventKind evN) \<subseteq> {LogK, FetchMemberK, OwnerNoticeSendK}"
    using notify_events(1) [OF r4, of env modalInteraction reason]
    by (cases "ce_deleteReply_ok env") (simp_all add: evN_def)
  have fA: "filter (\<lambda>e. eventKind e \<in> K) evA = []"
    by (rule filter_kinds_absent) (use aK in \<open>auto simp: K_def\<close>)
  have fO: "filter (\<lambda>e. eventKind e \<in> K) evO = []"
    by (rule filter_kinds_absent) (use oK in \<open>auto simp: K_def\<close>)
  have g: "getTicket channelId wi = Some ticket"
    using assms(1) ai by simp
  have g': "getTicket channelId w' = None"
    using a' by simp
  have s: "newEvents w w' = newEvents w wi @ [RegistryDelete channelId] @ (DeleteReply # evN)"
    using e2 by (simp add: evN_def)
  have k2: "set (map eventKind (DeleteReply # evN)) \<subseteq> {DeleteReplyK, LogK, FetchMemberK, OwnerNoticeSendK}"
    using nK by auto
  have k1: "set (map eventKind (newEvents w wi)) \<subseteq>
          {ShowModalK, DeferReplyK, LogK, DbTicketCloseK, DbMessageCreateK, GenerateTranscriptK,
           FetchChannelK, ArchiveSendK, FetchThreadMessagesK, StaffTranscriptSendK, FetchUserK,
           OwnerTranscriptSendK, ScheduleDeleteK}"
  proof (cases "ce_transcript_ok env")
    case True
    then have "newEvents w wi =
         [ShowModal (closeModalId channelId) (closeModalInputs channelId), DeferReply,
          Log LInfo ''Ticket closed'', DbTicketClose (ticketId ticket) (ce_now env),
          DbMessageCreate (closureMessage env ticket (ce_user env) reason w),
          GenerateTranscript (ticketId ticket), Log LSuccess ''Generated transcript'']
         @ evA @ evO @ [ScheduleDelete (ch_id (channel ticket)) 500]"
      using e1 by (simp add: evA_def evO_def)
    then show ?thesis using aK oK by auto
  next
    case False
    then show ?thesis using e1 by simp
  qed
  have f: "filter (\<lambda>e. eventKind e \<in> K) (newEvents w wi)
         = [DbTicketClose (ticketId ticket) (ce_now env),
            DbMessageCreate (closureMessage env ticket (ce_user env) reason w),
            GenerateTranscript (ticketId ticket),
            ScheduleDelete (ch_id (channel ticket)) 500]"
  proof (cases "ce_transcript_ok env")
    case True
    then have "newEvents w wi =
         [ShowModal (closeModalId channelId) (closeModalInputs channelId), DeferReply,
          Log LInfo ''Ticket closed'', DbTicketClose (ticketId ticket) (ce_now env),
          DbMessageCreate (closureMessage env ticket (ce_user env) reason w),
          GenerateTranscript (ticketId ticket), Log LSuccess ''Generated transcript'']
         @ evA @ evO @ [ScheduleDelete (ch_id (channel ticket)) 500]"
      using e1 by (simp add: evA_def evO_def)
    then show ?thesis using fA fO by (simp add: K_def)
  next
    case False
    then show ?thesis using e1 by (simp add: K_def)
  qed
  show ?thesis
    by (intro exI [of _ resolved] exI [of _ w'] exI [of _ wi] exI [of _ "DeleteReply # evN"]
        conjI t c g s k1 f [unfolded K_def] k2 g')
qed

section \<open>Closing a ticket: the messages to the requester\<close>

text \<open>
  C6, as the code has it. Take a confirmed close request on a registered channel whose
  reads and writes of the store succeed. The direct message with the transcript goes to
  the requester (the user of the ticket's row) and to nobody else, it carries the closure
  summary (who closed the ticket and the reason) and the transcript of the ticket, and it
  is sent exactly when the transcript was generated, the requester's user was fetched and
  the embed of the summary was built: who closes the ticket plays no part. What is
  skipped when the closer is the requester is the second direct message, the notification
  "Your ticket closed" with the reason and without a transcript, which the static method
  sends to the requester after the close.
\<close>

theorem requester_direct_messages:
  assumes "getTicket channelId w = Some ticket"
    and "confirmed env channelId"
    and "submittedReason env channelId = Some (modalInteraction, reason)"
    and "tickets_findWithCategory (ce_findInfo_ok env) (ticketId ticket) w = Resolves (Some (row, cat))"
    and "ce_update_ok env" and "ce_create_ok env" and "embedOk (closureEmbed reason)"
  shows "\<exists>resolved w' doc.
       Ticket_closeTicket env channelId w = (Closed True resolved, w')
     \<and> tr_ticket doc = row\<lparr>t_closedAt := Some (ce_now env)\<rparr> \<and> tr_categoryName doc = c_name cat
     \<and> filter (\<lambda>e. eventKind e = OwnerTranscriptSendK) (newEvents w w') =
         (if ce_transcript_ok env \<and> ce_owner env = Resolves True
             \<and> embedOk (dmEmbed ticket (ce_user env) reason (row, cat))
          then [OwnerTranscriptSend (t_userId row) (dmEmbed ticket (ce_user env) reason (row, cat)) doc]
          else [])
     \<and> filter (\<lambda>e. eventKind e = OwnerNoticeSendK) (newEvents w w') =
         (if t_userId row \<noteq> u_id (ce_user env) \<and> ce_deleteReply_ok env \<and> ce_findUser_ok env
             \<and> embedOk (noticeEmbed reason) \<and> ce_guildPresent env \<and> ce_member_ok env
          then [OwnerNoticeSend (t_userId row) (noticeEmbed reason)]
          else [])"
proof -
  from Ticket_closeTicket_calls [OF assms]
  obtain wi resolved w' w4 doc wa wo where
    t: "Ticket_closeTicket env channelId w = (Closed True resolved, w')"
    and r4: "tickets_findUnique (ticketId ticket) w4 = Some (row\<lparr>t_closedAt := Some (ce_now env)\<rparr>)"
    and dc: "tr_ticket doc = row\<lparr>t_closedAt := Some (ce_now env)\<rparr>" "tr_categoryName doc = c_name cat"
    and e1: "newEvents w wi =
         [ShowModal (closeModalId channelId) (closeModalInputs channelId), DeferReply,
          Log LInfo ''Ticket closed'', DbTicketClose (ticketId ticket) (ce_now env),
          DbMessageCreate (closureMessage env ticket (ce_user env) reason w)]
         @ (if ce_transcript_ok env
            then [GenerateTranscript (ticketId ticket), Log LSuccess ''Generated transcript'']
              @ newEvents wa (sendArchive env ticket (ce_user env) reason (Some (row, cat)) (Some doc) wa)
              @ newEvents wo (sendOwnerTranscript env ticket (ce_user env) reason (Some (row, cat)) (Some doc) wo)
              @ [ScheduleDelete (ch_id (channel ticket)) 500]
            else [GenerateTranscript (ticketId ticket), Log LError ''Failed to generate transcript'',
              Log LError ''Failed to generate transcript for ticket'',
              ScheduleDelete (ch_id (channel ticket)) 500])"
    and e2: "newEvents w w' = newEvents w wi @ [RegistryDelete channelId, DeleteReply]
          @ (if ce_deleteReply_ok env
             then newEvents w4 (snd (notifyOwner env ticket modalInteraction reason w4)) else [])"
    by blast
  define evA where "evA = newEvents wa (sendArchive env ticket (ce_user env) reason (Some (row, cat)) (Some doc) wa)"
  define evO where "evO = newEvents wo (sendOwnerTranscript env ticket (ce_user env) reason (Some (row, cat)) (Some doc) wo)"
  define evN where "evN = newEvents w4 (snd (notifyOwner env ticket modalInteraction reason w4))"
  have aK: "set (map eventKind evA) \<subseteq> {FetchChannelK, ArchiveSendK, FetchThreadMessagesK, StaffTranscriptSendK, LogK}"
    unfolding evA_def by (rule archive_events [THEN conjunct1])
  have oK: "set (map eventKind evO) \<subseteq> {FetchUserK, OwnerTranscriptSendK, LogK}"
    unfolding evO_def by (rule owner_events(1))
  have nK: "set (map eventKind evN) \<subseteq> {LogK, FetchMemberK, OwnerNoticeSendK}"
    unfolding evN_def by (rule notify_events(1) [OF r4])
  have "OwnerTranscriptSendK \<notin> set (map eventKind evA)" "OwnerNoticeSendK \<notin> set (map eventKind evA)"
    using aK by auto
  then have fAt: "filter (\<lambda>e. eventKind e = OwnerTranscriptSendK) evA = []"
    and fAn: "filter (\<lambda>e. eventKind e = OwnerNoticeSendK) evA = []"
    by (simp_all add: filter_kind_absent)
  have "OwnerNoticeSendK \<notin> set (map eventKind evO)"
    using oK by auto
  then have fOn: "filter (\<lambda>e. eventKind e = OwnerNoticeSendK) evO = []"
    by (rule filter_kind_absent)
  have "OwnerTranscriptSendK \<notin> set (map eventKind evN)"
    using nK by auto
  then have fNt: "filter (\<lambda>e. eventKind e = OwnerTranscriptSendK) evN = []"
    by (rule filter_kind_absent)
  have fOt: "filter (\<lambda>e. eventKind e = OwnerTranscriptSendK) evO =
           (if ce_owner env = Resolves True \<and> embedOk (dmEmbed ticket (ce_user env) reason (row, cat))
            then [OwnerTranscriptSend (t_userId row) (dmEmbed ticket (ce_user env) reason (row, cat)) doc]
            else [])"
    unfolding evO_def using owner_events(2) [of wo env ticket "ce_user env" reason "(row, cat)" doc]
    by simp
  have fNn: "filter (\<lambda>e. eventKind e = OwnerNoticeSendK) evN =
           (if ce_findUser_ok env \<and> t_userId row \<noteq> u_id (ce_user env)
               \<and> embedOk (noticeEmbed reason) \<and> ce_guildPresent env \<and> ce_member_ok env
            then [OwnerNoticeSend (t_userId row) (noticeEmbed reason)] else [])"
    unfolding evN_def using notify_events(2) [OF r4, of env modalInteraction reason]
      submittedReason_user [OF assms(3)]
    by simp
  have ev: "newEvents w w' =
         [ShowModal (closeModalId channelId) (closeModalInputs channelId), DeferReply,
          Log LInfo ''Ticket closed'', DbTicketClose (ticketId ticket) (ce_now env),
          DbMessageCreate (closureMessage env ticket (ce_user env) reason w)]
         @ (if ce_transcript_ok env
            then [GenerateTranscript (ticketId ticket), Log LSuccess ''Generated transcript'']
              @ evA @ evO @ [ScheduleDelete (ch_id (channel ticket)) 500]
            else [GenerateTranscript (ticketId ticket), Log LError ''Failed to generate transcript'',
              Log LError ''Failed to generate transcript for ticket'',
              ScheduleDelete (ch_id (channel ticket)) 500])
         @ [RegistryDelete channelId, DeleteReply]
         @ (if ce_deleteReply_ok env then evN else [])"
    unfolding e2 e1 by (simp add: evA_def evO_def evN_def)
  have c1: "filter (\<lambda>e. eventKind e = OwnerTranscriptSendK) (newEvents w w') =
         (if ce_transcript_ok env \<and> ce_owner env = Resolves True
             \<and> embedOk (dmEmbed ticket (ce_user env) reason (row, cat))
          then [OwnerTranscriptSend (t_userId row) (dmEmbed ticket (ce_user env) reason (row, cat)) doc]
          else [])"
    unfolding ev using fAt fOt fNt by simp
  have c2: "filter (\<lambda>e. eventKind e = OwnerNoticeSendK) (newEvents w w') =
         (if t_userId row \<noteq> u_id (ce_user env) \<and> ce_deleteReply_ok env \<and> ce_findUser_ok env
             \<and> embedOk (noticeEmbed reason) \<and> ce_guildPresent env \<and> ce_member_ok env
          then [OwnerNoticeSend (t_userId row) (noticeEmbed reason)]
          else [])"
    unfolding ev using fAn fOn fNn by auto
  show ?thesis
    by (intro exI [of _ resolved] exI [of _ w'] exI [of _ doc] conjI t dc c1 c2)
qed

section \<open>Closing a ticket: two requests on one channel\<close>

text \<open>The static method is the look-up, the prompt and the wait, followed by the rest.\<close>

lemma Ticket_closeTicket_phases:
  "Ticket_closeTicket env channelId w =
     (case closePrompt env channelId w of
        (Inl result, w1) \<Rightarrow> (result, w1)
      | (Inr (ticket, modalInteraction, closureReason), w1) \<Rightarrow>
          closeSubmitted env channelId ticket modalInteraction closureReason w1)"
  by (simp add: Ticket_closeTicket_def closePrompt_def Let_def split: option.splits)

lemma longText_simps [simp]:
  "length longText = 1025" "longText \<noteq> []"
  by (simp_all add: longText_def)


section \<open>Closing a ticket: examples\<close>

lemma ex_result:
  "\<exists>w'. f = (r, w') \<and> Q w' \<Longrightarrow> f = (r, snd f) \<and> Q (snd f)"
  by auto

lemma example_registered:
  "getTicket ''555'' exampleWorld = Some exampleTicket"
  by (simp add: example_defs)

lemma example_confirmed:
  "confirmed (exampleClose user) ''555''"
  "submittedReason (exampleClose user) ''555''
     = Some (\<lparr>ms_customId = ''collector-closeticket-555'', ms_user = user, ms_at = 5000,
               ms_fields = [(''closure-reason-555'', ''done'')]\<rparr>, ''done'')"
  "tickets_findWithCategory (ce_findInfo_ok (exampleClose user)) (ticketId exampleTicket) exampleWorld
     = Resolves (Some (exampleRow, exampleCategory))"
  "ce_update_ok (exampleClose user)" "ce_create_ok (exampleClose user)"
  by (simp_all add: confirmed_def submittedReason_def close_defs example_defs)

lemma example_reason:
  "embedOk (closureEmbed ''done'')"
  by (simp add: close_defs)

theorem unregister_follows_fanOut_witness:
  "getTicket ''555'' exampleWorld = Some exampleTicket
   \<and> confirmed (exampleClose exampleStaff) ''555''
   \<and> tickets_findWithCategory (ce_findInfo_ok (exampleClose exampleStaff)) (ticketId exampleTicket) exampleWorld
       = Resolves (Some (exampleRow, exampleCategory))
   \<and> ce_update_ok (exampleClose exampleStaff) \<and> ce_create_ok (exampleClose exampleStaff)
   \<and> embedOk (closureEmbed ''done'')
   \<and> (\<exists>resolved w' wi after.
       Ticket_closeTicket (exampleClose exampleStaff) ''555'' exampleWorld = (Closed True resolved, w')
     \<and> closeTicket (exampleClose exampleStaff) exampleTicket (ce_user (exampleClose exampleStaff)) ''done''
          (promptShown ''555'' exampleWorld) = (True, wi)
     \<and> getTicket ''555'' wi = Some exampleTicket
     \<and> newEvents exampleWorld w' = newEvents exampleWorld wi @ [RegistryDelete ''555''] @ after
     \<and> set (map eventKind (newEvents exampleWorld wi)) \<subseteq>
          {ShowModalK, DeferReplyK, LogK, DbTicketCloseK, DbMessageCreateK, GenerateTranscriptK,
           FetchChannelK, ArchiveSendK, FetchThreadMessagesK, StaffTranscriptSendK, FetchUserK,
           OwnerTranscriptSendK, ScheduleDeleteK}
     \<and> filter (\<lambda>e. eventKind e \<in> {DbTicketCloseK, DbMessageCreateK, GenerateTranscriptK, ScheduleDeleteK})
           (newEvents exampleWorld wi)
         = [DbTicketClose (ticketId exampleTicket) (ce_now (exampleClose exampleStaff)),
            DbMessageCreate (closureMessage (exampleClose exampleStaff) exampleTicket
               (ce_user (exampleClose exampleStaff)) ''done'' exampleWorld),
            GenerateTranscript (ticketId exampleTicket),
            ScheduleDelete (ch_id (channel exampleTicket)) 500]
     \<and> set (map eventKind after) \<subseteq> {DeleteReplyK, LogK, FetchMemberK, OwnerNoticeSendK}
     \<and> getTicket ''555'' w' = None)"
proof -
  note h = example_registered example_confirmed [of exampleStaff] example_reason
  from unregister_follows_fanOut [OF h] h(1,2,4-7) show ?thesis
    by (intro conjI)
qed

text \<open>
  C4 as stated fails. The calls of a close request in which everything succeeds: the post
  to the transcript channel, the staff transcript and the direct message all come before
  the removal from the Registry, and the ticket is still reachable by its channel id when
  the instance method returns. And when the closure message cannot be created, the closed
  timestamp is already stored while the ticket stays in the Registry after the request.
\<close>

theorem unregister_after_archive_post:
  "map eventKind (trace (snd (Ticket_closeTicket (exampleClose exampleStaff) ''555'' exampleWorld)))
     = [ShowModalK, DeferReplyK, LogK, DbTicketCloseK, DbMessageCreateK,
        GenerateTranscriptK, LogK, FetchChannelK, ArchiveSendK, LogK,
        FetchChannelK, FetchThreadMessagesK, StaffTranscriptSendK, LogK,
        FetchUserK, OwnerTranscriptSendK, LogK, ScheduleDeleteK,
        RegistryDeleteK, DeleteReplyK, FetchMemberK, OwnerNoticeSendK]
   \<and> getTicket ''555'' (snd (closeTicket (exampleClose exampleStaff) exampleTicket exampleStaff ''done''
          (promptShown ''555'' exampleWorld))) = Some exampleTicket
   \<and> fst (Ticket_closeTicket ((exampleClose exampleStaff)\<lparr>ce_create_ok := False\<rparr>) ''555'' exampleWorld)
       = Closed False True
   \<and> getTicket ''555''
        (snd (Ticket_closeTicket ((exampleClose exampleStaff)\<lparr>ce_create_ok := False\<rparr>) ''555'' exampleWorld))
       = Some exampleTicket
   \<and> map t_closedAt (db_tickets
        (snd (Ticket_closeTicket ((exampleClose exampleStaff)\<lparr>ce_create_ok := False\<rparr>) ''555'' exampleWorld)))
       = [Some 100]"
  by (simp add: close_defs example_defs promptShown_def)

theorem requester_direct_messages_witness:
  "getTicket ''555'' exampleWorld = Some exampleTicket
   \<and> confirmed (exampleClose exampleStaff) ''555''
   \<and> tickets_findWithCategory (ce_findInfo_ok (exampleClose exampleStaff)) (ticketId exampleTicket) exampleWorld
       = Resolves (Some (exampleRow, exampleCategory))
   \<and> ce_update_ok (exampleClose exampleStaff) \<and> ce_create_ok (exampleClose exampleStaff)
   \<and> embedOk (closureEmbed ''done'')
   \<and> ce_transcript_ok (exampleClose exampleStaff) \<and> ce_owner (exampleClose exampleStaff) = Resolves True
   \<and> embedOk (dmEmbed exampleTicket exampleStaff ''done'' (exampleRow, exampleCategory))
   \<and> t_userId exampleRow = ''900'' \<and> u_id exampleStaff = ''700''
   \<and> (\<exists>resolved w' doc.
       Ticket_closeTicket (exampleClose exampleStaff) ''555'' exampleWorld = (Closed True resolved, w')
     \<and> tr_ticket doc = exampleRow\<lparr>t_closedAt := Some 100\<rparr>
     \<and> filter (\<lambda>e. eventKind e = OwnerTranscriptSendK) (newEvents exampleWorld w') =
          [OwnerTranscriptSend ''900'' (dmEmbed exampleTicket exampleStaff ''done'' (exampleRow, exampleCategory)) doc]
     \<and> filter (\<lambda>e. eventKind e = OwnerNoticeSendK) (newEvents exampleWorld w') =
          [OwnerNoticeSend ''900'' (noticeEmbed ''done'')])"
proof -
  note h = example_registered example_confirmed [of exampleStaff] example_reason
  have e: "ce_transcript_ok (exampleClose exampleStaff)" "ce_owner (exampleClose exampleStaff) = Resolves True"
    "embedOk (dmEmbed exampleTicket exampleStaff ''done'' (exampleRow, exampleCategory))"
    "t_userId exampleRow = ''900''" "u_id exampleStaff = ''700''"
    "ce_user (exampleClose exampleStaff) = exampleStaff" "ce_now (exampleClose exampleStaff) = 100"
    "ce_deleteReply_ok (exampleClose exampleStaff)" "ce_findUser_ok (exampleClose exampleStaff)"
    "embedOk (noticeEmbed ''done'')" "ce_guildPresent (exampleClose exampleStaff)"
    "ce_member_ok (exampleClose exampleStaff)"
    by (simp_all add: close_defs example_defs)
  from requester_direct_messages [OF h]
  obtain resolved w' doc where
    t: "Ticket_closeTicket (exampleClose exampleStaff) ''555'' exampleWorld = (Closed True resolved, w')"
    and d: "tr_ticket doc = exampleRow\<lparr>t_closedAt := Some (ce_now (exampleClose exampleStaff))\<rparr>"
    and f1: "filter (\<lambda>e. eventKind e = OwnerTranscriptSendK) (newEvents exampleWorld w') =
         (if ce_transcript_ok (exampleClose exampleStaff) \<and> ce_owner (exampleClose exampleStaff) = Resolves True
             \<and> embedOk (dmEmbed exampleTicket (ce_user (exampleClose exampleStaff)) ''done'' (exampleRow, exampleCategory))
          then [OwnerTranscriptSend (t_userId exampleRow)
                  (dmEmbed exampleTicket (ce_user (exampleClose exampleStaff)) ''done'' (exampleRow, exampleCategory)) doc]
          else [])"
    and f2: "filter (\<lambda>e. eventKind e = OwnerNoticeSendK) (newEvents exampleWorld w') =
         (if t_userId exampleRow \<noteq> u_id (ce_user (exampleClose exampleStaff))
             \<and> ce_deleteReply_ok (exampleClose exampleStaff) \<and> ce_findUser_ok (exampleClose exampleStaff)
             \<and> embedOk (noticeEmbed ''done'') \<and> ce_guildPresent (exampleClose exampleStaff)
             \<and> ce_member_ok (exampleClose exampleStaff)
          then [OwnerNoticeSend (t_userId exampleRow) (noticeEmbed ''done'')]
          else [])"
    by blast
  from d have d': "tr_ticket doc = exampleRow\<lparr>t_closedAt := Some 100\<rparr>"
    by (simp add: e)
  from f1 have f1': "filter (\<lambda>e. eventKind e = OwnerTranscriptSendK) (newEvents exampleWorld w') =
          [OwnerTranscriptSend ''900'' (dmEmbed exampleTicket exampleStaff ''done'' (exampleRow, exampleCategory)) doc]"
    by (simp add: e)
  from f2 have f2': "filter (\<lambda>e. eventKind e = OwnerNoticeSendK) (newEvents exampleWorld w') =
          [OwnerNoticeSend ''900'' (noticeEmbed ''done'')]"
    by (simp add: e)
  from t d' f1' f2' have "\<exists>resolved w' doc.
       Ticket_closeTicket (exampleClose exampleStaff) ''555'' exampleWorld = (Closed True resolved, w')
     \<and> tr_ticket doc = exampleRow\<lparr>t_closedAt := Some 100\<rparr>
     \<and> filter (\<lambda>e. eventKind e = OwnerTranscriptSendK) (newEvents exampleWorld w') =
          [OwnerTranscriptSend ''900'' (dmEmbed exampleTicket exampleStaff ''done'' (exampleRow, exampleCategory)) doc]
     \<and> filter (\<lambda>e. eventKind e = OwnerNoticeSendK) (newEvents exampleWorld w') =
          [OwnerNoticeSend ''900'' (noticeEmbed ''done'')]"
    by blast
  with h(1,2,4-7) e(1-5) show ?thesis
    by (intro conjI)
qed

text \<open>
  C6 as stated fails in both directions. When the requester closes the ticket, the direct
  message with the transcript is still sent to the requester (only the notification is
  skipped); and when someone else closes it but the transcript cannot be generated, the
  direct message with the transcript is skipped (only the notification is sent).
\<close>

theorem requester_gets_transcript_on_own_close:
  "fst (Ticket_closeTicket (exampleClose exampleOwner) ''555'' exampleWorld) = Closed True True
   \<and> t_userId exampleRow = u_id (ce_user (exampleClose exampleOwner))
   \<and> map eventKind (newEvents exampleWorld
        (snd (Ticket_closeTicket (exampleClose exampleOwner) ''555'' exampleWorld)))
      = [ShowModalK, DeferReplyK, LogK, DbTicketCloseK, DbMessageCreateK,
         GenerateTranscriptK, LogK, FetchChannelK, ArchiveSendK, LogK,
         FetchChannelK, FetchThreadMessagesK, StaffTranscriptSendK, LogK,
         FetchUserK, OwnerTranscriptSendK, LogK, ScheduleDeleteK,
         RegistryDeleteK, DeleteReplyK]
   \<and> fst (Ticket_closeTicket ((exampleClose exampleStaff)\<lparr>ce_transcript_ok := False\<rparr>) ''555'' exampleWorld)
        = Closed True True
   \<and> t_userId exampleRow \<noteq> u_id (ce_user ((exampleClose exampleStaff)\<lparr>ce_transcript_ok := False\<rparr>))
   \<and> map eventKind (newEvents exampleWorld
        (snd (Ticket_closeTicket ((exampleClose exampleStaff)\<lparr>ce_transcript_ok := False\<rparr>) ''555'' exampleWorld)))
      = [ShowModalK, DeferReplyK, LogK, DbTicketCloseK, DbMessageCreateK,
         GenerateTranscriptK, LogK, LogK, ScheduleDeleteK,
         RegistryDeleteK, DeleteReplyK, FetchMemberK, OwnerNoticeSendK]"
  by (simp add: close_defs example_defs newEvents_def)

text \<open>
  A close by the staff member with a reason of 1025 characters, in which every call
  succeeds: the method returns true, the builder refuses the embed of the post to the
  transcript channel and the embed of the direct message, both refusals are logged and
  neither message is sent.
\<close>

theorem fanOut_fault_isolation_witness:
  "tickets_findWithCategory (ce_findInfo_ok (exampleClose exampleStaff)) (ticketId exampleTicket) exampleWorld
       = Resolves (Some (exampleRow, exampleCategory))
   \<and> ce_update_ok (exampleClose exampleStaff) \<and> ce_create_ok (exampleClose exampleStaff)
   \<and> embedOk (closureEmbed longText)
   \<and> ce_transcript_ok (exampleClose exampleStaff)
   \<and> ce_archiveChannel (exampleClose exampleStaff) = Resolves True
   \<and> ce_owner (exampleClose exampleStaff) = Resolves True
   \<and> \<not> embedOk (archiveEmbed exampleTicket exampleStaff longText (exampleRow, exampleCategory))
   \<and> \<not> embedOk (dmEmbed exampleTicket exampleStaff longText (exampleRow, exampleCategory))
   \<and> fst (closeTicket (exampleClose exampleStaff) exampleTicket exampleStaff longText exampleWorld) = True
   \<and> attempted GenerateTranscriptK exampleWorld
        (snd (closeTicket (exampleClose exampleStaff) exampleTicket exampleStaff longText exampleWorld))
   \<and> \<not> attempted ArchiveSendK exampleWorld
        (snd (closeTicket (exampleClose exampleStaff) exampleTicket exampleStaff longText exampleWorld))
   \<and> \<not> attempted StaffTranscriptSendK exampleWorld
        (snd (closeTicket (exampleClose exampleStaff) exampleTicket exampleStaff longText exampleWorld))
   \<and> \<not> attempted OwnerTranscriptSendK exampleWorld
        (snd (closeTicket (exampleClose exampleStaff) exampleTicket exampleStaff longText exampleWorld))
   \<and> Log LError ''Failed to send transcript to channel'' \<in> set (newEvents exampleWorld
        (snd (closeTicket (exampleClose exampleStaff) exampleTicket exampleStaff longText exampleWorld)))
   \<and> Log LWarn ''Failed to send transcript DM to ticket owner'' \<in> set (newEvents exampleWorld
        (snd (closeTicket (exampleClose exampleStaff) exampleTicket exampleStaff longText exampleWorld)))"
proof -
  let ?w' = "snd (closeTicket (exampleClose exampleStaff) exampleTicket exampleStaff longText exampleWorld)"
  note h = example_confirmed(3-5) [of exampleStaff]
  have r: "embedOk (closureEmbed longText)"
    by (simp add: embedOk_def closureEmbed_def closureDescription_def truthy_def)
  have e: "ce_transcript_ok (exampleClose exampleStaff)"
    "truthy (ce_TRANSCRIPT_CHANNEL_ID (exampleClose exampleStaff))"
    "ce_archiveChannel (exampleClose exampleStaff) = Resolves True"
    "ce_owner (exampleClose exampleStaff) = Resolves True"
    by (simp_all add: exampleClose_def truthy_def)
  have n: "\<not> embedOk (archiveEmbed exampleTicket exampleStaff longText (exampleRow, exampleCategory))"
    "\<not> embedOk (dmEmbed exampleTicket exampleStaff longText (exampleRow, exampleCategory))"
    by (simp_all add: embedOk_def fieldOk_def archiveEmbed_def dmEmbed_def truthy_def)
  note t = ex_result [OF fanOut_fault_isolation [OF h r, where user = exampleStaff]]
  note c = t [THEN conjunct1]
  note g = t [THEN conjunct2, THEN conjunct1]
  note a = t [THEN conjunct2, THEN conjunct2, THEN conjunct1]
  note s = t [THEN conjunct2, THEN conjunct2, THEN conjunct2, THEN conjunct1]
  note o = t [THEN conjunct2, THEN conjunct2, THEN conjunct2, THEN conjunct2, THEN conjunct1]
  note la = t [THEN conjunct2, THEN conjunct2, THEN conjunct2, THEN conjunct2, THEN conjunct2,
      THEN conjunct2, THEN conjunct1]
  note lo = t [THEN conjunct2, THEN conjunct2, THEN conjunct2, THEN conjunct2, THEN conjunct2,
      THEN conjunct2, THEN conjunct2, THEN conjunct2]
  have c': "fst (closeTicket (exampleClose exampleStaff) exampleTicket exampleStaff longText exampleWorld) = True"
    using arg_cong [OF c, of fst] by simp
  have na: "\<not> attempted ArchiveSendK exampleWorld ?w'"
    unfolding a using n by simp
  have ns: "\<not> attempted StaffTranscriptSendK exampleWorld ?w'"
    unfolding s using n by simp
  have no: "\<not> attempted OwnerTranscriptSendK exampleWorld ?w'"
    unfolding o using n by simp
  have l1: "Log LError ''Failed to send transcript to channel'' \<in> set (newEvents exampleWorld ?w')"
    using la e n by simp
  have l2: "Log LWarn ''Failed to send transcript DM to ticket owner'' \<in> set (newEvents exampleWorld ?w')"
    using lo e n by simp
  show ?thesis
    by (intro conjI h r e(1,3,4) n c' g na ns no l1 l2)
qed

text \<open>
  C5 as stated fails. When generating the transcript fails, the method returns true but
  neither the post to the transcript channel nor the direct message to the requester is
  attempted; and when the post to the transcript channel fails, the staff transcript is
  not attempted although the staff thread holds two messages.
\<close>

theorem fanOut_skipped_without_transcript:
  "fst (closeTicket ((exampleClose exampleStaff)\<lparr>ce_transcript_ok := False\<rparr>) exampleTicket
          exampleStaff ''done'' exampleWorld) = True
   \<and> map eventKind (newEvents exampleWorld
        (snd (closeTicket ((exampleClose exampleStaff)\<lparr>ce_transcript_ok := False\<rparr>) exampleTicket
          exampleStaff ''done'' exampleWorld)))
      = [LogK, DbTicketCloseK, DbMessageCreateK, GenerateTranscriptK, LogK, LogK, ScheduleDeleteK]
   \<and> fst (closeTicket ((exampleClose exampleStaff)\<lparr>ce_archiveSend_ok := False\<rparr>) exampleTicket
          exampleStaff ''done'' exampleWorld) = True
   \<and> map eventKind (newEvents exampleWorld
        (snd (closeTicket ((exampleClose exampleStaff)\<lparr>ce_archiveSend_ok := False\<rparr>) exampleTicket
          exampleStaff ''done'' exampleWorld)))
      = [LogK, DbTicketCloseK, DbMessageCreateK, GenerateTranscriptK, LogK, FetchChannelK,
         ArchiveSendK, LogK, FetchUserK, OwnerTranscriptSendK, LogK, ScheduleDeleteK]"
  by (simp add: close_defs example_defs newEvents_def)

section \<open>The pass at start\<close>

lemma registrySet_simps [simp]:
  "ActiveTickets (registrySet c t w) = (ActiveTickets w)(c \<mapsto> t)"
  "db_categories (registrySet c t w) = db_categories w"
  "db_tickets (registrySet c t w) = db_tickets w"
  "db_messages (registrySet c t w) = db_messages w"
  "trace (registrySet c t w) = trace w @ [RegistrySet c (ticketId t)]"
  by (simp_all add: registrySet_def)

lemma findUnique_registrySet [simp]:
  "tickets_findUnique tid (registrySet c t w) = tickets_findUnique tid w"
  by (simp add: tickets_findUnique_def)

lemma forceClose_step:
  "map (forceClose env ids) (map (\<lambda>r. if t_id r = tid then r\<lparr>t_closedAt := Some (re_now env tid)\<rparr> else r) rows)
   = map (forceClose env (tid # ids)) rows"
  by (auto simp: forceClose_def)

lemma reloadLoop_spec:
  assumes "\<forall>t \<in> set ts. tickets_findUnique (t_id t) w \<noteq> None"
    and "\<forall>t \<in> set ts. orphaned env t \<longrightarrow> re_update_ok env (t_id t) \<and> re_create_ok env (t_id t)"
  shows "\<exists>w' new. reloadLoop env ts w = (True, w')
     \<and> db_tickets w' = map (forceClose env (map t_id (filter (orphaned env) ts))) (db_tickets w)
     \<and> db_categories w' = db_categories w
     \<and> db_messages w' = db_messages w @ new
     \<and> map closureNote new =
         map (\<lambda>t. (t_id t, u_id (re_bot env), u_displayName (re_bot env),
                    Some (embedMarker ''Ticket closed'' None))) (filter (orphaned env) ts)"
  using assms
proof (induction ts arbitrary: w)
  case Nil
  then show ?case by (simp add: forceClose_def)
next
  case (Cons t rest)
  show ?case
  proof (cases "resolveChannel env (t_channelId t)")
    case (Some ch)
    let ?w1 = "registrySet (ch_id ch) \<lparr>ticketId = t_id t, channel = ch\<rparr> (emit (FetchChannel (t_channelId t)) w)"
    have "\<forall>t \<in> set rest. tickets_findUnique (t_id t) ?w1 \<noteq> None"
      using Cons.prems(1) by simp
    from Cons.IH [OF this] Cons.prems(2)
    obtain w' new where "reloadLoop env rest ?w1 = (True, w')"
      and "db_tickets w' = map (forceClose env (map t_id (filter (orphaned env) rest))) (db_tickets ?w1)"
      and "db_categories w' = db_categories ?w1"
      and "db_messages w' = db_messages ?w1 @ new"
      and "map closureNote new =
         map (\<lambda>t. (t_id t, u_id (re_bot env), u_displayName (re_bot env),
                    Some (embedMarker ''Ticket closed'' None))) (filter (orphaned env) rest)"
      by auto
    moreover have "\<not> orphaned env t"
      using Some by (simp add: orphaned_def)
    ultimately show ?thesis using Some
      by (auto simp: Let_def)
  next
    case None
    let ?tid = "t_id t"
    let ?date = "re_now env ?tid"
    let ?w3 = "emit (DbTicketClose ?tid ?date)
                 (emit (Log LWarn ''Ticket was closed manually, closing in database.'')
                    (emit (FetchChannel (t_channelId t)) w))"
    let ?w4 = "?w3\<lparr>db_tickets := map (\<lambda>r. if t_id r = ?tid then r\<lparr>t_closedAt := Some ?date\<rparr> else r) (db_tickets ?w3)\<rparr>"
    let ?msg = "newMessage ?date ?tid (re_bot env) (u_avatar (re_bot env)) (embedMarker ''Ticket closed'' None) ?w4"
    let ?w6 = "(emit (DbMessageCreate ?msg) ?w4)\<lparr>db_messages := db_messages (emit (DbMessageCreate ?msg) ?w4) @ [?msg]\<rparr>"
    have orph: "orphaned env t"
      using None by (simp add: orphaned_def)
    have ok: "re_update_ok env ?tid" "re_create_ok env ?tid"
      using Cons.prems(2) orph by auto
    have ex: "tickets_findUnique ?tid w \<noteq> None"
      using Cons.prems(1) by simp
    have u: "tickets_update (re_update_ok env ?tid) ?tid (\<lambda>r. r\<lparr>t_closedAt := Some ?date\<rparr>) ?w3 = Some ?w4"
      using ok ex by (simp add: tickets_update_def)
    have keep: "tickets_findUnique i ?w4 \<noteq> None \<longleftrightarrow> tickets_findUnique i w \<noteq> None" for i
      by (simp add: tickets_findUnique_def find_map_keep_id)
    have c: "ticketMessages_create (re_create_ok env ?tid) ?msg (emit (DbMessageCreate ?msg) ?w4) = Some ?w6"
      using ok ex keep [of ?tid] by (simp add: ticketMessages_create_def newMessage_def)
    have step: "reloadLoop env (t # rest) w = reloadLoop env rest ?w6"
      using None u c by (simp add: Let_def)
    have "\<forall>t \<in> set rest. tickets_findUnique (t_id t) ?w6 \<noteq> None"
      using Cons.prems(1) keep by (simp add: tickets_findUnique_def)
    from Cons.IH [OF this] Cons.prems(2)
    obtain w' new where r: "reloadLoop env rest ?w6 = (True, w')"
      and t: "db_tickets w' = map (forceClose env (map t_id (filter (orphaned env) rest))) (db_tickets ?w6)"
      and g: "db_categories w' = db_categories ?w6"
      and m: "db_messages w' = db_messages ?w6 @ new"
      and n: "map closureNote new =
         map (\<lambda>t. (t_id t, u_id (re_bot env), u_displayName (re_bot env),
                    Some (embedMarker ''Ticket closed'' None))) (filter (orphaned env) rest)"
      by auto
    have t': "db_tickets w' = map (forceClose env (map t_id (filter (orphaned env) (t # rest)))) (db_tickets w)"
      using t orph by (auto simp: forceClose_def)
    have m': "db_messages w' = db_messages w @ (?msg # new)"
      using m by simp
    have n': "map closureNote (?msg # new) =
         map (\<lambda>t. (t_id t, u_id (re_bot env), u_displayName (re_bot env),
                    Some (embedMarker ''Ticket closed'' None))) (filter (orphaned env) (t # rest))"
      using n orph by (simp add: closureNote_def newMessage_def)
    show ?thesis
      using step r t' g m' n' by (intro exI [of _ w'] exI [of _ "?msg # new"]) simp
  qed
qed

lemma reloadLoop_registry_other:
  assumes "reloadLoop env ts w = (done, w')"
    and "c \<notin> t_channelId ` {t \<in> set ts. \<not> orphaned env t}"
  shows "ActiveTickets w' c = ActiveTickets w c"
  using assms
proof (induction ts arbitrary: w)
  case Nil
  then show ?case by simp
next
  case (Cons t rest)
  have c: "c \<notin> t_channelId ` {t \<in> set rest. \<not> orphaned env t}"
    using Cons.prems(2) by auto
  show ?case
  proof (cases "resolveChannel env (t_channelId t)")
    case (Some ch)
    then have "c \<noteq> t_channelId t" and i: "ch_id ch = t_channelId t"
      using Cons.prems(2) by (auto simp: orphaned_def resolveChannel_def split: promise.splits option.splits)
    moreover from Cons.prems(1) Some
    have "reloadLoop env rest (registrySet (ch_id ch) \<lparr>ticketId = t_id t, channel = ch\<rparr>
             (emit (FetchChannel (t_channelId t)) w)) = (done, w')"
      by (simp add: Let_def)
    from Cons.IH [OF this c] have "ActiveTickets w' c = ((ActiveTickets w)(ch_id ch \<mapsto> \<lparr>ticketId = t_id t, channel = ch\<rparr>)) c"
      by simp
    ultimately show ?thesis by simp
  next
    case None
    show ?thesis
      using Cons.prems(1) None Cons.IH [OF _ c]
      by (auto simp: Let_def tickets_update_def ticketMessages_create_def
          split: option.splits if_splits)
  qed
qed

lemma reloadLoop_registry_resolved:
  assumes "reloadLoop env ts w = (done, w')"
    and "distinct (map t_channelId ts)"
    and "t \<in> set ts"
    and "resolveChannel env (t_channelId t) = Some ch"
    and "done"
  shows "ActiveTickets w' (t_channelId t) = Some \<lparr>ticketId = t_id t, channel = ch\<rparr>"
  using assms
proof (induction ts arbitrary: w)
  case Nil
  then show ?case by simp
next
  case (Cons a rest)
  have d: "distinct (map t_channelId rest)"
    using Cons.prems(2) by simp
  show ?case
  proof (cases "resolveChannel env (t_channelId a)")
    case (Some cha)
    let ?w1 = "registrySet (ch_id cha) \<lparr>ticketId = t_id a, channel = cha\<rparr>
             (emit (FetchChannel (t_channelId a)) w)"
    have i: "ch_id cha = t_channelId a"
      using Some by (auto simp: resolveChannel_def split: promise.splits option.splits)
    have r: "reloadLoop env rest ?w1 = (done, w')"
      using Cons.prems(1) Some by (simp add: Let_def)
    show ?thesis
    proof (cases "t = a")
      case True
      have "t_channelId a \<notin> t_channelId ` {t \<in> set rest. \<not> orphaned env t}"
        using Cons.prems(2) by auto
      from reloadLoop_registry_other [OF r this] i True Some Cons.prems(4)
      show ?thesis by simp
    next
      case False
      then have "t \<in> set rest" using Cons.prems(3) by simp
      from Cons.IH [OF r d this Cons.prems(4,5)] show ?thesis .
    qed
  next
    case None
    then have "t \<noteq> a" using Cons.prems(4) by auto
    then have m: "t \<in> set rest" using Cons.prems(3) by simp
    show ?thesis
      using Cons.prems(1,5) None Cons.IH [OF _ d m Cons.prems(4,5)]
      by (auto simp: Let_def split: option.splits)
  qed
qed

lemma distinct_map_eq:
  "distinct (map f xs) \<Longrightarrow> x \<in> set xs \<Longrightarrow> y \<in> set xs \<Longrightarrow> f x = f y \<Longrightarrow> x = y"
  by (auto simp: distinct_map dest: inj_onD)

text \<open>C9. A pass at start in which the query succeeds and the writes that close a ticket
  succeed, over a store whose ticket ids are distinct and whose open tickets have distinct
  channels, completes. Exactly the open tickets whose channel does not resolve get their closed
  timestamp set, and each of them gets one message appended to the log, whose content is the bare
  marker of the embed titled "Ticket closed" and whose author is the bot. The rows of the other
  tickets are unchanged, so they remain open, and each of them is registered under its channel with
  its id; no other channel is registered by the pass. A ticket whose channel does not resolve does
  not stop the pass.\<close>

theorem reloadTickets_recovers:
  assumes "re_findMany_ok env"
    and "distinct (map t_id (db_tickets w))"
    and "distinct (map t_channelId (openTickets w))"
    and "\<forall>t \<in> set (openTickets w). orphaned env t \<longrightarrow>
           re_update_ok env (t_id t) \<and> re_create_ok env (t_id t)"
  shows "\<exists>w' new. reloadTickets env w = (True, w')
     \<and> db_tickets w' = map (\<lambda>r. if t_closedAt r = None \<and> orphaned env r
                                 then r\<lparr>t_closedAt := Some (re_now env (t_id r))\<rparr> else r) (db_tickets w)
     \<and> db_messages w' = db_messages w @ new
     \<and> map closureNote new =
         map (\<lambda>t. (t_id t, u_id (re_bot env), u_displayName (re_bot env),
                    Some (embedMarker ''Ticket closed'' None))) (filter (orphaned env) (openTickets w))
     \<and> (\<forall>t \<in> set (openTickets w). \<forall>ch. resolveChannel env (t_channelId t) = Some ch \<longrightarrow>
           ActiveTickets w' (t_channelId t) = Some \<lparr>ticketId = t_id t, channel = ch\<rparr>)
     \<and> (\<forall>c. c \<notin> t_channelId ` {t \<in> set (openTickets w). \<not> orphaned env t} \<longrightarrow>
           ActiveTickets w' c = ActiveTickets w c)"
proof -
  let ?ids = "map t_id (filter (orphaned env) (openTickets w))"
  have sub: "set (openTickets w) \<subseteq> set (db_tickets w)"
    by (auto simp: openTickets_def)
  have ex: "\<forall>t \<in> set (openTickets w). tickets_findUnique (t_id t) w \<noteq> None"
    using sub by (auto simp: tickets_findUnique_def find_None_iff)
  from reloadLoop_spec [OF ex assms(4)]
  obtain w1 new where l: "reloadLoop env (openTickets w) w = (True, w1)"
    and t: "db_tickets w1 = map (forceClose env ?ids) (db_tickets w)"
    and m: "db_messages w1 = db_messages w @ new"
    and n: "map closureNote new =
         map (\<lambda>t. (t_id t, u_id (re_bot env), u_displayName (re_bot env),
                    Some (embedMarker ''Ticket closed'' None))) (filter (orphaned env) (openTickets w))"
    by blast
  let ?w' = "emit (Log LSuccess ''Reloaded tickets from database'') w1"
  have r: "reloadTickets env w = (True, ?w')"
    using assms(1) l by (simp add: reloadTickets_def openTickets_def)
  have "forceClose env ?ids r = (if t_closedAt r = None \<and> orphaned env r
        then r\<lparr>t_closedAt := Some (re_now env (t_id r))\<rparr> else r)" if "r \<in> set (db_tickets w)" for r
  proof (cases "t_closedAt r = None \<and> orphaned env r")
    case True
    then have "t_id r \<in> set ?ids" using that by (auto simp: openTickets_def)
    then show ?thesis using True by (simp add: forceClose_def)
  next
    case False
    have "t_id r \<notin> set ?ids"
    proof
      assume "t_id r \<in> set ?ids"
      then obtain x where x: "x \<in> set (openTickets w)" "orphaned env x" "t_id x = t_id r"
        by auto
      then have "x = r"
        using distinct_map_eq [OF assms(2), of x r] sub that by auto
      with x False show False by (auto simp: openTickets_def)
    qed
    then show ?thesis using False by (auto simp: forceClose_def)
  qed
  then have t': "db_tickets ?w' = map (\<lambda>r. if t_closedAt r = None \<and> orphaned env r
        then r\<lparr>t_closedAt := Some (re_now env (t_id r))\<rparr> else r) (db_tickets w)"
    using t by simp
  have a: "\<forall>t \<in> set (openTickets w). \<forall>ch. resolveChannel env (t_channelId t) = Some ch \<longrightarrow>
           ActiveTickets ?w' (t_channelId t) = Some \<lparr>ticketId = t_id t, channel = ch\<rparr>"
    using reloadLoop_registry_resolved [OF l assms(3)] by simp
  have b: "\<forall>c. c \<notin> t_channelId ` {t \<in> set (openTickets w). \<not> orphaned env t} \<longrightarrow>
           ActiveTickets ?w' c = ActiveTickets w c"
    using reloadLoop_registry_other [OF l] by simp
  show ?thesis
    using r t' m n a b by (intro exI [of _ ?w'] exI [of _ new]) simp
qed

lemmas reload_defs = reloadTickets_def resolveChannel_def registrySet_def emit_def
  tickets_update_def tickets_findUnique_def ticketMessages_create_def newMessage_def nextId_def
  Let_def

lemma embedMarker_closed:
  \<open>embedMarker ''Ticket closed'' None = ''<EMBED:{"title":"Ticket closed"}>''\<close>
  by (simp add: embedMarker_def jsonString_def jsonChar_def)

theorem reloadTickets_recovers_witness:
  \<open>re_findMany_ok exampleReload
   \<and> distinct (map t_id (db_tickets exampleStore))
   \<and> distinct (map t_channelId (openTickets exampleStore))
   \<and> map t_id (openTickets exampleStore) = [1, 2, 3]
   \<and> map t_id (filter (orphaned exampleReload) (openTickets exampleStore)) = [2, 3]
   \<and> fst (reloadTickets exampleReload exampleStore) = True
   \<and> map t_closedAt (db_tickets (snd (reloadTickets exampleReload exampleStore)))
       = [None, Some 200, Some 200, Some 5]
   \<and> map closureNote (db_messages (snd (reloadTickets exampleReload exampleStore)))
       = [(1, ''900'', ''Ann'', Some ''hello''),
          (2, ''1'', ''Bot'', Some ''<EMBED:{"title":"Ticket closed"}>''),
          (3, ''1'', ''Bot'', Some ''<EMBED:{"title":"Ticket closed"}>'')]
   \<and> ActiveTickets (snd (reloadTickets exampleReload exampleStore)) ''555''
       = Some \<lparr>ticketId = 1, channel = \<lparr>ch_id = ''555'', ch_name = ''ann''\<rparr>\<rparr>
   \<and> ActiveTickets (snd (reloadTickets exampleReload exampleStore)) ''666'' = None
   \<and> ActiveTickets (snd (reloadTickets exampleReload exampleStore)) ''777'' = None\<close>
proof -
  have o: "openTickets exampleStore = [exampleRow,
                   exampleRow\<lparr>t_id := 2, t_channelId := ''666''\<rparr>,
                   exampleRow\<lparr>t_id := 3, t_channelId := ''777''\<rparr>]"
    by (simp add: openTickets_def exampleStore_def exampleRow_def)
  have h1: "re_findMany_ok exampleReload"
    by (simp add: exampleReload_def)
  have h2: "distinct (map t_id (db_tickets exampleStore))"
    by (simp add: exampleStore_def exampleRow_def)
  have h3: "distinct (map t_channelId (openTickets exampleStore))"
    by (simp add: o exampleRow_def)
  have h4: "\<forall>t \<in> set (openTickets exampleStore). orphaned exampleReload t \<longrightarrow>
           re_update_ok exampleReload (t_id t) \<and> re_create_ok exampleReload (t_id t)"
    by (simp add: exampleReload_def)
  have f: "map t_id (filter (orphaned exampleReload) (openTickets exampleStore)) = [2, 3]"
    by (simp add: o orphaned_def resolveChannel_def exampleReload_def exampleRow_def)
  have r1: "resolveChannel exampleReload ''555'' = Some \<lparr>ch_id = ''555'', ch_name = ''ann''\<rparr>"
    by (simp add: resolveChannel_def exampleReload_def)
  have n: "''666'' \<notin> t_channelId ` {t \<in> set (openTickets exampleStore). \<not> orphaned exampleReload t}"
    "''777'' \<notin> t_channelId ` {t \<in> set (openTickets exampleStore). \<not> orphaned exampleReload t}"
    by (auto simp: o orphaned_def resolveChannel_def exampleReload_def exampleRow_def)
  have e: "ActiveTickets exampleStore = Map.empty"
    by (simp add: exampleStore_def)
  from reloadTickets_recovers [OF h1 h2 h3 h4]
  obtain w' new where w: "reloadTickets exampleReload exampleStore = (True, w')"
    and t: "db_tickets w' = map (\<lambda>r. if t_closedAt r = None \<and> orphaned exampleReload r
                                 then r\<lparr>t_closedAt := Some (re_now exampleReload (t_id r))\<rparr> else r)
                               (db_tickets exampleStore)"
    and m: "db_messages w' = db_messages exampleStore @ new"
    and c: "map closureNote new =
         map (\<lambda>t. (t_id t, u_id (re_bot exampleReload), u_displayName (re_bot exampleReload),
                    Some (embedMarker ''Ticket closed'' None)))
           (filter (orphaned exampleReload) (openTickets exampleStore))"
    and a: "\<forall>t \<in> set (openTickets exampleStore). \<forall>ch. resolveChannel exampleReload (t_channelId t) = Some ch \<longrightarrow>
           ActiveTickets w' (t_channelId t) = Some \<lparr>ticketId = t_id t, channel = ch\<rparr>"
    and b: "\<forall>c. c \<notin> t_channelId ` {t \<in> set (openTickets exampleStore). \<not> orphaned exampleReload t} \<longrightarrow>
           ActiveTickets w' c = ActiveTickets exampleStore c"
    by blast
  have t': "map t_closedAt (db_tickets w') = [None, Some 200, Some 200, Some 5]"
    unfolding t
    by (simp add: exampleStore_def exampleRow_def orphaned_def resolveChannel_def exampleReload_def)
  have fo: "filter (orphaned exampleReload) (openTickets exampleStore) =
      [exampleRow\<lparr>t_id := 2, t_channelId := ''666''\<rparr>, exampleRow\<lparr>t_id := 3, t_channelId := ''777''\<rparr>]"
    by (simp add: o orphaned_def resolveChannel_def exampleReload_def exampleRow_def)
  have m': \<open>map closureNote (db_messages w')
       = [(1, ''900'', ''Ann'', Some ''hello''),
          (2, ''1'', ''Bot'', Some ''<EMBED:{"title":"Ticket closed"}>''),
          (3, ''1'', ''Bot'', Some ''<EMBED:{"title":"Ticket closed"}>'')]\<close>
    unfolding m map_append c fo
    by (simp add: embedMarker_closed exampleStore_def exampleMessage_def closureNote_def
        exampleReload_def exampleBot_def exampleRow_def)
  have a': "ActiveTickets w' ''555'' = Some \<lparr>ticketId = 1, channel = \<lparr>ch_id = ''555'', ch_name = ''ann''\<rparr>\<rparr>"
    using a r1 by (simp add: o exampleRow_def)
  have b': "ActiveTickets w' ''666'' = None" "ActiveTickets w' ''777'' = None"
    using b n e by simp_all
  show ?thesis
    using h1 h2 h3 f w t' m' a' b' by (simp add: o exampleRow_def)
qed

text \<open>Not caught: a write of the catch block that rejects ends the pass.\<close>

lemma reloadTickets_write_rejected:
  "fst (reloadTickets (exampleReload\<lparr>re_update_ok := (\<lambda>t. False)\<rparr>) exampleStore) = False
   \<and> map t_closedAt (db_tickets (snd (reloadTickets (exampleReload\<lparr>re_update_ok := (\<lambda>t. False)\<rparr>) exampleStore)))
       = [None, None, None, Some 5]"
  by (simp add: reload_defs exampleReload_def exampleStore_def exampleRow_def exampleBot_def)

section \<open>The form that is never answered\<close>

lemmas intake_defs = createNewTicket_def createSubmitted_def createVerified_def createDirect_def
  openTicket_def createStaffThread_def formattedResponses_def renderFields_def renderField_def
  openModalId_def openModalInputs_def tbxInput_def fieldInput_def introEmbed_def
  permissionOverwrites_def awaitModalSubmit_def categories_findUnique_def registrySet_def
  emit_def nextId_def truthy_def truthyOpt_def Let_def embedOk_def fieldOk_def

text \<open>C7. An intake that shows a form (the category requires a transaction id or has fields),
  whose prompt is shown and to which no submission of the same requester for the same modal
  arrives within 60 seconds, ends cancelled: the world is the one before the call with only the
  fetch of the guild and the prompt added to the trace. So no ticket row is added, the Registry
  is unchanged and no channel creation is issued.\<close>

theorem createNewTicket_timeout:
  assumes "ie_category_ok env"
    and "categories_findUnique category_id w = Some categoryData"
    and "ie_guild env = Resolves True"
    and "c_requireTbxId categoryData \<or> c_fields categoryData \<noteq> []"
    and "ie_showModal_ok env"
    and "\<forall>m \<in> set (ie_submissions env). \<not> answersForm env categoryData m"
  shows "createNewTicket tbxIdRegex env category_id w =
       (IntakeCancelled,
        w\<lparr>trace := trace w @ [FetchGuild, ShowModal (openModalId categoryData (ie_user env))
                                              (openModalInputs categoryData)]\<rparr>)
     \<and> db_tickets (snd (createNewTicket tbxIdRegex env category_id w)) = db_tickets w
     \<and> ActiveTickets (snd (createNewTicket tbxIdRegex env category_id w)) = ActiveTickets w
     \<and> \<not> attempted ChannelCreateK w (snd (createNewTicket tbxIdRegex env category_id w))"
proof -
  have "awaitModalSubmit
          (\<lambda>m. ms_customId m = openModalId categoryData (ie_user env)
                \<and> u_id (ms_user m) = u_id (ie_user env))
          60000 (ie_submissions env) = None"
    using assms(6) by (auto simp: awaitModalSubmit_def find_None_iff answersForm_def)
  then have "createNewTicket tbxIdRegex env category_id w =
       (IntakeCancelled,
        w\<lparr>trace := trace w @ [FetchGuild, ShowModal (openModalId categoryData (ie_user env))
                                              (openModalInputs categoryData)]\<rparr>)"
    using assms(1-5) by (auto simp: createNewTicket_def Let_def emit_def)
  then show ?thesis
    by (simp add: attempted_def newEvents_def)
qed

theorem createNewTicket_timeout_witness:
  "ie_category_ok exampleIntake
   \<and> categories_findUnique 1 exampleWorld = Some exampleCategory
   \<and> c_requireTbxId exampleCategory
   \<and> answersForm exampleIntake exampleCategory (ie_submissions exampleIntake ! 0) = False
   \<and> answersForm exampleIntake exampleCategory (ie_submissions exampleIntake ! 1) = False
   \<and> fst (createNewTicket sampleTbxIdRegex exampleIntake 1 exampleWorld) = IntakeCancelled
   \<and> map eventKind (trace (snd (createNewTicket sampleTbxIdRegex exampleIntake 1 exampleWorld)))
       = [FetchGuildK, ShowModalK]
   \<and> db_tickets (snd (createNewTicket sampleTbxIdRegex exampleIntake 1 exampleWorld)) = db_tickets exampleWorld
   \<and> ActiveTickets (snd (createNewTicket sampleTbxIdRegex exampleIntake 1 exampleWorld))
       = ActiveTickets exampleWorld"
proof -
  have h1: "ie_category_ok exampleIntake" and h3: "ie_guild exampleIntake = Resolves True"
    and h5: "ie_showModal_ok exampleIntake"
    by (simp_all add: exampleIntake_def)
  have h2: "categories_findUnique 1 exampleWorld = Some exampleCategory"
    by (simp add: categories_findUnique_def exampleWorld_def exampleCategory_def)
  have h4: "c_requireTbxId exampleCategory \<or> c_fields exampleCategory \<noteq> []"
    by (simp add: exampleCategory_def)
  have a: "answersForm exampleIntake exampleCategory (ie_submissions exampleIntake ! 0) = False"
    "answersForm exampleIntake exampleCategory (ie_submissions exampleIntake ! 1) = False"
    by (simp_all add: answersForm_def exampleIntake_def exampleOwner_def exampleStaff_def)
  have h6: "\<forall>m \<in> set (ie_submissions exampleIntake). \<not> answersForm exampleIntake exampleCategory m"
    by (simp add: answersForm_def exampleIntake_def exampleOwner_def exampleStaff_def)
  from createNewTicket_timeout [OF h1 h2 h3 h4 h5 h6, of sampleTbxIdRegex] h1 h2 a
  show ?thesis
    by (simp add: exampleCategory_def exampleWorld_def)
qed

lemma showNat_1: "showNat (Suc 0) = ''1''" "showNat 1 = ''1''"
  by code_simp+

text \<open>With the same request answered in time, the ticket is opened.\<close>

lemma createNewTicket_answered:
  "fst (createNewTicket sampleTbxIdRegex
          (exampleIntake\<lparr>ie_submissions :=
             [\<lparr>ms_customId = ''collector-openticket-1-900'', ms_user = exampleOwner, ms_at = 5000,
               ms_fields = [(''tbxid'', ''tbx-000a0000a00000-aaa0aa''), (''1'', ''It broke'')]\<rparr>]\<rparr>)
          1 exampleWorld) = Opened 2
   \<and> map eventKind (trace (snd (createNewTicket sampleTbxIdRegex
          (exampleIntake\<lparr>ie_submissions :=
             [\<lparr>ms_customId = ''collector-openticket-1-900'', ms_user = exampleOwner, ms_at = 5000,
               ms_fields = [(''tbxid'', ''tbx-000a0000a00000-aaa0aa''), (''1'', ''It broke'')]\<rparr>]\<rparr>)
          1 exampleWorld)))
       = [FetchGuildK, ShowModalK, DeferReplyK, VerifyPurchaseK, FetchChannelK, ChannelCreateK,
          EditReplyK, DbTicketCreateK, RegistrySetK, ChannelSendK]"
  by (simp add: intake_defs example_defs exampleIntake_def sampleTbxIdRegex_def showNat_1 del: showNat.simps)

lemma sampleTbxIdRegex_examples:
  "sampleTbxIdRegex longText = False"
  "sampleTbxIdRegex ''tbx-000a0000a00000-aaa0aa'' = True"
  by (simp_all add: sampleTbxIdRegex_def longText_def numeral_eq_Suc)

text \<open>
  With an answer of 1025 characters the builder refuses the embed of the introductory
  message: the channel is created and the reply edited, then the function ends with an
  exception, and there is no row and no Registry entry for the channel.
\<close>

lemma createNewTicket_long_answer:
  "fst (createNewTicket sampleTbxIdRegex
          (exampleIntake\<lparr>ie_submissions :=
             [\<lparr>ms_customId = ''collector-openticket-1-900'', ms_user = exampleOwner, ms_at = 5000,
               ms_fields = [(''tbxid'', ''tbx-000a0000a00000-aaa0aa''), (''1'', longText)]\<rparr>]\<rparr>)
          1 exampleWorld) = IntakeRejected
   \<and> map eventKind (trace (snd (createNewTicket sampleTbxIdRegex
          (exampleIntake\<lparr>ie_submissions :=
             [\<lparr>ms_customId = ''collector-openticket-1-900'', ms_user = exampleOwner, ms_at = 5000,
               ms_fields = [(''tbxid'', ''tbx-000a0000a00000-aaa0aa''), (''1'', longText)]\<rparr>]\<rparr>)
          1 exampleWorld)))
       = [FetchGuildK, ShowModalK, DeferReplyK, VerifyPurchaseK, FetchChannelK, ChannelCreateK,
          EditReplyK]
   \<and> db_tickets (snd (createNewTicket sampleTbxIdRegex
          (exampleIntake\<lparr>ie_submissions :=
             [\<lparr>ms_customId = ''collector-openticket-1-900'', ms_user = exampleOwner, ms_at = 5000,
               ms_fields = [(''tbxid'', ''tbx-000a0000a00000-aaa0aa''), (''1'', longText)]\<rparr>]\<rparr>)
          1 exampleWorld)) = db_tickets exampleWorld
   \<and> ActiveTickets (snd (createNewTicket sampleTbxIdRegex
          (exampleIntake\<lparr>ie_submissions :=
             [\<lparr>ms_customId = ''collector-openticket-1-900'', ms_user = exampleOwner, ms_at = 5000,
               ms_fields = [(''tbxid'', ''tbx-000a0000a00000-aaa0aa''), (''1'', longText)]\<rparr>]\<rparr>)
          1 exampleWorld)) = ActiveTickets exampleWorld"
  by (simp add: intake_defs example_defs exampleIntake_def showNat_1 sampleTbxIdRegex_examples
      del: showNat.simps)

end
